theory Spec2Isabelle
  imports Main "HOL-Library.Sublist"
begin

section \<open>Synthesis results and the construct tree\<close>

text \<open>
  Synthesis is a constructor that adds constructs to the enclosing scope and may throw.
  A \<^verbatim>\<open>throw new Error(msg)\<close> is the value \<open>Inl (Error msg)\<close>; a normal return is
  \<open>Inr\<close> of the values the code goes on with. The scope is the list of the resources
  created so far, in creation order; a resource created inside a wrapper construct has
  the path \<open>wrapper/child\<close>. Calls to \<^verbatim>\<open>console.log\<close> are left out, and so is
  what the SDK itself checks when a construct is added to a scope: the SDK is not part
  of the repository.
\<close>

datatype error = Error string

text \<open>
  What the code takes from outside the repository: the \<^verbatim>\<open>change-case\<close> function
  \<^verbatim>\<open>pascalCase\<close> and the tokens the infrastructure SDK hands out for a resource
  (\<^verbatim>\<open>resource.ref\<close>, \<^verbatim>\<open>attrAllocationId\<close>, the name of a gateway endpoint service,
  the value of a parameter read by name, the identifiers of a looked-up resource share
  and of its item). They are parameters of the model, all strings as in the source.
\<close>

record sdk =
  pascalCase :: "string \<Rightarrow> string"
  ref :: "string \<Rightarrow> string"
  attrAllocationId :: "string \<Rightarrow> string"
  gatewayServiceName :: "string \<Rightarrow> string"
  valueForStringParameter :: "string \<Rightarrow> string"
  resourceShareId :: "string \<Rightarrow> string"
  resourceShareItemId :: "string \<Rightarrow> string"

datatype route_target =
    TransitGatewayTarget string
  | NatGatewayTarget string
  | GatewayTarget string

datatype resource =
    StringParameter string string string
      \<comment> \<open>construct id, parameterName, stringValue\<close>
  | DeleteDefaultVpc string
  | ParameterValue string
      \<comment> \<open>parameter read by \<^verbatim>\<open>valueForStringParameter\<close>: its name\<close>
  | ResourceShareLookup string string "string option"
      \<comment> \<open>construct id, resourceShareName, owningAccountId; owner is OTHER_ACCOUNTS\<close>
  | ResourceShareItemLookup string string string
      \<comment> \<open>construct id, resourceShareId, resourceShareItemType\<close>
  | Role string string "string option list" "string list" "string list"
      \<comment> \<open>construct id, roleName, trusted account principals, and the actions and
         resources of the one statement, of effect ALLOW, of its inline policy\<close>
  | CfnVPC string "string option" "bool option" "bool option" "string option" string
      \<comment> \<open>path, cidrBlock, enableDnsHostnames, enableDnsSupport, instanceTenancy, Name tag\<close>
  | CfnInternetGateway string
  | CfnVPCGatewayAttachment string string string
      \<comment> \<open>path, internetGatewayId, vpcId\<close>
  | CfnVPCEndpoint string string string "string list"
      \<comment> \<open>path, serviceName, vpcId, routeTableIds\<close>
  | CfnRouteTable string string string
      \<comment> \<open>path, vpcId, Name tag\<close>
  | CfnSubnet string string string string "bool option" string
      \<comment> \<open>path, vpcId, cidrBlock, availabilityZone, mapPublicIpOnLaunch, Name tag\<close>
  | CfnSubnetRouteTableAssociation string string string
      \<comment> \<open>path, subnetId, routeTableId\<close>
  | CfnEIP string string
      \<comment> \<open>path, domain\<close>
  | CfnNatGateway string string string string
      \<comment> \<open>path, subnetId, allocationId, Name tag\<close>
  | CfnRoute string string string route_target "string option"
      \<comment> \<open>path, routeTableId, destinationCidrBlock, target, dependsOn (a resource path)\<close>
  | TransitGatewayAttachment string string string "string list" string
      \<comment> \<open>construct id, name, transitGatewayId, subnetIds, vpcId\<close>

type_synonym scope = "resource list"

definition child :: "string \<Rightarrow> string \<Rightarrow> string" where
  "child parent cid = parent @ ''/'' @ cid"

section \<open>Secure network primitives (secure-vpc.ts)\<close>

record SecureVpc =
  vpc_node :: string
  secureVpcId :: string
  internetGatewayId :: "string option"

record SecureRouteTable =
  rt_node :: string
  secureRouteTableId :: string
  rt_vpc :: SecureVpc

record SecureSubnet =
  subnetName :: string
  availabilityZone :: string
  ipv4CidrBlock :: string
  mapPublicIpOnLaunch :: "bool option"
  routeTable :: SecureRouteTable
  subnetId :: string

record SecureNatGateway =
  natGatewayId :: string
  natGatewayName :: string

text \<open>
  \<^verbatim>\<open>new SecureRouteTable(scope, id, {name, vpc})\<close> (lines 43 to 54): one \<^verbatim>\<open>CfnRouteTable\<close> child
  named \<^verbatim>\<open>Resource\<close>, whose \<^verbatim>\<open>ref\<close> is the route table's identifier.
\<close>

definition new_SecureRouteTable ::
  "sdk \<Rightarrow> string \<Rightarrow> string \<Rightarrow> SecureVpc \<Rightarrow> scope \<Rightarrow> SecureRouteTable \<times> scope" where
  "new_SecureRouteTable k cid nm vpc sc =
     (let res = child cid ''Resource'' in
      (\<lparr>rt_node = cid, secureRouteTableId = ref k res, rt_vpc = vpc\<rparr>,
       sc @ [CfnRouteTable res (secureVpcId vpc) nm]))"

definition addTransitGatewayRoute ::
  "SecureRouteTable \<Rightarrow> string \<Rightarrow> string \<Rightarrow> string \<Rightarrow> string \<Rightarrow> scope \<Rightarrow> scope" where
  "addTransitGatewayRoute rt cid destination tgwId attachment sc =
     sc @ [CfnRoute (child (rt_node rt) cid) (secureRouteTableId rt) destination
             (TransitGatewayTarget tgwId) (Some attachment)]"

definition addNatGatewayRoute ::
  "SecureRouteTable \<Rightarrow> string \<Rightarrow> string \<Rightarrow> string \<Rightarrow> scope \<Rightarrow> scope" where
  "addNatGatewayRoute rt cid destination natId sc =
     sc @ [CfnRoute (child (rt_node rt) cid) (secureRouteTableId rt) destination
             (NatGatewayTarget natId) None]"

text \<open>
  \<^verbatim>\<open>addInternetGatewayRoute\<close> (lines 78 to 88). The guard is
  \<^verbatim>\<open>!this.vpc.internetGatewayId\<close> on a \<^verbatim>\<open>string | undefined\<close>: it holds for
  \<^verbatim>\<open>undefined\<close> and for the empty string.
\<close>

definition addInternetGatewayRoute ::
  "SecureRouteTable \<Rightarrow> string \<Rightarrow> string \<Rightarrow> scope \<Rightarrow> error + scope" where
  "addInternetGatewayRoute rt cid destination sc =
     (case internetGatewayId (rt_vpc rt) of
        None \<Rightarrow> Inl (Error ''Attempting to add Internet Gateway route without an IGW defined.'')
      | Some igw \<Rightarrow>
          if igw = []
          then Inl (Error ''Attempting to add Internet Gateway route without an IGW defined.'')
          else Inr (sc @ [CfnRoute (child (rt_node rt) cid) (secureRouteTableId rt) destination
                            (GatewayTarget igw) None]))"

text \<open>
  \<^verbatim>\<open>new SecureSubnet(scope, id, props)\<close> (lines 158 to 182): the subnet and its
  association with the route table.
\<close>

definition new_SecureSubnet ::
  "sdk \<Rightarrow> string \<Rightarrow> string \<Rightarrow> string \<Rightarrow> string \<Rightarrow> bool option \<Rightarrow> SecureRouteTable \<Rightarrow>
   SecureVpc \<Rightarrow> scope \<Rightarrow> SecureSubnet \<times> scope" where
  "new_SecureSubnet k cid nm az cidr mapPublic rt vpc sc =
     (let res = child cid ''Resource'' in
      (\<lparr>subnetName = nm, availabilityZone = az, ipv4CidrBlock = cidr,
        mapPublicIpOnLaunch = mapPublic, routeTable = rt, subnetId = ref k res\<rparr>,
       sc @ [CfnSubnet res (secureVpcId vpc) cidr az mapPublic nm,
             CfnSubnetRouteTableAssociation (child cid ''RouteTableAssociation'')
               (ref k res) (secureRouteTableId rt)]))"

text \<open>
  \<^verbatim>\<open>new SecureNatGateway(scope, id, {name, subnet})\<close> (lines 209 to 223): the elastic
  IP is created while the properties of the NAT gateway are evaluated, so it comes first.
\<close>

definition new_SecureNatGateway ::
  "sdk \<Rightarrow> string \<Rightarrow> string \<Rightarrow> SecureSubnet \<Rightarrow> scope \<Rightarrow> SecureNatGateway \<times> scope" where
  "new_SecureNatGateway k cid nm subnet sc =
     (let eip = child cid ''Eip''; res = child cid ''Resource'' in
      (\<lparr>natGatewayId = ref k res, natGatewayName = nm\<rparr>,
       sc @ [CfnEIP eip ''vpc'',
             CfnNatGateway res (subnetId subnet) (attrAllocationId k eip) nm]))"

text \<open>
  \<^verbatim>\<open>new SecureVpc(scope, id, props)\<close> (lines 262 to 285) and
  \<^verbatim>\<open>addGatewayVpcEndpoint\<close> (lines 287 to 294): \<^verbatim>\<open>if (props.internetGateway)\<close> on a
  \<^verbatim>\<open>boolean | undefined\<close> holds exactly for \<^verbatim>\<open>true\<close>.
\<close>

definition new_SecureVpc ::
  "sdk \<Rightarrow> string \<Rightarrow> string \<Rightarrow> string option \<Rightarrow> bool option \<Rightarrow> bool option \<Rightarrow> string option \<Rightarrow>
   bool option \<Rightarrow> scope \<Rightarrow> SecureVpc \<times> scope" where
  "new_SecureVpc k cid nm cidr dnsHostnames dnsSupport tenancy internetGateway sc =
     (let res = child cid ''Resource'';
          sc1 = sc @ [CfnVPC res cidr dnsHostnames dnsSupport tenancy nm] in
      if internetGateway = Some True
      then (let igw = child cid ''InternetGateway'' in
            (\<lparr>vpc_node = cid, secureVpcId = ref k res, internetGatewayId = Some (ref k igw)\<rparr>,
             sc1 @ [CfnInternetGateway igw,
                    CfnVPCGatewayAttachment (child cid ''InternetGatewayAttachment'')
                      (ref k igw) (ref k res)]))
      else (\<lparr>vpc_node = cid, secureVpcId = ref k res, internetGatewayId = None\<rparr>, sc1))"

definition addGatewayVpcEndpoint ::
  "sdk \<Rightarrow> SecureVpc \<Rightarrow> string \<Rightarrow> string \<Rightarrow> string list \<Rightarrow> scope \<Rightarrow> scope" where
  "addGatewayVpcEndpoint k vpc cid service rtIds sc =
     sc @ [CfnVPCEndpoint (child (vpc_node vpc) cid) (gatewayServiceName k service)
             (secureVpcId vpc) rtIds]"

section \<open>The network configuration (input of network-vpc-stack.ts)\<close>

text \<open>
  The configuration records carry the fields the stack reads. An optional list that the
  code reads as \<^verbatim>\<open>xs ?? []\<close> is a list, the absent one being \<open>[]\<close>; an optional
  scalar is an \<open>option\<close>. The type of a route entry is compared with string literals
  only, so an absent type is \<open>None\<close>.
\<close>

record TransitGatewayRef =
  tgw_name :: string
  tgw_account :: string

record TransitGatewayAttachmentConfig =
  att_name :: string
  att_transitGateway :: TransitGatewayRef
  att_subnets :: "string list"

record RouteTableEntryConfig =
  rte_name :: string
  rte_destination :: string
  rte_type :: "string option"
  rte_target :: string

record RouteTableConfig =
  rtc_name :: string
  rtc_routes :: "RouteTableEntryConfig list"

record SubnetConfig =
  snc_name :: string
  snc_availabilityZone :: string
  snc_routeTable :: string
  snc_ipv4CidrBlock :: string
  snc_mapPublicIpOnLaunch :: "bool option"

record NatGatewayConfig =
  ngc_name :: string
  ngc_subnet :: string

record VpcConfig =
  vpc_name :: string
  vpc_account :: string
  vpc_region :: string
  vpc_cidrs :: "string list"
  vpc_internetGateway :: "bool option"
  vpc_enableDnsHostnames :: "bool option"
  vpc_enableDnsSupport :: "bool option"
  vpc_instanceTenancy :: "string option"
  vpc_routeTables :: "RouteTableConfig list"
  vpc_subnets :: "SubnetConfig list"
  vpc_natGateways :: "NatGatewayConfig list"
  vpc_transitGatewayAttachments :: "TransitGatewayAttachmentConfig list"
  vpc_gatewayEndpoints :: "string list"

text \<open>
  The properties of the stack together with its execution context
  (\<^verbatim>\<open>cdk.Stack.of(this)\<close>): account, region, stack name and stack id.
  \<^verbatim>\<open>accountIds\<close> is an object indexed by e-mail address, so a missing key reads as
  \<^verbatim>\<open>undefined\<close>, here \<open>None\<close>.
\<close>

record AcceleratorStackProps =
  stack_account :: string
  stack_region :: string
  stackName :: string
  stackId :: string
  getEmail :: "string \<Rightarrow> string"
  accountIds :: "string \<rightharpoonup> string"
  defaultVpc_delete :: "bool option"
  vpcs :: "VpcConfig list"

section \<open>The stack assembler (network-vpc-stack.ts)\<close>

text \<open>
  Modelled from the spec: the constructs \<^verbatim>\<open>Vpc\<close>, \<^verbatim>\<open>RouteTable\<close>, \<^verbatim>\<open>Subnet\<close> and
  \<^verbatim>\<open>NatGateway\<close> that the stack imports are not among the sources. The specification
  (section 4.1) describes them as the wrappers of secure-vpc.ts, which stand for them
  here: \<^verbatim>\<open>vpcId\<close> is \<open>secureVpcId\<close> and \<^verbatim>\<open>routeTableId\<close> is \<open>secureRouteTableId\<close>.
  \<^verbatim>\<open>TransitGatewayAttachment\<close>, \<^verbatim>\<open>DeleteDefaultVpc\<close> and the two resource-share lookups
  are each one resource of the scope carrying its properties.
\<close>

record TgwAttachment =
  tga_node :: string
  transitGatewayAttachmentId :: string

definition new_TransitGatewayAttachment ::
  "sdk \<Rightarrow> string \<Rightarrow> string \<Rightarrow> string \<Rightarrow> string list \<Rightarrow> string \<Rightarrow> scope \<Rightarrow>
   TgwAttachment \<times> scope" where
  "new_TransitGatewayAttachment k cid nm tgwId subnetIds vpcId sc =
     (\<lparr>tga_node = cid, transitGatewayAttachmentId = ref k (child cid ''Resource'')\<rparr>,
      sc @ [TransitGatewayAttachment cid nm tgwId subnetIds vpcId])"

definition defaultChild :: "TgwAttachment \<Rightarrow> string" where
  "defaultChild a = child (tga_node a) ''Resource''"

text \<open>A loop whose body may throw: the first error ends it.\<close>

fun forEach :: "('a \<Rightarrow> 's \<Rightarrow> error + 's) \<Rightarrow> 'a list \<Rightarrow> 's \<Rightarrow> error + 's" where
  "forEach body [] s = Inr s"
| "forEach body (x # xs) s =
     (case body x s of Inl e \<Rightarrow> Inl e | Inr s' \<Rightarrow> forEach body xs s')"

definition accountIdOf :: "AcceleratorStackProps \<Rightarrow> string \<Rightarrow> string option" where
  "accountIdOf p account = accountIds p (getEmail p account)"

text \<open>The filter of both passes: the VPC is to be created in the current account and region.\<close>

definition inContext :: "AcceleratorStackProps \<Rightarrow> VpcConfig \<Rightarrow> bool" where
  "inContext p vpcItem \<longleftrightarrow>
     accountIdOf p (vpc_account vpcItem) = Some (stack_account p) \<and>
     vpc_region vpcItem = stack_region p"

subsection \<open>Transit gateway resolution pass\<close>

text \<open>
  Lines 54 to 123. \<open>evaluateTransitGateway\<close> is the body of the inner loop, one
  attachment of a VPC definition; \<^verbatim>\<open>continue\<close> returns the state as it is.
\<close>

record resolution =
  transitGatewayIds :: "string \<rightharpoonup> string"
  transitGatewayAccountIds :: "string option list"
  res_scope :: scope

definition evaluateTransitGateway ::
  "sdk \<Rightarrow> AcceleratorStackProps \<Rightarrow> TransitGatewayAttachmentConfig \<Rightarrow> resolution \<Rightarrow> resolution" where
  "evaluateTransitGateway k p attachment st =
     (let nm = tgw_name (att_transitGateway attachment) in
      if transitGatewayIds st nm \<noteq> None then st
      else
        let owningAccountId = accountIdOf p (tgw_account (att_transitGateway attachment)) in
        if owningAccountId = Some (stack_account p)
        then
          (let pn = ''/accelerator/network/transitGateways/'' @ nm @ ''/id'' in
           st\<lparr>transitGatewayIds := (transitGatewayIds st)(nm \<mapsto> valueForStringParameter k pn),
              res_scope := res_scope st @ [ParameterValue pn]\<rparr>)
        else
          (let share = pascalCase k (nm @ ''TransitGatewayShare'');
               item = pascalCase k (nm @ ''TransitGateway'') in
           st\<lparr>transitGatewayAccountIds :=
                (if owningAccountId \<in> set (transitGatewayAccountIds st)
                 then transitGatewayAccountIds st
                 else transitGatewayAccountIds st @ [owningAccountId]),
              transitGatewayIds := (transitGatewayIds st)(nm \<mapsto> resourceShareItemId k item),
              res_scope := res_scope st @
                [ResourceShareLookup share share owningAccountId,
                 ResourceShareItemLookup item (resourceShareId k share) ''ec2:TransitGateway'']\<rparr>))"

definition evaluateVpcTransitGateways ::
  "sdk \<Rightarrow> AcceleratorStackProps \<Rightarrow> VpcConfig \<Rightarrow> resolution \<Rightarrow> resolution" where
  "evaluateVpcTransitGateways k p vpcItem st =
     (if inContext p vpcItem
      then fold (evaluateTransitGateway k p) (vpc_transitGatewayAttachments vpcItem) st
      else st)"

definition resolveTransitGateways ::
  "sdk \<Rightarrow> AcceleratorStackProps \<Rightarrow> scope \<Rightarrow> resolution" where
  "resolveTransitGateways k p sc =
     fold (evaluateVpcTransitGateways k p) (vpcs p)
       \<lparr>transitGatewayIds = Map.empty, transitGatewayAccountIds = [], res_scope = sc\<rparr>"

subsection \<open>Cross-account access role\<close>

text \<open>Lines 127 to 149: the principals are the recorded accounts, in their order.\<close>

definition createCrossAccountRole :: "string option list \<Rightarrow> scope \<Rightarrow> scope" where
  "createCrossAccountRole accts sc =
     (if length accts > 0
      then sc @ [Role ''DescribeTransitGatewaysAttachmentsRole''
                   ''AWSAccelerator-DescribeTransitGatewayAttachmentsRole''
                   accts [''ec2:DescribeTransitGatewayAttachments''] [''*'']]
      else sc)"

subsection \<open>Per-VPC build\<close>

text \<open>
  Step a (lines 162 to 173): the VPC and its published identifier. \<^verbatim>\<open>cidrs[0]\<close> of an
  empty list is absent.
\<close>

definition createVpc :: "sdk \<Rightarrow> VpcConfig \<Rightarrow> scope \<Rightarrow> SecureVpc \<times> scope" where
  "createVpc k vpcItem sc =
     (let (vpc, sc1) =
            new_SecureVpc k (pascalCase k (vpc_name vpcItem @ ''Vpc'')) (vpc_name vpcItem)
              (case vpc_cidrs vpcItem of [] \<Rightarrow> None | c # cs \<Rightarrow> Some c)
              (Some (case vpc_enableDnsHostnames vpcItem of None \<Rightarrow> False | Some b \<Rightarrow> b))
              (Some (case vpc_enableDnsSupport vpcItem of None \<Rightarrow> True | Some b \<Rightarrow> b))
              (Some (case vpc_instanceTenancy vpcItem of None \<Rightarrow> ''default'' | Some t \<Rightarrow> t))
              (vpc_internetGateway vpcItem) sc
      in (vpc,
          sc1 @ [StringParameter
                   (pascalCase k (''SsmParam'' @ pascalCase k (vpc_name vpcItem) @ ''VpcId''))
                   (''/accelerator/network/vpc/'' @ vpc_name vpcItem @ ''/id'')
                   (secureVpcId vpc)]))"

text \<open>
  Step b (lines 182 to 201): route tables. Nothing is looked up, so the loop cannot
  throw.
\<close>

definition createRouteTable ::
  "sdk \<Rightarrow> VpcConfig \<Rightarrow> SecureVpc \<Rightarrow> RouteTableConfig \<Rightarrow>
   (string \<rightharpoonup> SecureRouteTable) \<times> scope \<Rightarrow> (string \<rightharpoonup> SecureRouteTable) \<times> scope" where
  "createRouteTable k vpcItem vpc routeTableItem st =
     (let (routeTableMap, sc) = st;
          (rt, sc1) =
            new_SecureRouteTable k
              (pascalCase k (vpc_name vpcItem @ ''Vpc'') @
               pascalCase k (rtc_name routeTableItem @ ''RouteTable''))
              (rtc_name routeTableItem) vpc sc
      in (routeTableMap(rtc_name routeTableItem \<mapsto> rt),
          sc1 @ [StringParameter
                   (pascalCase k (''SsmParam'' @ pascalCase k (vpc_name vpcItem) @
                                  pascalCase k (rtc_name routeTableItem) @ ''RouteTableId''))
                   (''/accelerator/network/vpc/'' @ vpc_name vpcItem @ ''/routeTable/'' @
                    rtc_name routeTableItem @ ''/id'')
                   (secureRouteTableId rt)]))"

definition createRouteTables ::
  "sdk \<Rightarrow> VpcConfig \<Rightarrow> SecureVpc \<Rightarrow> scope \<Rightarrow> (string \<rightharpoonup> SecureRouteTable) \<times> scope" where
  "createRouteTables k vpcItem vpc sc =
     fold (createRouteTable k vpcItem vpc) (vpc_routeTables vpcItem) (Map.empty, sc)"

text \<open>Step c (lines 210 to 236): subnets, each resolving its route table by name.\<close>

definition createSubnet ::
  "sdk \<Rightarrow> AcceleratorStackProps \<Rightarrow> VpcConfig \<Rightarrow> SecureVpc \<Rightarrow> (string \<rightharpoonup> SecureRouteTable) \<Rightarrow>
   SubnetConfig \<Rightarrow> (string \<rightharpoonup> SecureSubnet) \<times> scope \<Rightarrow>
   error + (string \<rightharpoonup> SecureSubnet) \<times> scope" where
  "createSubnet k p vpcItem vpc routeTableMap subnetItem st =
     (let (subnetMap, sc) = st in
      case routeTableMap (snc_routeTable subnetItem) of
        None \<Rightarrow> Inl (Error (''Route table '' @ snc_routeTable subnetItem @ '' not defined''))
      | Some rt \<Rightarrow>
          let (subnet, sc1) =
                new_SecureSubnet k
                  (pascalCase k (vpc_name vpcItem @ ''Vpc'') @
                   pascalCase k (snc_name subnetItem @ ''Subnet''))
                  (snc_name subnetItem)
                  (stack_region p @ snc_availabilityZone subnetItem)
                  (snc_ipv4CidrBlock subnetItem)
                  (snc_mapPublicIpOnLaunch subnetItem) rt vpc sc
          in Inr (subnetMap(snc_name subnetItem \<mapsto> subnet),
                  sc1 @ [StringParameter
                           (pascalCase k (''SsmParam'' @ pascalCase k (vpc_name vpcItem) @
                                          pascalCase k (snc_name subnetItem) @ ''SubnetId''))
                           (''/accelerator/network/vpc/'' @ vpc_name vpcItem @ ''/subnet/'' @
                            snc_name subnetItem @ ''/id'')
                           (subnetId subnet)]))"

definition createSubnets ::
  "sdk \<Rightarrow> AcceleratorStackProps \<Rightarrow> VpcConfig \<Rightarrow> SecureVpc \<Rightarrow> (string \<rightharpoonup> SecureRouteTable) \<Rightarrow>
   scope \<Rightarrow> error + (string \<rightharpoonup> SecureSubnet) \<times> scope" where
  "createSubnets k p vpcItem vpc routeTableMap sc =
     forEach (createSubnet k p vpcItem vpc routeTableMap) (vpc_subnets vpcItem) (Map.empty, sc)"

text \<open>Step d (lines 241 to 267): NAT gateways, each resolving its subnet by name.\<close>

definition createNatGateway ::
  "sdk \<Rightarrow> VpcConfig \<Rightarrow> (string \<rightharpoonup> SecureSubnet) \<Rightarrow> NatGatewayConfig \<Rightarrow>
   (string \<rightharpoonup> SecureNatGateway) \<times> scope \<Rightarrow>
   error + (string \<rightharpoonup> SecureNatGateway) \<times> scope" where
  "createNatGateway k vpcItem subnetMap natGatewayItem st =
     (let (natGatewayMap, sc) = st in
      case subnetMap (ngc_subnet natGatewayItem) of
        None \<Rightarrow> Inl (Error (''Subnet '' @ ngc_subnet natGatewayItem @ '' not defined''))
      | Some subnet \<Rightarrow>
          let (natGateway, sc1) =
                new_SecureNatGateway k
                  (pascalCase k (vpc_name vpcItem @ ''Vpc'') @
                   pascalCase k (ngc_name natGatewayItem @ ''NatGateway''))
                  (ngc_name natGatewayItem) subnet sc
          in Inr (natGatewayMap(ngc_name natGatewayItem \<mapsto> natGateway),
                  sc1 @ [StringParameter
                           (pascalCase k (''SsmParam'' @ pascalCase k (vpc_name vpcItem) @
                                          pascalCase k (ngc_name natGatewayItem) @ ''NatGatewayId''))
                           (''/accelerator/network/vpc/'' @ vpc_name vpcItem @ ''/natGateway/'' @
                            ngc_name natGatewayItem @ ''/id'')
                           (natGatewayId natGateway)]))"

definition createNatGateways ::
  "sdk \<Rightarrow> VpcConfig \<Rightarrow> (string \<rightharpoonup> SecureSubnet) \<Rightarrow> scope \<Rightarrow>
   error + (string \<rightharpoonup> SecureNatGateway) \<times> scope" where
  "createNatGateways k vpcItem subnetMap sc =
     forEach (createNatGateway k vpcItem subnetMap) (vpc_natGateways vpcItem) (Map.empty, sc)"

text \<open>
  Step e (lines 272 to 311): transit gateway attachments. The identifier of the transit gateway comes from
  the map of the resolution pass, the subnets from the subnet map. The attachment is
  stored under the name of its transit gateway.
\<close>

definition resolveSubnetId ::
  "(string \<rightharpoonup> SecureSubnet) \<Rightarrow> string \<Rightarrow> string list \<Rightarrow> error + string list" where
  "resolveSubnetId subnetMap subnetItem subnetIds =
     (case subnetMap subnetItem of
        None \<Rightarrow> Inl (Error (''Subnet '' @ subnetItem @ '' not defined''))
      | Some subnet \<Rightarrow> Inr (subnetIds @ [subnetId subnet]))"

definition createTransitGatewayAttachment ::
  "sdk \<Rightarrow> VpcConfig \<Rightarrow> SecureVpc \<Rightarrow> (string \<rightharpoonup> string) \<Rightarrow> (string \<rightharpoonup> SecureSubnet) \<Rightarrow>
   TransitGatewayAttachmentConfig \<Rightarrow> (string \<rightharpoonup> TgwAttachment) \<times> scope \<Rightarrow>
   error + (string \<rightharpoonup> TgwAttachment) \<times> scope" where
  "createTransitGatewayAttachment k vpcItem vpc tgwIds subnetMap tgwAttachmentItem st =
     (let (transitGatewayAttachments, sc) = st;
          tgwName = tgw_name (att_transitGateway tgwAttachmentItem) in
      case tgwIds tgwName of
        None \<Rightarrow> Inl (Error (''Transit Gateway '' @ tgwName @ '' not found''))
      | Some tgwId \<Rightarrow>
          (case forEach (resolveSubnetId subnetMap) (att_subnets tgwAttachmentItem) [] of
             Inl e \<Rightarrow> Inl e
           | Inr subnetIds \<Rightarrow>
               let (attachment, sc1) =
                     new_TransitGatewayAttachment k
                       (pascalCase k (att_name tgwAttachmentItem @ ''VpcTransitGatewayAttachment''))
                       (att_name tgwAttachmentItem) tgwId subnetIds (secureVpcId vpc) sc
               in Inr (transitGatewayAttachments(tgwName \<mapsto> attachment),
                       sc1 @ [StringParameter
                                (pascalCase k (''SsmParam'' @ pascalCase k (vpc_name vpcItem) @
                                               pascalCase k (att_name tgwAttachmentItem) @
                                               ''TransitGatewayAttachmentId''))
                                (''/accelerator/network/vpc/'' @ vpc_name vpcItem @
                                 ''/transitGatewayAttachment/'' @ att_name tgwAttachmentItem @ ''/id'')
                                (transitGatewayAttachmentId attachment)])))"

definition createTransitGatewayAttachments ::
  "sdk \<Rightarrow> VpcConfig \<Rightarrow> SecureVpc \<Rightarrow> (string \<rightharpoonup> string) \<Rightarrow> (string \<rightharpoonup> SecureSubnet) \<Rightarrow>
   scope \<Rightarrow> error + (string \<rightharpoonup> TgwAttachment) \<times> scope" where
  "createTransitGatewayAttachments k vpcItem vpc tgwIds subnetMap sc =
     forEach (createTransitGatewayAttachment k vpcItem vpc tgwIds subnetMap)
       (vpc_transitGatewayAttachments vpcItem) (Map.empty, sc)"

text \<open>
  Step f (lines 317 to 374): route table entries. The dispatch is on the type of the entry first and on its
  target after that; the two lists collect, without duplicates, the route tables that
  ask for a gateway endpoint.
\<close>

record routing =
  rs_scope :: scope
  s3EndpointRouteTables :: "string list"
  dynamodbEndpointRouteTables :: "string list"

definition addRouteTableEntry ::
  "sdk \<Rightarrow> VpcConfig \<Rightarrow> (string \<rightharpoonup> string) \<Rightarrow> (string \<rightharpoonup> SecureNatGateway) \<Rightarrow>
   (string \<rightharpoonup> TgwAttachment) \<Rightarrow> RouteTableConfig \<Rightarrow> SecureRouteTable \<Rightarrow>
   RouteTableEntryConfig \<Rightarrow> routing \<Rightarrow> error + routing" where
  "addRouteTableEntry k vpcItem tgwIds natGatewayMap transitGatewayAttachments
       routeTableItem rt routeTableEntryItem st =
     (let cid = pascalCase k (vpc_name vpcItem @ ''Vpc'') @
                pascalCase k (rtc_name routeTableItem @ ''RouteTable'') @
                pascalCase k (rte_name routeTableEntryItem);
          target = rte_target routeTableEntryItem in
      if rte_type routeTableEntryItem = Some ''transitGateway'' then
        (case tgwIds target of
           None \<Rightarrow> Inl (Error (''Transit Gateway '' @ target @ '' not found''))
         | Some tgwId \<Rightarrow>
             (case transitGatewayAttachments target of
                None \<Rightarrow> Inl (Error (''Transit Gateway Attachment '' @ target @ '' not found''))
              | Some attachment \<Rightarrow>
                  Inr (st\<lparr>rs_scope :=
                         addTransitGatewayRoute rt cid (rte_destination routeTableEntryItem)
                           tgwId (defaultChild attachment) (rs_scope st)\<rparr>)))
      else if rte_type routeTableEntryItem = Some ''natGateway'' then
        (case natGatewayMap target of
           None \<Rightarrow> Inl (Error (''NAT Gateway '' @ target @ '' not found''))
         | Some natGateway \<Rightarrow>
             Inr (st\<lparr>rs_scope :=
                    addNatGatewayRoute rt cid (rte_destination routeTableEntryItem)
                      (natGatewayId natGateway) (rs_scope st)\<rparr>))
      else if rte_type routeTableEntryItem = Some ''internetGateway'' then
        (case addInternetGatewayRoute rt cid (rte_destination routeTableEntryItem) (rs_scope st) of
           Inl e \<Rightarrow> Inl e
         | Inr sc \<Rightarrow> Inr (st\<lparr>rs_scope := sc\<rparr>))
      else if target = ''s3'' then
        Inr (if secureRouteTableId rt \<in> set (s3EndpointRouteTables st) then st
             else st\<lparr>s3EndpointRouteTables := s3EndpointRouteTables st @ [secureRouteTableId rt]\<rparr>)
      else if target = ''dynamodb'' then
        Inr (if secureRouteTableId rt \<in> set (dynamodbEndpointRouteTables st) then st
             else st\<lparr>dynamodbEndpointRouteTables :=
                      dynamodbEndpointRouteTables st @ [secureRouteTableId rt]\<rparr>)
      else Inr st)"

definition addRouteTableEntries ::
  "sdk \<Rightarrow> VpcConfig \<Rightarrow> (string \<rightharpoonup> string) \<Rightarrow> (string \<rightharpoonup> SecureRouteTable) \<Rightarrow>
   (string \<rightharpoonup> SecureNatGateway) \<Rightarrow> (string \<rightharpoonup> TgwAttachment) \<Rightarrow>
   RouteTableConfig \<Rightarrow> routing \<Rightarrow> error + routing" where
  "addRouteTableEntries k vpcItem tgwIds routeTableMap natGatewayMap transitGatewayAttachments
       routeTableItem st =
     (case routeTableMap (rtc_name routeTableItem) of
        None \<Rightarrow> Inl (Error (''Route Table '' @ rtc_name routeTableItem @ '' not found''))
      | Some rt \<Rightarrow>
          forEach (addRouteTableEntry k vpcItem tgwIds natGatewayMap transitGatewayAttachments
                     routeTableItem rt)
            (rtc_routes routeTableItem) st)"

definition createRouteTableEntries ::
  "sdk \<Rightarrow> VpcConfig \<Rightarrow> (string \<rightharpoonup> string) \<Rightarrow> (string \<rightharpoonup> SecureRouteTable) \<Rightarrow>
   (string \<rightharpoonup> SecureNatGateway) \<Rightarrow> (string \<rightharpoonup> TgwAttachment) \<Rightarrow> scope \<Rightarrow>
   error + routing" where
  "createRouteTableEntries k vpcItem tgwIds routeTableMap natGatewayMap transitGatewayAttachments sc =
     forEach (addRouteTableEntries k vpcItem tgwIds routeTableMap natGatewayMap
                transitGatewayAttachments)
       (vpc_routeTables vpcItem)
       \<lparr>rs_scope = sc, s3EndpointRouteTables = [], dynamodbEndpointRouteTables = []\<rparr>"

text \<open>
  Step g (lines 379 to 395): gateway endpoints for the services \<^verbatim>\<open>s3\<close> and
  \<^verbatim>\<open>dynamodb\<close>.
\<close>

definition addGatewayEndpoint ::
  "sdk \<Rightarrow> VpcConfig \<Rightarrow> SecureVpc \<Rightarrow> string list \<Rightarrow> string list \<Rightarrow> string \<Rightarrow> scope \<Rightarrow> scope" where
  "addGatewayEndpoint k vpcItem vpc s3Tables dynamodbTables gatewayEndpointItem sc =
     (if gatewayEndpointItem = ''s3'' then
        addGatewayVpcEndpoint k vpc
          (pascalCase k (vpc_name vpcItem @ ''Vpc'') @ pascalCase k gatewayEndpointItem)
          gatewayEndpointItem s3Tables sc
      else if gatewayEndpointItem = ''dynamodb'' then
        addGatewayVpcEndpoint k vpc
          (pascalCase k (vpc_name vpcItem @ ''Vpc'') @ pascalCase k gatewayEndpointItem)
          gatewayEndpointItem dynamodbTables sc
      else sc)"

definition addGatewayEndpoints ::
  "sdk \<Rightarrow> VpcConfig \<Rightarrow> SecureVpc \<Rightarrow> routing \<Rightarrow> scope" where
  "addGatewayEndpoints k vpcItem vpc st =
     fold (addGatewayEndpoint k vpcItem vpc (s3EndpointRouteTables st)
             (dynamodbEndpointRouteTables st))
       (vpc_gatewayEndpoints vpcItem) (rs_scope st)"

text \<open>
  The steps in their fixed order, for a VPC of the current account and region;
  \<open>evaluateVpc\<close> is the body of the loop over the VPC definitions (lines 154 to 405).
\<close>

definition buildVpc ::
  "sdk \<Rightarrow> AcceleratorStackProps \<Rightarrow> (string \<rightharpoonup> string) \<Rightarrow> VpcConfig \<Rightarrow> scope \<Rightarrow> error + scope" where
  "buildVpc k p tgwIds vpcItem sc =
     (let (vpc, sc1) = createVpc k vpcItem sc;
          (routeTableMap, sc2) = createRouteTables k vpcItem vpc sc1 in
      case createSubnets k p vpcItem vpc routeTableMap sc2 of
        Inl e \<Rightarrow> Inl e
      | Inr (subnetMap, sc3) \<Rightarrow>
      (case createNatGateways k vpcItem subnetMap sc3 of
        Inl e \<Rightarrow> Inl e
      | Inr (natGatewayMap, sc4) \<Rightarrow>
      (case createTransitGatewayAttachments k vpcItem vpc tgwIds subnetMap sc4 of
        Inl e \<Rightarrow> Inl e
      | Inr (transitGatewayAttachments, sc5) \<Rightarrow>
      (case createRouteTableEntries k vpcItem tgwIds routeTableMap natGatewayMap
              transitGatewayAttachments sc5 of
        Inl e \<Rightarrow> Inl e
      | Inr st \<Rightarrow> Inr (addGatewayEndpoints k vpcItem vpc st)))))"

definition evaluateVpc ::
  "sdk \<Rightarrow> AcceleratorStackProps \<Rightarrow> (string \<rightharpoonup> string) \<Rightarrow> VpcConfig \<Rightarrow> scope \<Rightarrow> error + scope" where
  "evaluateVpc k p tgwIds vpcItem sc =
     (if inContext p vpcItem then buildVpc k p tgwIds vpcItem sc else Inr sc)"

subsection \<open>The constructor of the stack\<close>

text \<open>
  \<open>stackPreamble\<close> is what the constructor creates before the passes (lines 37 to 48):
  the parameter with the stack id and, if asked for, the deletion of the default VPC.
\<close>

definition stackPreamble :: "AcceleratorStackProps \<Rightarrow> scope" where
  "stackPreamble p =
     (let sc = [StringParameter ''SsmParamStackId''
                  (''/accelerator/'' @ stackName p @ ''/stack-id'') (stackId p)] in
      if defaultVpc_delete p = Some True then sc @ [DeleteDefaultVpc ''DeleteDefaultVpc''] else sc)"

definition NetworkVpcStack :: "sdk \<Rightarrow> AcceleratorStackProps \<Rightarrow> error + scope" where
  "NetworkVpcStack k p =
     (let st = resolveTransitGateways k p (stackPreamble p);
          sc = createCrossAccountRole (transitGatewayAccountIds st) (res_scope st) in
      forEach (evaluateVpc k p (transitGatewayIds st)) (vpcs p) sc)"

section \<open>Notions used to state the properties\<close>

text \<open>
  A reference of a VPC definition that no earlier step of its build can resolve: a
  subnet naming a route table that is not declared, a NAT gateway or an attachment
  naming a subnet that is not declared, a route entry of type \<^verbatim>\<open>natGateway\<close> naming a
  NAT gateway that is not declared, or one of type \<^verbatim>\<open>transitGateway\<close> naming a
  transit gateway to which the VPC declares no attachment.
\<close>

definition unresolvedReference :: "VpcConfig \<Rightarrow> bool" where
  "unresolvedReference v \<longleftrightarrow>
     (\<exists>s\<in>set (vpc_subnets v). snc_routeTable s \<notin> rtc_name ` set (vpc_routeTables v)) \<or>
     (\<exists>n\<in>set (vpc_natGateways v). ngc_subnet n \<notin> snc_name ` set (vpc_subnets v)) \<or>
     (\<exists>a\<in>set (vpc_transitGatewayAttachments v). \<exists>s\<in>set (att_subnets a).
        s \<notin> snc_name ` set (vpc_subnets v)) \<or>
     (\<exists>rt\<in>set (vpc_routeTables v). \<exists>e\<in>set (rtc_routes rt).
        (rte_type e = Some ''natGateway'' \<and>
         rte_target e \<notin> ngc_name ` set (vpc_natGateways v)) \<or>
        (rte_type e = Some ''transitGateway'' \<and>
         rte_target e \<notin> (\<lambda>a. tgw_name (att_transitGateway a)) `
                            set (vpc_transitGatewayAttachments v)))"
text \<open>
  The events of a scope, in creation order: \<open>Created i\<close> for every VPC, route
  table, subnet, NAT gateway and transit gateway attachment in it, \<open>i\<close> being the
  identifier (\<^verbatim>\<open>ref\<close>) of the resource, and \<open>Published n i\<close> for every
  \<^verbatim>\<open>ssm.StringParameter\<close> in it, with its parameter name and its value.
\<close>

datatype event = Created string | Published string string

definition event :: "sdk \<Rightarrow> resource \<Rightarrow> event list" where
  "event k r =
     (case r of
        StringParameter cid nm val \<Rightarrow> [Published nm val]
      | CfnVPC path cidr dnsHostnames dnsSupport tenancy nm \<Rightarrow> [Created (ref k path)]
      | CfnRouteTable path vpcId nm \<Rightarrow> [Created (ref k path)]
      | CfnSubnet path vpcId cidr az mapPublic nm \<Rightarrow> [Created (ref k path)]
      | CfnNatGateway path sn alloc nm \<Rightarrow> [Created (ref k path)]
      | TransitGatewayAttachment cid nm tgwId sns vpcId \<Rightarrow>
          [Created (ref k (child cid ''Resource''))]
      | _ \<Rightarrow> [])"

definition events :: "sdk \<Rightarrow> scope \<Rightarrow> event list" where
  "events k sc = concat (map (event k) sc)"

text \<open>
  The naming convention in the words of the specification:
  \<^verbatim>\<open>/accelerator/network/vpc/{vpcName}/{resourceKind}/{resourceName}/id\<close> for a resource of
  a VPC and \<^verbatim>\<open>/accelerator/network/vpc/{vpcName}/id\<close> for the VPC itself.
\<close>

definition resourceParameterName :: "string \<Rightarrow> string \<Rightarrow> string \<Rightarrow> string" where
  "resourceParameterName vpcName resourceKind resourceName =
     ''/accelerator/network/vpc/'' @ vpcName @ ''/'' @ resourceKind @ ''/'' @ resourceName @ ''/id''"

definition vpcParameterName :: "string \<Rightarrow> string" where
  "vpcParameterName vpcName = ''/accelerator/network/vpc/'' @ vpcName @ ''/id''"

text \<open>
  What a build of the VPC definition \<open>v\<close> is expected to publish: for the VPC and for
  each route table, subnet, NAT gateway and transit gateway attachment it declares, the
  conventional name paired with the \<^verbatim>\<open>ref\<close> of the resource created for it.
\<close>

definition conventionalPublications :: "sdk \<Rightarrow> VpcConfig \<Rightarrow> (string \<times> string) list" where
  "conventionalPublications k v =
     (let vpcId = pascalCase k (vpc_name v @ ''Vpc'') in
      (vpcParameterName (vpc_name v), ref k (child vpcId ''Resource'')) #
      map (\<lambda>x. (resourceParameterName (vpc_name v) ''routeTable'' (rtc_name x),
                 ref k (child (vpcId @ pascalCase k (rtc_name x @ ''RouteTable'')) ''Resource'')))
        (vpc_routeTables v) @
      map (\<lambda>x. (resourceParameterName (vpc_name v) ''subnet'' (snc_name x),
                 ref k (child (vpcId @ pascalCase k (snc_name x @ ''Subnet'')) ''Resource'')))
        (vpc_subnets v) @
      map (\<lambda>x. (resourceParameterName (vpc_name v) ''natGateway'' (ngc_name x),
                 ref k (child (vpcId @ pascalCase k (ngc_name x @ ''NatGateway'')) ''Resource'')))
        (vpc_natGateways v) @
      map (\<lambda>x. (resourceParameterName (vpc_name v) ''transitGatewayAttachment'' (att_name x),
                 ref k (child (pascalCase k (att_name x @ ''VpcTransitGatewayAttachment''))
                          ''Resource'')))
        (vpc_transitGatewayAttachments v))"
text \<open>The attachment object that step e creates for an attachment definition.\<close>

definition attachmentOf :: "sdk \<Rightarrow> TransitGatewayAttachmentConfig \<Rightarrow> TgwAttachment" where
  "attachmentOf k a =
     \<lparr>tga_node = pascalCase k (att_name a @ ''VpcTransitGatewayAttachment''),
      transitGatewayAttachmentId =
        ref k (child (pascalCase k (att_name a @ ''VpcTransitGatewayAttachment'')) ''Resource'')\<rparr>"

text \<open>The attachment definitions of a list that name the transit gateway \<open>t\<close>.\<close>

definition attachmentsTo :: "string \<Rightarrow> TransitGatewayAttachmentConfig list \<Rightarrow>
    TransitGatewayAttachmentConfig list" where
  "attachmentsTo t atts = filter (\<lambda>a. tgw_name (att_transitGateway a) = t) atts"
text \<open>
  The attachment definitions that the resolution pass goes through, in its order: those
  of the VPC definitions of the current account and region.
\<close>

definition referencedAttachments ::
  "AcceleratorStackProps \<Rightarrow> TransitGatewayAttachmentConfig list" where
  "referencedAttachments p =
     concat (map vpc_transitGatewayAttachments (filter (inContext p) (vpcs p)))"

text \<open>The first of a list of attachment definitions that names the transit gateway \<open>t\<close>.\<close>

definition firstReference ::
  "string \<Rightarrow> TransitGatewayAttachmentConfig list \<Rightarrow> TransitGatewayAttachmentConfig option" where
  "firstReference t atts = find (\<lambda>a. tgw_name (att_transitGateway a) = t) atts"

text \<open>The account that owns the transit gateway of an attachment definition.\<close>

definition owningAccount ::
  "AcceleratorStackProps \<Rightarrow> TransitGatewayAttachmentConfig \<Rightarrow> string option" where
  "owningAccount p a = accountIdOf p (tgw_account (att_transitGateway a))"

text \<open>
  The identifier that a lookup for the transit gateway of an attachment definition
  gives: the published value if the current account owns it, the item of the resource
  share otherwise.
\<close>

definition lookedUpId ::
  "sdk \<Rightarrow> AcceleratorStackProps \<Rightarrow> TransitGatewayAttachmentConfig \<Rightarrow> string" where
  "lookedUpId k p a =
     (if owningAccount p a = Some (stack_account p)
      then valueForStringParameter k
             (''/accelerator/network/transitGateways/'' @ tgw_name (att_transitGateway a) @ ''/id'')
      else resourceShareItemId k (pascalCase k (tgw_name (att_transitGateway a) @ ''TransitGateway'')))"

text \<open>
  The number of transit gateway lookups recorded in a scope: parameters read and
  resource share items looked up.
\<close>

definition isLookup :: "resource \<Rightarrow> bool" where
  "isLookup r =
     (case r of ParameterValue nm \<Rightarrow> True
              | ResourceShareItemLookup cid share ty \<Rightarrow> True
              | _ \<Rightarrow> False)"

definition lookups :: "scope \<Rightarrow> nat" where
  "lookups sc = length (filter isLookup sc)"

text \<open>
  The foreign owners met by the resolution pass: the owning accounts, other than the
  current account, of the attachment definitions that are the first to name their
  transit gateway.
\<close>

definition foreignOwners :: "AcceleratorStackProps \<Rightarrow> string option list" where
  "foreignOwners p =
     map (owningAccount p)
       (filter (\<lambda>a. firstReference (tgw_name (att_transitGateway a)) (referencedAttachments p) =
                       Some a \<and>
                     owningAccount p a \<noteq> Some (stack_account p))
          (referencedAttachments p))"

text \<open>The roles of a scope.\<close>

definition isRole :: "resource \<Rightarrow> bool" where
  "isRole r = (case r of Role cid nm principals actions resources \<Rightarrow> True | _ \<Rightarrow> False)"

definition roles :: "scope \<Rightarrow> scope" where
  "roles sc = filter isRole sc"

text \<open>The route table lists of the gateway endpoints of a scope.\<close>

definition endpointList :: "resource \<Rightarrow> string list list" where
  "endpointList r = (case r of CfnVPCEndpoint path service vpcId ids \<Rightarrow> [ids] | _ \<Rightarrow> [])"

definition endpointLists :: "scope \<Rightarrow> string list list" where
  "endpointLists sc = concat (map endpointList sc)"

text \<open>The routes of a scope, in creation order.\<close>

definition isRoute :: "resource \<Rightarrow> bool" where
  "isRoute r = (case r of CfnRoute path rtId destination target dep \<Rightarrow> True | _ \<Rightarrow> False)"

definition routes :: "scope \<Rightarrow> scope" where
  "routes sc = filter isRoute sc"

text \<open>
  The route that a build of the VPC definition \<open>v\<close> is expected to create for the entry
  \<open>e\<close> of its route table \<open>rtItem\<close>, given the transit gateway identifiers of the
  resolution pass. The route of an entry of type \<^verbatim>\<open>transitGateway\<close> depends on the
  attachment of the last attachment definition of \<open>v\<close> that names the target; the route
  of an entry of type \<^verbatim>\<open>internetGateway\<close> has the internet gateway of the VPC as its
  target. An entry of no gateway type has no route.
\<close>

definition expectedRoutes ::
  "sdk \<Rightarrow> (string \<rightharpoonup> string) \<Rightarrow> VpcConfig \<Rightarrow> RouteTableConfig \<Rightarrow> RouteTableEntryConfig \<Rightarrow>
   scope" where
  "expectedRoutes k tgwIds v rtItem e =
     (let vpcCid = pascalCase k (vpc_name v @ ''Vpc'');
          rtCid = vpcCid @ pascalCase k (rtc_name rtItem @ ''RouteTable'');
          path = child rtCid (rtCid @ pascalCase k (rte_name e));
          rtId = ref k (child rtCid ''Resource'')
      in if rte_type e = Some ''transitGateway'' then
           (case tgwIds (rte_target e) of
              None \<Rightarrow> []
            | Some tgwId \<Rightarrow>
                [CfnRoute path rtId (rte_destination e) (TransitGatewayTarget tgwId)
                   (Some (defaultChild
                            (attachmentOf k
                               (last (attachmentsTo (rte_target e)
                                        (vpc_transitGatewayAttachments v))))))])
         else if rte_type e = Some ''natGateway'' then
           [CfnRoute path rtId (rte_destination e)
              (NatGatewayTarget
                 (ref k (child (vpcCid @ pascalCase k (rte_target e @ ''NatGateway''))
                           ''Resource'')))
              None]
         else if rte_type e = Some ''internetGateway'' then
           [CfnRoute path rtId (rte_destination e)
              (GatewayTarget (ref k (child vpcCid ''InternetGateway''))) None]
         else [])"

definition expectedVpcRoutes :: "sdk \<Rightarrow> (string \<rightharpoonup> string) \<Rightarrow> VpcConfig \<Rightarrow> scope" where
  "expectedVpcRoutes k tgwIds v =
     concat (map (\<lambda>rtItem. concat (map (expectedRoutes k tgwIds v rtItem) (rtc_routes rtItem)))
               (vpc_routeTables v))"

text \<open>
  A VPC definition violates the internet gateway invariant if one of its route entries
  is of type \<^verbatim>\<open>internetGateway\<close> and the VPC gets no internet gateway, or one whose
  identifier is empty.
\<close>

definition igwViolation :: "sdk \<Rightarrow> VpcConfig \<Rightarrow> bool" where
  "igwViolation k v \<longleftrightarrow>
     (\<exists>rtItem\<in>set (vpc_routeTables v). \<exists>e\<in>set (rtc_routes rtItem).
        rte_type e = Some ''internetGateway'') \<and>
     (vpc_internetGateway v \<noteq> Some True \<or>
      ref k (child (pascalCase k (vpc_name v @ ''Vpc'')) ''InternetGateway'') = [])"

text \<open>
  The unresolved references of a VPC definition, each with the message that reports
  it: the name that is referenced and not declared, and the text of the error.
\<close>

definition unresolvedReferenceErrors :: "VpcConfig \<Rightarrow> (string \<times> string) list" where
  "unresolvedReferenceErrors v =
     map (\<lambda>s. (snc_routeTable s, ''Route table '' @ snc_routeTable s @ '' not defined''))
       (filter (\<lambda>s. snc_routeTable s \<notin> rtc_name ` set (vpc_routeTables v)) (vpc_subnets v)) @
     map (\<lambda>n. (ngc_subnet n, ''Subnet '' @ ngc_subnet n @ '' not defined''))
       (filter (\<lambda>n. ngc_subnet n \<notin> snc_name ` set (vpc_subnets v)) (vpc_natGateways v)) @
     map (\<lambda>sn. (sn, ''Subnet '' @ sn @ '' not defined''))
       (filter (\<lambda>sn. sn \<notin> snc_name ` set (vpc_subnets v))
          (concat (map att_subnets (vpc_transitGatewayAttachments v)))) @
     map (\<lambda>e. (rte_target e, ''NAT Gateway '' @ rte_target e @ '' not found''))
       (filter (\<lambda>e. rte_type e = Some ''natGateway'' \<and>
                     rte_target e \<notin> ngc_name ` set (vpc_natGateways v))
          (concat (map rtc_routes (vpc_routeTables v)))) @
     concat (map (\<lambda>e. [(rte_target e, ''Transit Gateway '' @ rte_target e @ '' not found''),
                        (rte_target e,
                         ''Transit Gateway Attachment '' @ rte_target e @ '' not found'')])
       (filter (\<lambda>e. rte_type e = Some ''transitGateway'' \<and>
                     rte_target e \<notin> (\<lambda>a. tgw_name (att_transitGateway a)) `
                                        set (vpc_transitGatewayAttachments v))
          (concat (map rtc_routes (vpc_routeTables v)))))"

section \<open>Example inputs\<close>

text \<open>
  Concrete values at which the theorems below are instantiated. The theorems hold for
  every \<open>sdk\<close>; in \<open>example_sdk\<close> the identifiers are readable strings built from
  the path of the resource, and the identity stands for \<^verbatim>\<open>pascalCase\<close>.
\<close>

definition example_sdk :: sdk where
  "example_sdk =
     \<lparr>pascalCase = (\<lambda>s. s),
      ref = (\<lambda>path. ''ref:'' @ path),
      attrAllocationId = (\<lambda>path. ''alloc:'' @ path),
      gatewayServiceName = (\<lambda>service. ''com.amazonaws.us-east-1.'' @ service),
      valueForStringParameter = (\<lambda>name. ''ssm:'' @ name),
      resourceShareId = (\<lambda>cid. ''share:'' @ cid),
      resourceShareItemId = (\<lambda>cid. ''item:'' @ cid)\<rparr>"

definition example_vpc :: "string option \<Rightarrow> SecureVpc" where
  "example_vpc igw = \<lparr>vpc_node = ''AVpc'', secureVpcId = ''vpc-1'', internetGatewayId = igw\<rparr>"

definition example_rt :: "string option \<Rightarrow> SecureRouteTable" where
  "example_rt igw =
     \<lparr>rt_node = ''AVpcPublicRouteTable'', secureRouteTableId = ''rtb-1'',
      rt_vpc = example_vpc igw\<rparr>"

text \<open>
  The scenario of the specification: VPC \<^verbatim>\<open>A\<close> with one route table \<^verbatim>\<open>Public\<close>, one
  subnet \<^verbatim>\<open>Web\<close> bound to it and one route entry of type \<^verbatim>\<open>internetGateway\<close>.
\<close>

definition example_entry :: "string option \<Rightarrow> string \<Rightarrow> RouteTableEntryConfig" where
  "example_entry ty target =
     \<lparr>rte_name = ''Default'', rte_destination = ''0.0.0.0/0'', rte_type = ty,
      rte_target = target\<rparr>"

definition example_routeTable :: "RouteTableEntryConfig list \<Rightarrow> RouteTableConfig" where
  "example_routeTable entries = \<lparr>rtc_name = ''Public'', rtc_routes = entries\<rparr>"

definition example_subnet :: "string \<Rightarrow> SubnetConfig" where
  "example_subnet rt =
     \<lparr>snc_name = ''Web'', snc_availabilityZone = ''a'', snc_routeTable = rt,
      snc_ipv4CidrBlock = ''10.0.0.0/24'', snc_mapPublicIpOnLaunch = None\<rparr>"

definition example_vpcItem :: "bool option \<Rightarrow> VpcConfig" where
  "example_vpcItem igw =
     \<lparr>vpc_name = ''A'', vpc_account = ''Network'', vpc_region = ''us-east-1'',
      vpc_cidrs = [''10.0.0.0/16''], vpc_internetGateway = igw,
      vpc_enableDnsHostnames = None, vpc_enableDnsSupport = None, vpc_instanceTenancy = None,
      vpc_routeTables = [example_routeTable [example_entry (Some ''internetGateway'') ''IGW'']],
      vpc_subnets = [example_subnet ''Public''],
      vpc_natGateways = [], vpc_transitGatewayAttachments = [], vpc_gatewayEndpoints = []\<rparr>"

definition example_props :: "VpcConfig list \<Rightarrow> AcceleratorStackProps" where
  "example_props vs =
     \<lparr>stack_account = ''111111111111'', stack_region = ''us-east-1'',
      stackName = ''NetworkVpcStack'', stackId = ''stack-1'',
      getEmail = (\<lambda>account. account @ ''@example.com''),
      accountIds = [''Network@example.com'' \<mapsto> ''111111111111'',
                    ''Shared@example.com'' \<mapsto> ''222222222222''],
      defaultVpc_delete = None, vpcs = vs\<rparr>"

definition example_routing :: routing where
  "example_routing = \<lparr>rs_scope = [], s3EndpointRouteTables = [], dynamodbEndpointRouteTables = []\<rparr>"

text \<open>A VPC \<^verbatim>\<open>Main\<close> put together from its child collections, in the current account and region.\<close>

definition example_main ::
  "RouteTableConfig list \<Rightarrow> SubnetConfig list \<Rightarrow> NatGatewayConfig list \<Rightarrow>
   TransitGatewayAttachmentConfig list \<Rightarrow> string list \<Rightarrow> VpcConfig" where
  "example_main rts sns ngs atts eps =
     \<lparr>vpc_name = ''Main'', vpc_account = ''Network'', vpc_region = ''us-east-1'',
      vpc_cidrs = [''10.1.0.0/16''], vpc_internetGateway = None,
      vpc_enableDnsHostnames = None, vpc_enableDnsSupport = None, vpc_instanceTenancy = None,
      vpc_routeTables = rts, vpc_subnets = sns, vpc_natGateways = ngs,
      vpc_transitGatewayAttachments = atts, vpc_gatewayEndpoints = eps\<rparr>"

definition example_attachment :: "string \<Rightarrow> string \<Rightarrow> string \<Rightarrow> string list \<Rightarrow> TransitGatewayAttachmentConfig" where
  "example_attachment nm tgw owner sns =
     \<lparr>att_name = nm, att_transitGateway = \<lparr>tgw_name = tgw, tgw_account = owner\<rparr>,
      att_subnets = sns\<rparr>"

definition example_nat :: "string \<Rightarrow> NatGatewayConfig" where
  "example_nat sn = \<lparr>ngc_name = ''Nat1'', ngc_subnet = sn\<rparr>"

text \<open>
  The VPC \<^verbatim>\<open>Main\<close> with a route table, a subnet, a NAT gateway, two attachments to the
  same transit gateway, two route entries that ask for the \<^verbatim>\<open>s3\<close> endpoint and the
  \<^verbatim>\<open>s3\<close> gateway endpoint.
\<close>

definition example_full :: VpcConfig where
  "example_full =
     example_main
       [example_routeTable
          [\<lparr>rte_name = ''ToTgw'', rte_destination = ''10.0.0.0/8'',
            rte_type = Some ''transitGateway'', rte_target = ''Tgw1''\<rparr>,
           \<lparr>rte_name = ''ToNat'', rte_destination = ''0.0.0.0/0'',
            rte_type = Some ''natGateway'', rte_target = ''Nat1''\<rparr>,
           \<lparr>rte_name = ''S3'', rte_destination = '''',
            rte_type = None, rte_target = ''s3''\<rparr>,
           \<lparr>rte_name = ''S3Again'', rte_destination = '''',
            rte_type = None, rte_target = ''s3''\<rparr>]]
       [example_subnet ''Public'']
       [example_nat ''Web'']
       [example_attachment ''Att1'' ''Tgw1'' ''Network'' [''Web''],
        example_attachment ''Att2'' ''Tgw1'' ''Network'' [''Web'']]
       [''s3'']"


definition example_subnetMap :: "string \<rightharpoonup> SecureSubnet" where
  "example_subnetMap =
     [''Web'' \<mapsto> \<lparr>subnetName = ''Web'', availabilityZone = ''us-east-1a'',
                  ipv4CidrBlock = ''10.0.0.0/24'', mapPublicIpOnLaunch = None,
                  routeTable = example_rt None, subnetId = ''subnet-1''\<rparr>]"

text \<open>
  A second VPC of the current account and region, \<^verbatim>\<open>Branch\<close>, with attachments to
  \<^verbatim>\<open>Tgw2\<close> and \<^verbatim>\<open>Tgw3\<close>, both owned by the account \<^verbatim>\<open>Shared\<close>, and to \<^verbatim>\<open>Tgw1\<close>; and a
  state of the resolution pass in which \<^verbatim>\<open>Tgw1\<close> is already resolved.
\<close>

definition example_branch :: VpcConfig where
  "example_branch =
     \<lparr>vpc_name = ''Branch'', vpc_account = ''Network'', vpc_region = ''us-east-1'',
      vpc_cidrs = [''10.2.0.0/16''], vpc_internetGateway = None,
      vpc_enableDnsHostnames = None, vpc_enableDnsSupport = None, vpc_instanceTenancy = None,
      vpc_routeTables = [], vpc_subnets = [], vpc_natGateways = [],
      vpc_transitGatewayAttachments =
        [example_attachment ''Att3'' ''Tgw2'' ''Shared'' [],
         example_attachment ''Att4'' ''Tgw1'' ''Network'' [],
         example_attachment ''Att5'' ''Tgw3'' ''Shared'' []],
      vpc_gatewayEndpoints = []\<rparr>"

definition example_resolution :: resolution where
  "example_resolution =
     \<lparr>transitGatewayIds = [''Tgw1'' \<mapsto> ''tgw-1''], transitGatewayAccountIds = [],
      res_scope = []\<rparr>"


text \<open>
  Two VPC definitions outside the execution context: one of the account \<^verbatim>\<open>Shared\<close>, one
  of the current account in another region. Each has an unresolved reference, which
  goes unnoticed because the definition is never built.
\<close>

definition example_elsewhere :: "string \<Rightarrow> string \<Rightarrow> VpcConfig" where
  "example_elsewhere account region =
     (example_main [] [example_subnet ''Missing''] []
        [example_attachment ''Att9'' ''Tgw9'' ''Shared'' []] [])
       \<lparr>vpc_account := account, vpc_region := region\<rparr>"

section \<open>Unfolding the model on concrete inputs\<close>

lemmas model_defs =
  NetworkVpcStack_def resolveTransitGateways_def evaluateVpcTransitGateways_def
  evaluateTransitGateway_def createCrossAccountRole_def stackPreamble_def
  evaluateVpc_def buildVpc_def createVpc_def createRouteTables_def createRouteTable_def
  createSubnets_def createSubnet_def createNatGateways_def createNatGateway_def
  createTransitGatewayAttachments_def createTransitGatewayAttachment_def resolveSubnetId_def
  createRouteTableEntries_def addRouteTableEntries_def addRouteTableEntry_def
  addGatewayEndpoints_def addGatewayEndpoint_def
  new_SecureVpc_def new_SecureRouteTable_def new_SecureSubnet_def new_SecureNatGateway_def
  new_TransitGatewayAttachment_def addTransitGatewayRoute_def addNatGatewayRoute_def
  addInternetGatewayRoute_def addGatewayVpcEndpoint_def defaultChild_def child_def
  inContext_def accountIdOf_def Let_def

lemmas example_defs =
  example_sdk_def example_props_def example_main_def example_routeTable_def
  example_entry_def example_subnet_def example_nat_def example_attachment_def
  example_vpcItem_def example_vpc_def example_rt_def example_routing_def


section \<open>Loops and the identifier maps\<close>


lemma forEach_Inl_D:
  "forEach body xs s = Inl e \<Longrightarrow> \<exists>x\<in>set xs. \<exists>s'. body x s' = Inl e"
  by (induction xs arbitrary: s) (auto split: sum.splits)

lemma forEach_Inr_D:
  "forEach body xs s = Inr s' \<Longrightarrow> x \<in> set xs \<Longrightarrow> \<exists>s1 s2. body x s1 = Inr s2"
  by (induction xs arbitrary: s) (auto split: sum.splits)

lemma forEach_Cons_Inr:
  "forEach body (x # xs) s = Inr s' \<Longrightarrow>
     \<exists>s1. body x s = Inr s1 \<and> forEach body xs s1 = Inr s'"
  by (auto split: sum.splits)

lemma createRouteTable_dom:
  "dom (fst (createRouteTable k v vpc rt st)) = insert (rtc_name rt) (dom (fst st))"
  by (cases st) (simp add: createRouteTable_def new_SecureRouteTable_def Let_def)

lemma fold_createRouteTable_dom:
  "dom (fst (fold (createRouteTable k v vpc) rts st)) = dom (fst st) \<union> rtc_name ` set rts"
  by (induction rts arbitrary: st) (auto simp: createRouteTable_dom)

lemma createRouteTables_dom:
  "dom (fst (createRouteTables k v vpc sc)) = rtc_name ` set (vpc_routeTables v)"
  by (simp add: createRouteTables_def fold_createRouteTable_dom)

lemma createSubnet_Inr_D:
  "createSubnet k p v vpc rtMap s st = Inr st' \<Longrightarrow>
     snc_routeTable s \<in> dom rtMap \<and> dom (fst st') = insert (snc_name s) (dom (fst st))"
  by (cases st) (auto simp: createSubnet_def new_SecureSubnet_def Let_def split: option.splits)

lemma forEach_createSubnet_dom:
  "forEach (createSubnet k p v vpc rtMap) xs st = Inr st' \<Longrightarrow>
     dom (fst st') = dom (fst st) \<union> snc_name ` set xs"
proof (induction xs arbitrary: st)
  case Nil
  then show ?case by simp
next
  case (Cons x xs)
  from forEach_Cons_Inr[OF Cons.prems] obtain s1
    where a: "createSubnet k p v vpc rtMap x st = Inr s1"
      and b: "forEach (createSubnet k p v vpc rtMap) xs s1 = Inr st'" by blast
  from createSubnet_Inr_D[OF a] Cons.IH[OF b] show ?case by auto
qed

lemma createSubnets_Inr_D:
  assumes "createSubnets k p v vpc rtMap sc = Inr st'"
  shows "dom (fst st') = snc_name ` set (vpc_subnets v)"
    and "\<forall>s\<in>set (vpc_subnets v). snc_routeTable s \<in> dom rtMap"
  using assms forEach_createSubnet_dom[of k p v vpc rtMap "vpc_subnets v" "(Map.empty, sc)" st']
    forEach_Inr_D[of "createSubnet k p v vpc rtMap" "vpc_subnets v" "(Map.empty, sc)" st']
    createSubnet_Inr_D[of k p v vpc rtMap]
  unfolding createSubnets_def by (simp, blast)

lemma createNatGateway_Inr_D:
  "createNatGateway k v snMap n st = Inr st' \<Longrightarrow>
     ngc_subnet n \<in> dom snMap \<and> dom (fst st') = insert (ngc_name n) (dom (fst st))"
  by (cases st)
     (auto simp: createNatGateway_def new_SecureNatGateway_def Let_def split: option.splits)

lemma forEach_createNatGateway_dom:
  "forEach (createNatGateway k v snMap) xs st = Inr st' \<Longrightarrow>
     dom (fst st') = dom (fst st) \<union> ngc_name ` set xs"
proof (induction xs arbitrary: st)
  case Nil
  then show ?case by simp
next
  case (Cons x xs)
  from forEach_Cons_Inr[OF Cons.prems] obtain s1
    where a: "createNatGateway k v snMap x st = Inr s1"
      and b: "forEach (createNatGateway k v snMap) xs s1 = Inr st'" by blast
  from createNatGateway_Inr_D[OF a] Cons.IH[OF b] show ?case by auto
qed

lemma createNatGateways_Inr_D:
  assumes "createNatGateways k v snMap sc = Inr st'"
  shows "dom (fst st') = ngc_name ` set (vpc_natGateways v)"
    and "\<forall>n\<in>set (vpc_natGateways v). ngc_subnet n \<in> dom snMap"
  using assms forEach_createNatGateway_dom[of k v snMap "vpc_natGateways v" "(Map.empty, sc)" st']
    forEach_Inr_D[of "createNatGateway k v snMap" "vpc_natGateways v" "(Map.empty, sc)" st']
    createNatGateway_Inr_D[of k v snMap]
  unfolding createNatGateways_def by (simp, blast)

lemma resolveSubnetId_Inr_D:
  "resolveSubnetId snMap s ids = Inr ids' \<Longrightarrow> s \<in> dom snMap"
  by (auto simp: resolveSubnetId_def split: option.splits)

lemma resolveSubnetIds_missing:
  "sn \<in> set xs \<Longrightarrow> snMap sn = None \<Longrightarrow>
     \<exists>sn'\<in>set xs. snMap sn' = None \<and>
       forEach (resolveSubnetId snMap) xs ids = Inl (Error (''Subnet '' @ sn' @ '' not defined''))"
proof (induction xs arbitrary: ids)
  case Nil
  then show ?case by simp
next
  case (Cons x xs)
  show ?case
  proof (cases "snMap x")
    case None
    then show ?thesis by (auto simp: resolveSubnetId_def)
  next
    case (Some s)
    with Cons.prems have "sn \<in> set xs" by auto
    from Cons.IH[OF this Cons.prems(2), of "ids @ [subnetId s]"] Some
    show ?thesis by (auto simp: resolveSubnetId_def)
  qed
qed

lemma createTransitGatewayAttachment_Inr_D:
  "createTransitGatewayAttachment k v vpc tgwIds snMap a st = Inr st' \<Longrightarrow>
     tgw_name (att_transitGateway a) \<in> dom tgwIds \<and>
     set (att_subnets a) \<subseteq> dom snMap \<and>
     dom (fst st') = insert (tgw_name (att_transitGateway a)) (dom (fst st))"
  by (cases st)
     (auto simp: createTransitGatewayAttachment_def new_TransitGatewayAttachment_def Let_def
           split: option.splits sum.splits dest: forEach_Inr_D resolveSubnetId_Inr_D)

lemma forEach_createTransitGatewayAttachment_dom:
  "forEach (createTransitGatewayAttachment k v vpc tgwIds snMap) xs st = Inr st' \<Longrightarrow>
     dom (fst st') = dom (fst st) \<union> (\<lambda>a. tgw_name (att_transitGateway a)) ` set xs"
proof (induction xs arbitrary: st)
  case Nil
  then show ?case by simp
next
  case (Cons x xs)
  from forEach_Cons_Inr[OF Cons.prems] obtain s1
    where a: "createTransitGatewayAttachment k v vpc tgwIds snMap x st = Inr s1"
      and b: "forEach (createTransitGatewayAttachment k v vpc tgwIds snMap) xs s1 = Inr st'"
    by blast
  from createTransitGatewayAttachment_Inr_D[OF a] Cons.IH[OF b] show ?case by auto
qed

lemma createTransitGatewayAttachments_Inr_D:
  assumes "createTransitGatewayAttachments k v vpc tgwIds snMap sc = Inr st'"
  shows "dom (fst st') =
           (\<lambda>a. tgw_name (att_transitGateway a)) ` set (vpc_transitGatewayAttachments v)"
    and "\<forall>a\<in>set (vpc_transitGatewayAttachments v). set (att_subnets a) \<subseteq> dom snMap"
  using assms forEach_createTransitGatewayAttachment_dom[of k v vpc tgwIds snMap
      "vpc_transitGatewayAttachments v" "(Map.empty, sc)" st']
    forEach_Inr_D[of "createTransitGatewayAttachment k v vpc tgwIds snMap"
      "vpc_transitGatewayAttachments v" "(Map.empty, sc)" st']
    createTransitGatewayAttachment_Inr_D[of k v vpc tgwIds snMap]
  unfolding createTransitGatewayAttachments_def by (simp, blast)

lemma addRouteTableEntry_Inr_D:
  "addRouteTableEntry k v tgwIds natMap attMap rtItem rt e st = Inr st' \<Longrightarrow>
     (rte_type e = Some ''natGateway'' \<longrightarrow> rte_target e \<in> dom natMap) \<and>
     (rte_type e = Some ''transitGateway'' \<longrightarrow>
        rte_target e \<in> dom tgwIds \<and> rte_target e \<in> dom attMap)"
  by (auto simp: addRouteTableEntry_def Let_def split: option.splits if_splits)

lemma addRouteTableEntries_Inr_D:
  "addRouteTableEntries k v tgwIds rtMap natMap attMap rtItem st = Inr st' \<Longrightarrow>
     e \<in> set (rtc_routes rtItem) \<Longrightarrow>
     (rte_type e = Some ''natGateway'' \<longrightarrow> rte_target e \<in> dom natMap) \<and>
     (rte_type e = Some ''transitGateway'' \<longrightarrow>
        rte_target e \<in> dom tgwIds \<and> rte_target e \<in> dom attMap)"
  unfolding addRouteTableEntries_def
  by (auto split: option.splits dest!: forEach_Inr_D addRouteTableEntry_Inr_D)

lemma createRouteTableEntries_Inr_D:
  "createRouteTableEntries k v tgwIds rtMap natMap attMap sc = Inr st' \<Longrightarrow>
     rtItem \<in> set (vpc_routeTables v) \<Longrightarrow> e \<in> set (rtc_routes rtItem) \<Longrightarrow>
     (rte_type e = Some ''natGateway'' \<longrightarrow> rte_target e \<in> dom natMap) \<and>
     (rte_type e = Some ''transitGateway'' \<longrightarrow>
        rte_target e \<in> dom tgwIds \<and> rte_target e \<in> dom attMap)"
  unfolding createRouteTableEntries_def
  by (blast dest: forEach_Inr_D addRouteTableEntries_Inr_D)

text \<open>The stages of one build, named: what a build that returns has gone through.\<close>

lemma buildVpc_Inr_stages:
  assumes "buildVpc k p tgwIds v sc = Inr sc'"
  obtains vpc sc1 rtMap sc2 snMap sc3 natMap sc4 attMap sc5 st where
    "createVpc k v sc = (vpc, sc1)"
    "createRouteTables k v vpc sc1 = (rtMap, sc2)"
    "createSubnets k p v vpc rtMap sc2 = Inr (snMap, sc3)"
    "createNatGateways k v snMap sc3 = Inr (natMap, sc4)"
    "createTransitGatewayAttachments k v vpc tgwIds snMap sc4 = Inr (attMap, sc5)"
    "createRouteTableEntries k v tgwIds rtMap natMap attMap sc5 = Inr st"
    "sc' = addGatewayEndpoints k v vpc st"
proof -
  obtain vpc sc1 where v: "createVpc k v sc = (vpc, sc1)" by (cases "createVpc k v sc")
  obtain rtMap sc2 where r: "createRouteTables k v vpc sc1 = (rtMap, sc2)"
    by (cases "createRouteTables k v vpc sc1")
  from assms v r obtain snMap sc3 where s: "createSubnets k p v vpc rtMap sc2 = Inr (snMap, sc3)"
    by (auto simp: buildVpc_def split: sum.splits)
  from assms v r s obtain natMap sc4 where n: "createNatGateways k v snMap sc3 = Inr (natMap, sc4)"
    by (auto simp: buildVpc_def split: sum.splits)
  from assms v r s n obtain attMap sc5
    where a: "createTransitGatewayAttachments k v vpc tgwIds snMap sc4 = Inr (attMap, sc5)"
    by (auto simp: buildVpc_def split: sum.splits)
  from assms v r s n a obtain st
    where e: "createRouteTableEntries k v tgwIds rtMap natMap attMap sc5 = Inr st"
    by (auto simp: buildVpc_def split: sum.splits)
  from assms v r s n a e have "sc' = addGatewayEndpoints k v vpc st"
    by (simp add: buildVpc_def)
  with v r s n a e show thesis by (rule that)
qed

lemma buildVpc_Inr_resolved:
  assumes "buildVpc k p tgwIds v sc = Inr sc'"
  shows "\<not> unresolvedReference v"
proof -
  from assms obtain vpc sc1 rtMap sc2 snMap sc3 natMap sc4 attMap sc5 st where
    r: "createRouteTables k v vpc sc1 = (rtMap, sc2)" and
    s: "createSubnets k p v vpc rtMap sc2 = Inr (snMap, sc3)" and
    n: "createNatGateways k v snMap sc3 = Inr (natMap, sc4)" and
    a: "createTransitGatewayAttachments k v vpc tgwIds snMap sc4 = Inr (attMap, sc5)" and
    e: "createRouteTableEntries k v tgwIds rtMap natMap attMap sc5 = Inr st"
    by (rule buildVpc_Inr_stages)
  have d1: "dom rtMap = rtc_name ` set (vpc_routeTables v)"
    using createRouteTables_dom[of k v vpc sc1] r by simp
  note d2 = createSubnets_Inr_D[OF s, simplified]
  note d3 = createNatGateways_Inr_D[OF n, simplified]
  note d4 = createTransitGatewayAttachments_Inr_D[OF a, simplified]
  note d5 = createRouteTableEntries_Inr_D[OF e]
  show ?thesis
    unfolding unresolvedReference_def
    using d1 d2 d3 d4 d5 by (auto; blast)
qed

lemma NetworkVpcStack_Inr_resolved:
  assumes "NetworkVpcStack k p = Inr sc'" and "v \<in> set (vpcs p)" and "inContext p v"
  shows "\<not> unresolvedReference v"
proof -
  from assms(1,2) obtain tgwIds s1 s2 where "evaluateVpc k p tgwIds v s1 = Inr s2"
    unfolding NetworkVpcStack_def Let_def by (blast dest: forEach_Inr_D)
  with assms(3) have "buildVpc k p tgwIds v s1 = Inr s2" by (simp add: evaluateVpc_def)
  then show ?thesis by (rule buildVpc_Inr_resolved)
qed

section \<open>Messages of the failing lookups\<close>

lemma createSubnet_unresolved:
  "routeTableMap (snc_routeTable subnetItem) = None \<Longrightarrow>
     createSubnet k p vpcItem vpc routeTableMap subnetItem st =
       Inl (Error (''Route table '' @ snc_routeTable subnetItem @ '' not defined''))"
  by (cases st) (simp add: createSubnet_def)

lemma createNatGateway_unresolved:
  "subnetMap (ngc_subnet natGatewayItem) = None \<Longrightarrow>
     createNatGateway k vpcItem subnetMap natGatewayItem st =
       Inl (Error (''Subnet '' @ ngc_subnet natGatewayItem @ '' not defined''))"
  by (cases st) (simp add: createNatGateway_def)

lemma createTransitGatewayAttachment_unresolved_gateway:
  "tgwIds (tgw_name (att_transitGateway tgwAttachmentItem)) = None \<Longrightarrow>
     createTransitGatewayAttachment k vpcItem vpc tgwIds subnetMap tgwAttachmentItem st =
       Inl (Error (''Transit Gateway '' @ tgw_name (att_transitGateway tgwAttachmentItem) @
                   '' not found''))"
  by (cases st) (simp add: createTransitGatewayAttachment_def)

lemma createTransitGatewayAttachment_unresolved_subnet:
  assumes "tgwIds (tgw_name (att_transitGateway tgwAttachmentItem)) \<noteq> None"
    and "sn \<in> set (att_subnets tgwAttachmentItem)" and "subnetMap sn = None"
  shows "\<exists>sn'\<in>set (att_subnets tgwAttachmentItem). subnetMap sn' = None \<and>
           createTransitGatewayAttachment k vpcItem vpc tgwIds subnetMap tgwAttachmentItem st =
             Inl (Error (''Subnet '' @ sn' @ '' not defined''))"
proof -
  from assms(2,3) resolveSubnetIds_missing[of sn "att_subnets tgwAttachmentItem" subnetMap "[]"]
  obtain sn' where
    m: "sn' \<in> set (att_subnets tgwAttachmentItem)" "subnetMap sn' = None" and
    f: "forEach (resolveSubnetId subnetMap) (att_subnets tgwAttachmentItem) [] =
          Inl (Error (''Subnet '' @ sn' @ '' not defined''))"
    by blast
  from assms(1) f have
    "createTransitGatewayAttachment k vpcItem vpc tgwIds subnetMap tgwAttachmentItem st =
       Inl (Error (''Subnet '' @ sn' @ '' not defined''))"
    by (cases st) (auto simp: createTransitGatewayAttachment_def)
  with m show ?thesis by blast
qed

lemma addRouteTableEntry_unresolved_gateway:
  "rte_type entry = Some ''transitGateway'' \<Longrightarrow> tgwIds (rte_target entry) = None \<Longrightarrow>
     addRouteTableEntry k vpcItem tgwIds natGatewayMap attachments routeTableItem rt entry st =
       Inl (Error (''Transit Gateway '' @ rte_target entry @ '' not found''))"
  by (simp add: addRouteTableEntry_def)

lemma addRouteTableEntry_unresolved_attachment:
  "rte_type entry = Some ''transitGateway'' \<Longrightarrow> tgwIds (rte_target entry) \<noteq> None \<Longrightarrow>
   attachments (rte_target entry) = None \<Longrightarrow>
     addRouteTableEntry k vpcItem tgwIds natGatewayMap attachments routeTableItem rt entry st =
       Inl (Error (''Transit Gateway Attachment '' @ rte_target entry @ '' not found''))"
  by (auto simp: addRouteTableEntry_def)

lemma addRouteTableEntry_unresolved_natGateway:
  "rte_type entry = Some ''natGateway'' \<Longrightarrow> natGatewayMap (rte_target entry) = None \<Longrightarrow>
     addRouteTableEntry k vpcItem tgwIds natGatewayMap attachments routeTableItem rt entry st =
       Inl (Error (''NAT Gateway '' @ rte_target entry @ '' not found''))"
  by (simp add: addRouteTableEntry_def)

section \<open>Published identifiers\<close>

lemma events_append [simp]: "events k (a @ b) = events k a @ events k b"
  by (simp add: events_def)

lemma events_Nil [simp]: "events k [] = []"
  by (simp add: events_def)

lemma events_Cons [simp]: "events k (r # sc) = event k r @ events k sc"
  by (simp add: events_def)

text \<open>
  A loop in which every pass that returns adds \<open>g x\<close> to a projection of the state adds
  them all, in order.
\<close>

lemma forEach_adds:
  assumes "\<And>x s s'. body x s = Inr s' \<Longrightarrow> proj s' = proj s @ g x"
  shows "forEach body xs s = Inr s' \<Longrightarrow> proj s' = proj s @ concat (map g xs)"
proof (induction xs arbitrary: s)
  case Nil
  then show ?case by simp
next
  case (Cons x xs)
  from forEach_Cons_Inr[OF Cons.prems] obtain s1
    where a: "body x s = Inr s1" and b: "forEach body xs s1 = Inr s'" by blast
  from assms[OF a] Cons.IH[OF b] show ?case by simp
qed

lemma fold_adds:
  assumes "\<And>x s. proj (f x s) = proj s @ g x"
  shows "proj (fold f xs s) = proj s @ concat (map g xs)"
  by (induction xs arbitrary: s) (simp_all add: assms)

lemma concat_map_Nil: "concat (map (\<lambda>x. []) xs) = []"
  by (induction xs) simp_all

text \<open>
  What each step adds to the events: one network resource, and right after it its
  identifier under one name.
\<close>

lemma createVpc_events:
  "createVpc k v sc = (vpc, sc') \<Longrightarrow>
     secureVpcId vpc = ref k (child (pascalCase k (vpc_name v @ ''Vpc'')) ''Resource'') \<and>
     events k sc' = events k sc @
       [Created (secureVpcId vpc), Published (vpcParameterName (vpc_name v)) (secureVpcId vpc)]"
  by (auto simp: createVpc_def new_SecureVpc_def Let_def event_def vpcParameterName_def
      split: if_splits)

lemma createRouteTable_events:
  "events k (snd (createRouteTable k v vpc x st)) = events k (snd st) @
     [Created (ref k (child (pascalCase k (vpc_name v @ ''Vpc'') @
                             pascalCase k (rtc_name x @ ''RouteTable'')) ''Resource'')),
      Published (resourceParameterName (vpc_name v) ''routeTable'' (rtc_name x))
        (ref k (child (pascalCase k (vpc_name v @ ''Vpc'') @
                       pascalCase k (rtc_name x @ ''RouteTable'')) ''Resource''))]"
  by (cases st)
     (simp add: createRouteTable_def new_SecureRouteTable_def Let_def event_def
        resourceParameterName_def)

lemma createSubnet_events:
  "createSubnet k p v vpc rtMap x st = Inr st' \<Longrightarrow>
   events k (snd st') = events k (snd st) @
     [Created (ref k (child (pascalCase k (vpc_name v @ ''Vpc'') @
                             pascalCase k (snc_name x @ ''Subnet'')) ''Resource'')),
      Published (resourceParameterName (vpc_name v) ''subnet'' (snc_name x))
        (ref k (child (pascalCase k (vpc_name v @ ''Vpc'') @
                       pascalCase k (snc_name x @ ''Subnet'')) ''Resource''))]"
  by (cases st)
     (auto simp: createSubnet_def new_SecureSubnet_def Let_def event_def
        resourceParameterName_def split: option.splits)

lemma createNatGateway_events:
  "createNatGateway k v snMap x st = Inr st' \<Longrightarrow>
   events k (snd st') = events k (snd st) @
     [Created (ref k (child (pascalCase k (vpc_name v @ ''Vpc'') @
                             pascalCase k (ngc_name x @ ''NatGateway'')) ''Resource'')),
      Published (resourceParameterName (vpc_name v) ''natGateway'' (ngc_name x))
        (ref k (child (pascalCase k (vpc_name v @ ''Vpc'') @
                       pascalCase k (ngc_name x @ ''NatGateway'')) ''Resource''))]"
  by (cases st)
     (auto simp: createNatGateway_def new_SecureNatGateway_def Let_def event_def
        resourceParameterName_def split: option.splits)

lemma createTransitGatewayAttachment_events:
  "createTransitGatewayAttachment k v vpc tgwIds snMap x st = Inr st' \<Longrightarrow>
   events k (snd st') = events k (snd st) @
     [Created (ref k (child (pascalCase k (att_name x @ ''VpcTransitGatewayAttachment''))
                        ''Resource'')),
      Published (resourceParameterName (vpc_name v) ''transitGatewayAttachment'' (att_name x))
        (ref k (child (pascalCase k (att_name x @ ''VpcTransitGatewayAttachment''))
                  ''Resource''))]"
  by (cases st)
     (auto simp: createTransitGatewayAttachment_def new_TransitGatewayAttachment_def Let_def
        event_def resourceParameterName_def split: option.splits sum.splits)

lemma addRouteTableEntry_events:
  "addRouteTableEntry k v tgwIds natMap attMap rtItem rt x st = Inr st' \<Longrightarrow>
   events k (rs_scope st') = events k (rs_scope st) @ []"
  by (auto simp: addRouteTableEntry_def addTransitGatewayRoute_def addNatGatewayRoute_def
      addInternetGatewayRoute_def Let_def event_def split: option.splits if_splits)

lemma addRouteTableEntries_events:
  "addRouteTableEntries k v tgwIds rtMap natMap attMap x st = Inr st' \<Longrightarrow>
   events k (rs_scope st') = events k (rs_scope st) @ []"
  unfolding addRouteTableEntries_def
  using forEach_adds[where proj = "\<lambda>s. events k (rs_scope s)" and g = "\<lambda>x. []",
      OF addRouteTableEntry_events]
  by (auto simp: concat_map_Nil split: option.splits)

lemma addGatewayEndpoint_events:
  "events k (addGatewayEndpoint k v vpc s3 ddb x sc) = events k sc @ []"
  by (simp add: addGatewayEndpoint_def addGatewayVpcEndpoint_def event_def)

lemma buildVpc_events:
  assumes "buildVpc k p tgwIds v sc = Inr sc'"
  shows "events k sc' = events k sc @
           concat (map (\<lambda>(nm, i). [Created i, Published nm i]) (conventionalPublications k v))"
proof -
  from assms obtain vpc sc1 rtMap sc2 snMap sc3 natMap sc4 attMap sc5 st where
    v: "createVpc k v sc = (vpc, sc1)" and
    r: "createRouteTables k v vpc sc1 = (rtMap, sc2)" and
    s: "createSubnets k p v vpc rtMap sc2 = Inr (snMap, sc3)" and
    n: "createNatGateways k v snMap sc3 = Inr (natMap, sc4)" and
    a: "createTransitGatewayAttachments k v vpc tgwIds snMap sc4 = Inr (attMap, sc5)" and
    e: "createRouteTableEntries k v tgwIds rtMap natMap attMap sc5 = Inr st" and
    g: "sc' = addGatewayEndpoints k v vpc st"
    by (rule buildVpc_Inr_stages)
  note o1 = createVpc_events[OF v]
  have o2: "events k sc2 = events k sc1 @
      concat (map (\<lambda>x. [Created (ref k (child (pascalCase k (vpc_name v @ ''Vpc'') @
                             pascalCase k (rtc_name x @ ''RouteTable'')) ''Resource'')),
      Published (resourceParameterName (vpc_name v) ''routeTable'' (rtc_name x))
        (ref k (child (pascalCase k (vpc_name v @ ''Vpc'') @
                       pascalCase k (rtc_name x @ ''RouteTable'')) ''Resource''))])
        (vpc_routeTables v))"
    using fold_adds[where proj = "\<lambda>s. events k (snd s)" and f = "createRouteTable k v vpc"
        and xs = "vpc_routeTables v" and s = "(Map.empty, sc1)", OF createRouteTable_events] r
    by (simp add: createRouteTables_def)
  have o3: "events k sc3 = events k sc2 @
      concat (map (\<lambda>x. [Created (ref k (child (pascalCase k (vpc_name v @ ''Vpc'') @
                             pascalCase k (snc_name x @ ''Subnet'')) ''Resource'')),
      Published (resourceParameterName (vpc_name v) ''subnet'' (snc_name x))
        (ref k (child (pascalCase k (vpc_name v @ ''Vpc'') @
                       pascalCase k (snc_name x @ ''Subnet'')) ''Resource''))])
        (vpc_subnets v))"
    using forEach_adds[where proj = "\<lambda>s. events k (snd s)"
        and body = "createSubnet k p v vpc rtMap" and xs = "vpc_subnets v"
        and s = "(Map.empty, sc2)" and s' = "(snMap, sc3)", OF createSubnet_events] s
    by (simp add: createSubnets_def)
  have o4: "events k sc4 = events k sc3 @
      concat (map (\<lambda>x. [Created (ref k (child (pascalCase k (vpc_name v @ ''Vpc'') @
                             pascalCase k (ngc_name x @ ''NatGateway'')) ''Resource'')),
      Published (resourceParameterName (vpc_name v) ''natGateway'' (ngc_name x))
        (ref k (child (pascalCase k (vpc_name v @ ''Vpc'') @
                       pascalCase k (ngc_name x @ ''NatGateway'')) ''Resource''))])
        (vpc_natGateways v))"
    using forEach_adds[where proj = "\<lambda>s. events k (snd s)"
        and body = "createNatGateway k v snMap" and xs = "vpc_natGateways v"
        and s = "(Map.empty, sc3)" and s' = "(natMap, sc4)", OF createNatGateway_events] n
    by (simp add: createNatGateways_def)
  have o5: "events k sc5 = events k sc4 @
      concat (map (\<lambda>x. [Created (ref k (child (pascalCase k (att_name x @ ''VpcTransitGatewayAttachment''))
                        ''Resource'')),
      Published (resourceParameterName (vpc_name v) ''transitGatewayAttachment'' (att_name x))
        (ref k (child (pascalCase k (att_name x @ ''VpcTransitGatewayAttachment''))
                  ''Resource''))])
        (vpc_transitGatewayAttachments v))"
    using forEach_adds[where proj = "\<lambda>s. events k (snd s)"
        and body = "createTransitGatewayAttachment k v vpc tgwIds snMap"
        and xs = "vpc_transitGatewayAttachments v"
        and s = "(Map.empty, sc4)" and s' = "(attMap, sc5)",
        OF createTransitGatewayAttachment_events] a
    by (simp add: createTransitGatewayAttachments_def)
  have o6: "events k (rs_scope st) = events k sc5"
    using forEach_adds[where proj = "\<lambda>s. events k (rs_scope s)"
        and body = "addRouteTableEntries k v tgwIds rtMap natMap attMap" and g = "\<lambda>x. []"
        and xs = "vpc_routeTables v" and s' = st, OF addRouteTableEntries_events] e
    by (simp add: createRouteTableEntries_def concat_map_Nil)
  have o7: "events k sc' = events k (rs_scope st)"
    using fold_adds[where proj = "events k" and g = "\<lambda>x. []"
        and f = "addGatewayEndpoint k v vpc (s3EndpointRouteTables st)
                   (dynamodbEndpointRouteTables st)"
        and xs = "vpc_gatewayEndpoints v" and s = "rs_scope st",
        OF addGatewayEndpoint_events] g
    by (simp add: addGatewayEndpoints_def concat_map_Nil)
  show ?thesis
    unfolding o7 o6 o5 o4 o3 o2
    using o1 by (simp add: conventionalPublications_def Let_def comp_def)
qed
lemma evaluateTransitGateway_events:
  "events k (res_scope (evaluateTransitGateway k p x st)) = events k (res_scope st) @ []"
  by (simp add: evaluateTransitGateway_def Let_def event_def)

lemma evaluateVpcTransitGateways_events:
  "events k (res_scope (evaluateVpcTransitGateways k p x st)) = events k (res_scope st) @ []"
  unfolding evaluateVpcTransitGateways_def
  using fold_adds[where proj = "\<lambda>s. events k (res_scope s)" and g = "\<lambda>x. []"
      and f = "evaluateTransitGateway k p", OF evaluateTransitGateway_events]
  by (simp add: concat_map_Nil)

lemma resolveTransitGateways_events:
  "events k (res_scope (resolveTransitGateways k p sc)) = events k sc"
  unfolding resolveTransitGateways_def
  using fold_adds[where proj = "\<lambda>s. events k (res_scope s)" and g = "\<lambda>x. []"
      and f = "evaluateVpcTransitGateways k p", OF evaluateVpcTransitGateways_events]
  by (simp add: concat_map_Nil)

lemma createCrossAccountRole_events:
  "events k (createCrossAccountRole accts sc) = events k sc"
  by (simp add: createCrossAccountRole_def event_def)

lemma stackPreamble_events:
  "events k (stackPreamble p) =
     [Published (''/accelerator/'' @ stackName p @ ''/stack-id'') (stackId p)]"
  by (simp add: stackPreamble_def Let_def event_def)

lemma evaluateVpc_events:
  "evaluateVpc k p tgwIds v sc = Inr sc' \<Longrightarrow>
     events k sc' = events k sc @
       (if inContext p v
        then concat (map (\<lambda>(nm, i). [Created i, Published nm i]) (conventionalPublications k v))
        else [])"
  by (auto simp: evaluateVpc_def dest: buildVpc_events)

lemma concat_map_if_filter:
  "concat (map (\<lambda>x. if P x then h x else []) xs) = concat (map h (filter P xs))"
  by (induction xs) simp_all

text \<open>
  Claim C4: a build of a VPC definition that returns has added to the scope, for the VPC
  and for every route table, subnet, NAT gateway and transit gateway attachment of the
  definition, the resource and right after it one parameter whose value is the
  identifier of that resource and whose name follows the convention
  \<^verbatim>\<open>/accelerator/network/vpc/{vpcName}/{resourceKind}/{resourceName}/id\<close>, or
  \<^verbatim>\<open>/accelerator/network/vpc/{vpcName}/id\<close> for the VPC; it has published nothing else
  and created no other network resource. For the whole stack these are, after the
  parameter with the stack id, the publications of the VPC definitions of the current
  account and region.
\<close>

theorem identifiers_published_by_convention:
  "(buildVpc k p tgwIds v sc = Inr sc' \<longrightarrow>
      events k sc' = events k sc @
        concat (map (\<lambda>(nm, i). [Created i, Published nm i]) (conventionalPublications k v))) \<and>
   (NetworkVpcStack k p = Inr out \<longrightarrow>
      events k out =
        Published (''/accelerator/'' @ stackName p @ ''/stack-id'') (stackId p) #
        concat (map (\<lambda>v. concat (map (\<lambda>(nm, i). [Created i, Published nm i])
                                 (conventionalPublications k v)))
                  (filter (inContext p) (vpcs p))))"
proof (intro conjI impI)
  assume "buildVpc k p tgwIds v sc = Inr sc'"
  then show "events k sc' = events k sc @
      concat (map (\<lambda>(nm, i). [Created i, Published nm i]) (conventionalPublications k v))"
    by (rule buildVpc_events)
next
  assume a: "NetworkVpcStack k p = Inr out"
  define st where "st = resolveTransitGateways k p (stackPreamble p)"
  define sc0 where "sc0 = createCrossAccountRole (transitGatewayAccountIds st) (res_scope st)"
  from a have f: "forEach (evaluateVpc k p (transitGatewayIds st)) (vpcs p) sc0 = Inr out"
    by (simp add: NetworkVpcStack_def Let_def st_def sc0_def)
  have e0: "events k sc0 =
      [Published (''/accelerator/'' @ stackName p @ ''/stack-id'') (stackId p)]"
    by (simp add: sc0_def st_def createCrossAccountRole_events resolveTransitGateways_events
        stackPreamble_events)
  from forEach_adds[where proj = "events k"
      and body = "evaluateVpc k p (transitGatewayIds st)" and xs = "vpcs p" and s = sc0
      and s' = out, OF evaluateVpc_events f]
  show "events k out =
      Published (''/accelerator/'' @ stackName p @ ''/stack-id'') (stackId p) #
      concat (map (\<lambda>v. concat (map (\<lambda>(nm, i). [Created i, Published nm i])
                               (conventionalPublications k v)))
                (filter (inContext p) (vpcs p)))"
    by (simp add: e0 concat_map_if_filter)
qed

theorem identifiers_published_by_convention_witness:
  "(case buildVpc example_sdk (example_props []) [''Tgw1'' \<mapsto> ''tgw-1''] example_full [] of
      Inl e \<Rightarrow> None | Inr sc \<Rightarrow> Some (events example_sdk sc)) =
     Some [Created ''ref:MainVpc/Resource'',
           Published ''/accelerator/network/vpc/Main/id'' ''ref:MainVpc/Resource'',
           Created ''ref:MainVpcPublicRouteTable/Resource'',
           Published ''/accelerator/network/vpc/Main/routeTable/Public/id''
             ''ref:MainVpcPublicRouteTable/Resource'',
           Created ''ref:MainVpcWebSubnet/Resource'',
           Published ''/accelerator/network/vpc/Main/subnet/Web/id''
             ''ref:MainVpcWebSubnet/Resource'',
           Created ''ref:MainVpcNat1NatGateway/Resource'',
           Published ''/accelerator/network/vpc/Main/natGateway/Nat1/id''
             ''ref:MainVpcNat1NatGateway/Resource'',
           Created ''ref:Att1VpcTransitGatewayAttachment/Resource'',
           Published ''/accelerator/network/vpc/Main/transitGatewayAttachment/Att1/id''
             ''ref:Att1VpcTransitGatewayAttachment/Resource'',
           Created ''ref:Att2VpcTransitGatewayAttachment/Resource'',
           Published ''/accelerator/network/vpc/Main/transitGatewayAttachment/Att2/id''
             ''ref:Att2VpcTransitGatewayAttachment/Resource''] \<and>
   (case NetworkVpcStack example_sdk (example_props [example_vpcItem (Some True)]) of
      Inl e \<Rightarrow> None | Inr sc \<Rightarrow> Some (events example_sdk sc)) =
     Some [Published ''/accelerator/NetworkVpcStack/stack-id'' ''stack-1'',
           Created ''ref:AVpc/Resource'',
           Published ''/accelerator/network/vpc/A/id'' ''ref:AVpc/Resource'',
           Created ''ref:AVpcPublicRouteTable/Resource'',
           Published ''/accelerator/network/vpc/A/routeTable/Public/id''
             ''ref:AVpcPublicRouteTable/Resource'',
           Created ''ref:AVpcWebSubnet/Resource'',
           Published ''/accelerator/network/vpc/A/subnet/Web/id''
             ''ref:AVpcWebSubnet/Resource'']"
proof -
  obtain sc where b: "buildVpc example_sdk (example_props []) [''Tgw1'' \<mapsto> ''tgw-1'']
      example_full [] = Inr sc"
    by (simp add: model_defs example_defs example_full_def)
  obtain out where n: "NetworkVpcStack example_sdk (example_props [example_vpcItem (Some True)])
      = Inr out"
    by (simp add: model_defs example_defs)
  from b n identifiers_published_by_convention
    [of example_sdk "example_props []" "[''Tgw1'' \<mapsto> ''tgw-1'']" example_full "[]" sc]
    identifiers_published_by_convention
    [where k = example_sdk and p = "example_props [example_vpcItem (Some True)]" and out = out]
  show ?thesis
    by (simp add: conventionalPublications_def vpcParameterName_def resourceParameterName_def
        inContext_def accountIdOf_def child_def Let_def example_defs example_full_def)
qed

section \<open>The attachment map\<close>

lemma createTransitGatewayAttachment_map:
  "createTransitGatewayAttachment k v vpc tgwIds snMap a st = Inr st' \<Longrightarrow>
     fst st' = (fst st)(tgw_name (att_transitGateway a) \<mapsto> attachmentOf k a)"
  by (cases st)
     (auto simp: createTransitGatewayAttachment_def new_TransitGatewayAttachment_def Let_def
        attachmentOf_def split: option.splits sum.splits)

lemma forEach_createTransitGatewayAttachment_map:
  "forEach (createTransitGatewayAttachment k v vpc tgwIds snMap) xs st = Inr st' \<Longrightarrow>
     fst st' t =
       (if attachmentsTo t xs = [] then fst st t
        else Some (attachmentOf k (last (attachmentsTo t xs))))"
proof (induction xs arbitrary: st)
  case Nil
  then show ?case by (simp add: attachmentsTo_def)
next
  case (Cons x xs)
  from forEach_Cons_Inr[OF Cons.prems] obtain s1
    where a: "createTransitGatewayAttachment k v vpc tgwIds snMap x st = Inr s1"
      and b: "forEach (createTransitGatewayAttachment k v vpc tgwIds snMap) xs s1 = Inr st'"
    by blast
  from createTransitGatewayAttachment_map[OF a] Cons.IH[OF b]
  show ?case by (simp add: attachmentsTo_def)
qed

section \<open>The transit gateway resolution pass\<close>

lemma fold_evaluateVpcTransitGateways:
  "fold (evaluateVpcTransitGateways k p) vs st =
     fold (evaluateTransitGateway k p)
       (concat (map vpc_transitGatewayAttachments (filter (inContext p) vs))) st"
  by (induction vs arbitrary: st) (simp_all add: evaluateVpcTransitGateways_def)

lemma resolveTransitGateways_fold:
  "resolveTransitGateways k p sc =
     fold (evaluateTransitGateway k p) (referencedAttachments p)
       \<lparr>transitGatewayIds = Map.empty, transitGatewayAccountIds = [], res_scope = sc\<rparr>"
  by (simp add: resolveTransitGateways_def fold_evaluateVpcTransitGateways
      referencedAttachments_def)

lemma evaluateTransitGateway_hit:
  "transitGatewayIds st (tgw_name (att_transitGateway a)) \<noteq> None \<Longrightarrow>
     evaluateTransitGateway k p a st = st"
  by (simp add: evaluateTransitGateway_def)

lemma evaluateTransitGateway_ids:
  "transitGatewayIds (evaluateTransitGateway k p a st) =
     (if transitGatewayIds st (tgw_name (att_transitGateway a)) \<noteq> None
      then transitGatewayIds st
      else (transitGatewayIds st)(tgw_name (att_transitGateway a) \<mapsto> lookedUpId k p a))"
  by (simp add: evaluateTransitGateway_def lookedUpId_def owningAccount_def Let_def)

lemma evaluateTransitGateway_accounts:
  "transitGatewayAccountIds (evaluateTransitGateway k p a st) =
     (if transitGatewayIds st (tgw_name (att_transitGateway a)) = None \<and>
         owningAccount p a \<noteq> Some (stack_account p) \<and>
         owningAccount p a \<notin> set (transitGatewayAccountIds st)
      then transitGatewayAccountIds st @ [owningAccount p a]
      else transitGatewayAccountIds st)"
  by (simp add: evaluateTransitGateway_def owningAccount_def Let_def)

lemma evaluateTransitGateway_lookups:
  "lookups (res_scope (evaluateTransitGateway k p a st)) =
     (if transitGatewayIds st (tgw_name (att_transitGateway a)) = None
      then Suc (lookups (res_scope st)) else lookups (res_scope st))"
  by (simp add: evaluateTransitGateway_def lookups_def isLookup_def Let_def)

lemma fold_evaluateTransitGateway_ids:
  "transitGatewayIds (fold (evaluateTransitGateway k p) as st) t =
     (case transitGatewayIds st t of
        Some i \<Rightarrow> Some i
      | None \<Rightarrow> map_option (lookedUpId k p) (firstReference t as))"
proof (induction as arbitrary: st)
  case Nil
  then show ?case by (simp add: firstReference_def split: option.splits)
next
  case (Cons a as)
  show ?case
    by (simp add: Cons.IH evaluateTransitGateway_ids firstReference_def split: option.splits)
qed

lemma fold_evaluateTransitGateway_mono:
  "transitGatewayIds st \<subseteq>\<^sub>m transitGatewayIds (fold (evaluateTransitGateway k p) as st)"
  by (auto simp: map_le_def fold_evaluateTransitGateway_ids)

lemma firstReference_None_iff:
  "firstReference t as = None \<longleftrightarrow> t \<notin> (\<lambda>a. tgw_name (att_transitGateway a)) ` set as"
  by (auto simp: firstReference_def find_None_iff)

lemma fold_evaluateTransitGateway_dom:
  "dom (transitGatewayIds (fold (evaluateTransitGateway k p) as st)) =
     dom (transitGatewayIds st) \<union> (\<lambda>a. tgw_name (att_transitGateway a)) ` set as"
proof -
  have "t \<in> dom (transitGatewayIds (fold (evaluateTransitGateway k p) as st)) \<longleftrightarrow>
        t \<in> dom (transitGatewayIds st) \<union> (\<lambda>a. tgw_name (att_transitGateway a)) ` set as" for t
    using firstReference_None_iff[of t as]
    by (cases "transitGatewayIds st t"; cases "firstReference t as")
       (simp_all add: domIff fold_evaluateTransitGateway_ids)
  then show ?thesis by blast
qed

lemma evaluateTransitGateway_dom_miss:
  "transitGatewayIds st (tgw_name (att_transitGateway a)) = None \<Longrightarrow>
     dom (transitGatewayIds (evaluateTransitGateway k p a st)) =
       insert (tgw_name (att_transitGateway a)) (dom (transitGatewayIds st))"
  using fold_evaluateTransitGateway_dom[of k p "[a]" st] by simp

lemma fold_evaluateTransitGateway_lookups:
  "lookups (res_scope (fold (evaluateTransitGateway k p) as st)) =
     lookups (res_scope st) +
     card ((\<lambda>a. tgw_name (att_transitGateway a)) ` set as - dom (transitGatewayIds st))"
proof (induction as arbitrary: st)
  case Nil
  then show ?case by simp
next
  case (Cons a as)
  let ?n = "\<lambda>a. tgw_name (att_transitGateway a)"
  show ?case
  proof (cases "transitGatewayIds st (?n a)")
    case None
    have "?n ` set (a # as) - dom (transitGatewayIds st) =
          insert (?n a) (?n ` set as - insert (?n a) (dom (transitGatewayIds st)))"
      using None by (auto simp: domIff)
    moreover have "?n a \<notin> ?n ` set as - insert (?n a) (dom (transitGatewayIds st))" by simp
    ultimately have "card (?n ` set (a # as) - dom (transitGatewayIds st)) =
          Suc (card (?n ` set as - insert (?n a) (dom (transitGatewayIds st))))"
      by (simp add: card_insert_disjoint)
    with None show ?thesis
      by (simp add: Cons.IH evaluateTransitGateway_lookups evaluateTransitGateway_dom_miss)
  next
    case (Some i)
    then have "?n ` set (a # as) - dom (transitGatewayIds st) =
               ?n ` set as - dom (transitGatewayIds st)"
      by (auto simp: domIff)
    with Some show ?thesis
      by (simp add: Cons.IH evaluateTransitGateway_lookups evaluateTransitGateway_hit)
  qed
qed

text \<open>
  Claim C5: an attachment whose transit gateway name is already a key of the map leaves
  the state of the pass as it is: no parameter is read, no resource share is looked up,
  no account is recorded. A step never changes an entry that is there. After the pass
  the keys of the map are the transit gateway names of the attachments gone through,
  each mapped to the identifier looked up for the first attachment that names it, and
  the number of lookups made is the number of distinct names.
\<close>

theorem transit_gateway_cache_populated_once:
  "(transitGatewayIds st (tgw_name (att_transitGateway attachment)) \<noteq> None \<longrightarrow>
      evaluateTransitGateway k p attachment st = st) \<and>
   transitGatewayIds st \<subseteq>\<^sub>m transitGatewayIds (evaluateTransitGateway k p attachment st) \<and>
   dom (transitGatewayIds (resolveTransitGateways k p sc)) =
     (\<lambda>a. tgw_name (att_transitGateway a)) ` set (referencedAttachments p) \<and>
   transitGatewayIds (resolveTransitGateways k p sc) t =
     map_option (lookedUpId k p) (firstReference t (referencedAttachments p)) \<and>
   lookups (res_scope (resolveTransitGateways k p sc)) =
     lookups sc + card ((\<lambda>a. tgw_name (att_transitGateway a)) ` set (referencedAttachments p))"
proof (intro conjI impI)
  assume "transitGatewayIds st (tgw_name (att_transitGateway attachment)) \<noteq> None"
  then show "evaluateTransitGateway k p attachment st = st"
    by (rule evaluateTransitGateway_hit)
next
  show "transitGatewayIds st \<subseteq>\<^sub>m transitGatewayIds (evaluateTransitGateway k p attachment st)"
    using fold_evaluateTransitGateway_mono[of st k p "[attachment]"] by simp
next
  show "dom (transitGatewayIds (resolveTransitGateways k p sc)) =
      (\<lambda>a. tgw_name (att_transitGateway a)) ` set (referencedAttachments p)"
    by (simp add: resolveTransitGateways_fold fold_evaluateTransitGateway_dom)
next
  show "transitGatewayIds (resolveTransitGateways k p sc) t =
      map_option (lookedUpId k p) (firstReference t (referencedAttachments p))"
    by (simp add: resolveTransitGateways_fold fold_evaluateTransitGateway_ids)
next
  show "lookups (res_scope (resolveTransitGateways k p sc)) =
      lookups sc + card ((\<lambda>a. tgw_name (att_transitGateway a)) ` set (referencedAttachments p))"
    by (simp add: resolveTransitGateways_fold fold_evaluateTransitGateway_lookups)
qed

theorem transit_gateway_cache_populated_once_witness:
  "evaluateTransitGateway example_sdk (example_props [])
     (example_attachment ''Att2'' ''Tgw1'' ''Shared'' [''Web'']) example_resolution =
     example_resolution \<and>
   transitGatewayIds
     (resolveTransitGateways example_sdk (example_props [example_full, example_branch]) [])
     ''Tgw1'' = Some ''ssm:/accelerator/network/transitGateways/Tgw1/id'' \<and>
   transitGatewayIds
     (resolveTransitGateways example_sdk (example_props [example_full, example_branch]) [])
     ''Tgw2'' = Some ''item:Tgw2TransitGateway'' \<and>
   lookups (res_scope
     (resolveTransitGateways example_sdk (example_props [example_full, example_branch]) [])) = 3"
proof -
  from
    transit_gateway_cache_populated_once
      [where st = example_resolution
         and attachment = "example_attachment ''Att2'' ''Tgw1'' ''Shared'' [''Web'']"
         and k = example_sdk and p = "example_props []"]
    transit_gateway_cache_populated_once
      [where k = example_sdk and p = "example_props [example_full, example_branch]"
         and sc = "[]" and t = "''Tgw1''"]
    transit_gateway_cache_populated_once
      [where k = example_sdk and p = "example_props [example_full, example_branch]"
         and sc = "[]" and t = "''Tgw2''"]
  show ?thesis
    by (simp add: card_insert_if referencedAttachments_def firstReference_def lookedUpId_def
        owningAccount_def lookups_def inContext_def accountIdOf_def
        example_defs example_full_def example_branch_def example_resolution_def)
qed

section \<open>The objects in the identifier maps\<close>

lemma createVpc_object:
  "createVpc k v sc = (vpc, sc') \<Longrightarrow>
     vpc = \<lparr>vpc_node = pascalCase k (vpc_name v @ ''Vpc''),
            secureVpcId = ref k (child (pascalCase k (vpc_name v @ ''Vpc'')) ''Resource''),
            internetGatewayId =
              (if vpc_internetGateway v = Some True
               then Some (ref k (child (pascalCase k (vpc_name v @ ''Vpc'')) ''InternetGateway''))
               else None)\<rparr>"
  by (auto simp: createVpc_def new_SecureVpc_def Let_def split: if_splits)

lemma createRouteTable_object:
  "fst (createRouteTable k v vpc x st) n = Some rt \<Longrightarrow>
     fst st n = Some rt \<or>
     rt = \<lparr>rt_node = pascalCase k (vpc_name v @ ''Vpc'') @ pascalCase k (n @ ''RouteTable''),
           secureRouteTableId =
             ref k (child (pascalCase k (vpc_name v @ ''Vpc'') @
                           pascalCase k (n @ ''RouteTable'')) ''Resource''),
           rt_vpc = vpc\<rparr>"
  by (cases st)
     (auto simp: createRouteTable_def new_SecureRouteTable_def Let_def split: if_splits)

lemma fold_createRouteTable_object:
  "fst (fold (createRouteTable k v vpc) xs st) n = Some rt \<Longrightarrow>
     fst st n = Some rt \<or>
     rt = \<lparr>rt_node = pascalCase k (vpc_name v @ ''Vpc'') @ pascalCase k (n @ ''RouteTable''),
           secureRouteTableId =
             ref k (child (pascalCase k (vpc_name v @ ''Vpc'') @
                           pascalCase k (n @ ''RouteTable'')) ''Resource''),
           rt_vpc = vpc\<rparr>"
proof (induction xs arbitrary: st)
  case Nil
  then show ?case by simp
next
  case (Cons x xs)
  from Cons.IH[of "createRouteTable k v vpc x st"] Cons.prems
    createRouteTable_object[of k v vpc x st n rt]
  show ?case by auto
qed

lemma createRouteTables_object:
  "createRouteTables k v vpc sc = (rtMap, sc') \<Longrightarrow> rtMap n = Some rt \<Longrightarrow>
     rt = \<lparr>rt_node = pascalCase k (vpc_name v @ ''Vpc'') @ pascalCase k (n @ ''RouteTable''),
           secureRouteTableId =
             ref k (child (pascalCase k (vpc_name v @ ''Vpc'') @
                           pascalCase k (n @ ''RouteTable'')) ''Resource''),
           rt_vpc = vpc\<rparr>"
  using fold_createRouteTable_object[of k v vpc "vpc_routeTables v" "(Map.empty, sc)" n rt]
  by (simp add: createRouteTables_def)

lemma createNatGateway_object:
  "createNatGateway k v snMap x st = Inr st' \<Longrightarrow> fst st' n = Some g \<Longrightarrow>
     fst st n = Some g \<or>
     natGatewayId g =
       ref k (child (pascalCase k (vpc_name v @ ''Vpc'') @ pascalCase k (n @ ''NatGateway''))
                ''Resource'')"
  by (cases st)
     (auto simp: createNatGateway_def new_SecureNatGateway_def Let_def
        split: option.splits if_splits)

lemma forEach_createNatGateway_object:
  "forEach (createNatGateway k v snMap) xs st = Inr st' \<Longrightarrow> fst st' n = Some g \<Longrightarrow>
     fst st n = Some g \<or>
     natGatewayId g =
       ref k (child (pascalCase k (vpc_name v @ ''Vpc'') @ pascalCase k (n @ ''NatGateway''))
                ''Resource'')"
proof (induction xs arbitrary: st)
  case Nil
  then show ?case by simp
next
  case (Cons x xs)
  from forEach_Cons_Inr[OF Cons.prems(1)] obtain s1
    where a: "createNatGateway k v snMap x st = Inr s1"
      and b: "forEach (createNatGateway k v snMap) xs s1 = Inr st'" by blast
  from Cons.IH[OF b Cons.prems(2)] createNatGateway_object[OF a, of n g]
  show ?case by auto
qed

lemma createNatGateways_object:
  "createNatGateways k v snMap sc = Inr (natMap, sc') \<Longrightarrow> natMap n = Some g \<Longrightarrow>
     natGatewayId g =
       ref k (child (pascalCase k (vpc_name v @ ''Vpc'') @ pascalCase k (n @ ''NatGateway''))
                ''Resource'')"
  using forEach_createNatGateway_object[of k v snMap "vpc_natGateways v" "(Map.empty, sc)"
      "(natMap, sc')" n g]
  by (simp add: createNatGateways_def)

lemma createTransitGatewayAttachments_object:
  "createTransitGatewayAttachments k v vpc tgwIds snMap sc = Inr (attMap, sc') \<Longrightarrow>
     attMap t =
       (if attachmentsTo t (vpc_transitGatewayAttachments v) = [] then None
        else Some (attachmentOf k (last (attachmentsTo t (vpc_transitGatewayAttachments v)))))"
  using forEach_createTransitGatewayAttachment_map[of k v vpc tgwIds snMap
      "vpc_transitGatewayAttachments v" "(Map.empty, sc)" "(attMap, sc')" t]
  by (simp add: createTransitGatewayAttachments_def)

section \<open>The routes of a build\<close>

lemma routes_append [simp]: "routes (a @ b) = routes a @ routes b"
  by (simp add: routes_def)

lemma addRouteTableEntry_routes:
  assumes "addRouteTableEntry k v tgwIds natMap attMap rtItem rt e st = Inr st'"
    and "rt = \<lparr>rt_node = pascalCase k (vpc_name v @ ''Vpc'') @
                         pascalCase k (rtc_name rtItem @ ''RouteTable''),
               secureRouteTableId =
                 ref k (child (pascalCase k (vpc_name v @ ''Vpc'') @
                               pascalCase k (rtc_name rtItem @ ''RouteTable'')) ''Resource''),
               rt_vpc = vpc\<rparr>"
    and "\<And>g. internetGatewayId vpc = Some g \<Longrightarrow>
           g = ref k (child (pascalCase k (vpc_name v @ ''Vpc'')) ''InternetGateway'')"
    and "\<And>n g. natMap n = Some g \<Longrightarrow>
           natGatewayId g =
             ref k (child (pascalCase k (vpc_name v @ ''Vpc'') @
                           pascalCase k (n @ ''NatGateway'')) ''Resource'')"
    and "\<And>t a. attMap t = Some a \<Longrightarrow>
           a = attachmentOf k (last (attachmentsTo t (vpc_transitGatewayAttachments v)))"
  shows "routes (rs_scope st') = routes (rs_scope st) @ expectedRoutes k tgwIds v rtItem e"
  using assms(1) assms(3,4,5)
  unfolding assms(2)
  by (auto simp: addRouteTableEntry_def addTransitGatewayRoute_def addNatGatewayRoute_def
      addInternetGatewayRoute_def expectedRoutes_def Let_def routes_def isRoute_def
      split: option.splits if_splits)

lemma addRouteTableEntries_routes:
  assumes "addRouteTableEntries k v tgwIds rtMap natMap attMap rtItem st = Inr st'"
    and "\<And>n rt. rtMap n = Some rt \<Longrightarrow>
           rt = \<lparr>rt_node = pascalCase k (vpc_name v @ ''Vpc'') @ pascalCase k (n @ ''RouteTable''),
                 secureRouteTableId =
                   ref k (child (pascalCase k (vpc_name v @ ''Vpc'') @
                                 pascalCase k (n @ ''RouteTable'')) ''Resource''),
                 rt_vpc = vpc\<rparr>"
    and "\<And>g. internetGatewayId vpc = Some g \<Longrightarrow>
           g = ref k (child (pascalCase k (vpc_name v @ ''Vpc'')) ''InternetGateway'')"
    and "\<And>n g. natMap n = Some g \<Longrightarrow>
           natGatewayId g =
             ref k (child (pascalCase k (vpc_name v @ ''Vpc'') @
                           pascalCase k (n @ ''NatGateway'')) ''Resource'')"
    and "\<And>t a. attMap t = Some a \<Longrightarrow>
           a = attachmentOf k (last (attachmentsTo t (vpc_transitGatewayAttachments v)))"
  shows "routes (rs_scope st') =
           routes (rs_scope st) @
           concat (map (expectedRoutes k tgwIds v rtItem) (rtc_routes rtItem))"
proof -
  from assms(1) obtain rt where
    r: "rtMap (rtc_name rtItem) = Some rt" and
    f: "forEach (addRouteTableEntry k v tgwIds natMap attMap rtItem rt) (rtc_routes rtItem) st =
          Inr st'"
    by (auto simp: addRouteTableEntries_def split: option.splits)
  have step: "routes (rs_scope s') = routes (rs_scope s) @ expectedRoutes k tgwIds v rtItem e"
    if "addRouteTableEntry k v tgwIds natMap attMap rtItem rt e s = Inr s'" for e s s'
    using that assms(2)[OF r] assms(3,4,5) by (rule addRouteTableEntry_routes)
  from forEach_adds[where proj = "\<lambda>s. routes (rs_scope s)"
      and body = "addRouteTableEntry k v tgwIds natMap attMap rtItem rt"
      and g = "expectedRoutes k tgwIds v rtItem", OF step f]
  show ?thesis .
qed

lemma createSubnet_routes:
  "createSubnet k p v vpc rtMap x st = Inr st' \<Longrightarrow> routes (snd st') = routes (snd st) @ []"
  by (cases st)
     (auto simp: createSubnet_def new_SecureSubnet_def Let_def routes_def isRoute_def
        split: option.splits)

lemma createNatGateway_routes:
  "createNatGateway k v snMap x st = Inr st' \<Longrightarrow> routes (snd st') = routes (snd st) @ []"
  by (cases st)
     (auto simp: createNatGateway_def new_SecureNatGateway_def Let_def routes_def isRoute_def
        split: option.splits)

lemma createTransitGatewayAttachment_routes:
  "createTransitGatewayAttachment k v vpc tgwIds snMap x st = Inr st' \<Longrightarrow>
     routes (snd st') = routes (snd st) @ []"
  by (cases st)
     (auto simp: createTransitGatewayAttachment_def new_TransitGatewayAttachment_def Let_def
        routes_def isRoute_def split: option.splits sum.splits)

text \<open>
  The routes of a build that returns: for every route table of the definition, in
  order, the expected routes of its entries, and no other.
\<close>

lemma buildVpc_routes:
  assumes "buildVpc k p tgwIds v sc = Inr sc'"
  shows "routes sc' = routes sc @ expectedVpcRoutes k tgwIds v"
proof -
  from assms obtain vpc sc1 rtMap sc2 snMap sc3 natMap sc4 attMap sc5 st where
    v: "createVpc k v sc = (vpc, sc1)" and
    r: "createRouteTables k v vpc sc1 = (rtMap, sc2)" and
    s: "createSubnets k p v vpc rtMap sc2 = Inr (snMap, sc3)" and
    n: "createNatGateways k v snMap sc3 = Inr (natMap, sc4)" and
    a: "createTransitGatewayAttachments k v vpc tgwIds snMap sc4 = Inr (attMap, sc5)" and
    e: "createRouteTableEntries k v tgwIds rtMap natMap attMap sc5 = Inr st" and
    g: "sc' = addGatewayEndpoints k v vpc st"
    by (rule buildVpc_Inr_stages)
  have o1: "routes sc1 = routes sc"
    using v by (auto simp: createVpc_def new_SecureVpc_def Let_def routes_def isRoute_def
        split: if_splits)
  have o2: "routes sc2 = routes sc1"
    using fold_adds[where proj = "\<lambda>s. routes (snd s)" and f = "createRouteTable k v vpc"
        and g = "\<lambda>x. []" and xs = "vpc_routeTables v" and s = "(Map.empty, sc1)"] r
    by (simp add: createRouteTables_def createRouteTable_def new_SecureRouteTable_def
        Let_def routes_def isRoute_def concat_map_Nil split_beta)
  have o3: "routes sc3 = routes sc2"
    using forEach_adds[where proj = "\<lambda>s. routes (snd s)" and g = "\<lambda>x. []"
        and body = "createSubnet k p v vpc rtMap" and xs = "vpc_subnets v"
        and s = "(Map.empty, sc2)" and s' = "(snMap, sc3)", OF createSubnet_routes] s
    by (simp add: createSubnets_def concat_map_Nil)
  have o4: "routes sc4 = routes sc3"
    using forEach_adds[where proj = "\<lambda>s. routes (snd s)" and g = "\<lambda>x. []"
        and body = "createNatGateway k v snMap" and xs = "vpc_natGateways v"
        and s = "(Map.empty, sc3)" and s' = "(natMap, sc4)", OF createNatGateway_routes] n
    by (simp add: createNatGateways_def concat_map_Nil)
  have o5: "routes sc5 = routes sc4"
    using forEach_adds[where proj = "\<lambda>s. routes (snd s)" and g = "\<lambda>x. []"
        and body = "createTransitGatewayAttachment k v vpc tgwIds snMap"
        and xs = "vpc_transitGatewayAttachments v"
        and s = "(Map.empty, sc4)" and s' = "(attMap, sc5)",
        OF createTransitGatewayAttachment_routes] a
    by (simp add: createTransitGatewayAttachments_def concat_map_Nil)
  have igw: "g = ref k (child (pascalCase k (vpc_name v @ ''Vpc'')) ''InternetGateway'')"
    if "internetGatewayId vpc = Some g" for g
    using that createVpc_object[OF v] by (auto split: if_splits)
  have att: "x = attachmentOf k (last (attachmentsTo t (vpc_transitGatewayAttachments v)))"
    if "attMap t = Some x" for t x
    using that createTransitGatewayAttachments_object[OF a, of t] by (auto split: if_splits)
  have step: "routes (rs_scope s') =
      routes (rs_scope s) @ concat (map (expectedRoutes k tgwIds v rtItem) (rtc_routes rtItem))"
    if "addRouteTableEntries k v tgwIds rtMap natMap attMap rtItem s = Inr s'" for rtItem s s'
    using that createRouteTables_object[OF r] igw createNatGateways_object[OF n] att
    by (rule addRouteTableEntries_routes)
  have o6: "routes (rs_scope st) = routes sc5 @ expectedVpcRoutes k tgwIds v"
    using forEach_adds[where proj = "\<lambda>s. routes (rs_scope s)"
        and body = "addRouteTableEntries k v tgwIds rtMap natMap attMap"
        and xs = "vpc_routeTables v" and s' = st, OF step] e
    by (simp add: createRouteTableEntries_def expectedVpcRoutes_def routes_def)
  have o7: "routes sc' = routes (rs_scope st)"
    using fold_adds[where proj = routes and g = "\<lambda>x. []"
        and f = "addGatewayEndpoint k v vpc (s3EndpointRouteTables st)
                   (dynamodbEndpointRouteTables st)"
        and xs = "vpc_gatewayEndpoints v" and s = "rs_scope st"] g
    by (simp add: addGatewayEndpoints_def addGatewayEndpoint_def addGatewayVpcEndpoint_def
        routes_def isRoute_def concat_map_Nil)
  show ?thesis by (simp add: o1 o2 o3 o4 o5 o6 o7)
qed

lemma evaluateVpc_routes:
  "evaluateVpc k p tgwIds v sc = Inr sc' \<Longrightarrow>
     routes sc' = routes sc @ (if inContext p v then expectedVpcRoutes k tgwIds v else [])"
  by (auto simp: evaluateVpc_def split: if_splits dest: buildVpc_routes)

lemma evaluateTransitGateway_routes:
  "routes (res_scope (evaluateTransitGateway k p x st)) = routes (res_scope st) @ []"
  by (simp add: evaluateTransitGateway_def Let_def routes_def isRoute_def)

lemma resolveTransitGateways_routes:
  "routes (res_scope (resolveTransitGateways k p sc)) = routes sc"
  unfolding resolveTransitGateways_fold
  using fold_adds[where proj = "\<lambda>s. routes (res_scope s)" and g = "\<lambda>x. []"
      and f = "evaluateTransitGateway k p", OF evaluateTransitGateway_routes]
  by (simp add: concat_map_Nil)

lemma NetworkVpcStack_routes:
  assumes "NetworkVpcStack k p = Inr out"
  shows "routes out =
           concat (map (expectedVpcRoutes k
                          (transitGatewayIds (resolveTransitGateways k p (stackPreamble p))))
                     (filter (inContext p) (vpcs p)))"
proof -
  let ?st = "resolveTransitGateways k p (stackPreamble p)"
  define sc0 where "sc0 = createCrossAccountRole (transitGatewayAccountIds ?st) (res_scope ?st)"
  from assms have f: "forEach (evaluateVpc k p (transitGatewayIds ?st)) (vpcs p) sc0 = Inr out"
    by (simp add: NetworkVpcStack_def Let_def sc0_def)
  have r0: "routes sc0 = []"
    by (simp add: sc0_def createCrossAccountRole_def resolveTransitGateways_routes)
       (simp add: stackPreamble_def Let_def routes_def isRoute_def)
  from forEach_adds[where proj = routes
      and body = "evaluateVpc k p (transitGatewayIds ?st)" and xs = "vpcs p" and s = sc0
      and s' = out, OF evaluateVpc_routes f]
  show ?thesis by (simp add: r0 concat_map_if_filter)
qed

section \<open>The errors of a build\<close>


lemma unresolvedReference_iff_errors:
  "unresolvedReference v \<longleftrightarrow> unresolvedReferenceErrors v \<noteq> []"
  unfolding unresolvedReference_def unresolvedReferenceErrors_def
  by (auto simp: filter_empty_conv)

lemma unresolved_routeTable_I:
  assumes "s \<in> set (vpc_subnets v)"
    and "snc_routeTable s \<notin> rtc_name ` set (vpc_routeTables v)"
  shows "(snc_routeTable s, ''Route table '' @ snc_routeTable s @ '' not defined'') \<in>
           set (unresolvedReferenceErrors v)"
proof -
  have "(snc_routeTable s, ''Route table '' @ snc_routeTable s @ '' not defined'') \<in>
      set (map (\<lambda>s. (snc_routeTable s, ''Route table '' @ snc_routeTable s @ '' not defined''))
        (filter (\<lambda>s. snc_routeTable s \<notin> rtc_name ` set (vpc_routeTables v)) (vpc_subnets v)))"
    using assms by force
  then show ?thesis unfolding unresolvedReferenceErrors_def set_append by blast
qed

lemma unresolved_natSubnet_I:
  assumes "n \<in> set (vpc_natGateways v)"
    and "ngc_subnet n \<notin> snc_name ` set (vpc_subnets v)"
  shows "(ngc_subnet n, ''Subnet '' @ ngc_subnet n @ '' not defined'') \<in>
           set (unresolvedReferenceErrors v)"
proof -
  have "(ngc_subnet n, ''Subnet '' @ ngc_subnet n @ '' not defined'') \<in>
      set (map (\<lambda>n. (ngc_subnet n, ''Subnet '' @ ngc_subnet n @ '' not defined''))
        (filter (\<lambda>n. ngc_subnet n \<notin> snc_name ` set (vpc_subnets v)) (vpc_natGateways v)))"
    using assms by force
  then show ?thesis unfolding unresolvedReferenceErrors_def set_append by blast
qed

lemma unresolved_attachmentSubnet_I:
  assumes "a \<in> set (vpc_transitGatewayAttachments v)" and "sn \<in> set (att_subnets a)"
    and "sn \<notin> snc_name ` set (vpc_subnets v)"
  shows "(sn, ''Subnet '' @ sn @ '' not defined'') \<in> set (unresolvedReferenceErrors v)"
proof -
  have "(sn, ''Subnet '' @ sn @ '' not defined'') \<in>
      set (map (\<lambda>sn. (sn, ''Subnet '' @ sn @ '' not defined''))
        (filter (\<lambda>sn. sn \<notin> snc_name ` set (vpc_subnets v))
           (concat (map att_subnets (vpc_transitGatewayAttachments v)))))"
    using assms by force
  then show ?thesis unfolding unresolvedReferenceErrors_def set_append by blast
qed

lemma unresolved_natGateway_I:
  assumes "rtItem \<in> set (vpc_routeTables v)" and "e \<in> set (rtc_routes rtItem)"
    and "rte_type e = Some ''natGateway''"
    and "rte_target e \<notin> ngc_name ` set (vpc_natGateways v)"
  shows "(rte_target e, ''NAT Gateway '' @ rte_target e @ '' not found'') \<in>
           set (unresolvedReferenceErrors v)"
proof -
  have "(rte_target e, ''NAT Gateway '' @ rte_target e @ '' not found'') \<in>
      set (map (\<lambda>e. (rte_target e, ''NAT Gateway '' @ rte_target e @ '' not found''))
        (filter (\<lambda>e. rte_type e = Some ''natGateway'' \<and>
                      rte_target e \<notin> ngc_name ` set (vpc_natGateways v))
           (concat (map rtc_routes (vpc_routeTables v)))))"
    using assms by force
  then show ?thesis unfolding unresolvedReferenceErrors_def set_append by blast
qed

lemma unresolved_transitGateway_I:
  assumes "rtItem \<in> set (vpc_routeTables v)" and "e \<in> set (rtc_routes rtItem)"
    and "rte_type e = Some ''transitGateway''"
    and "rte_target e \<notin> (\<lambda>a. tgw_name (att_transitGateway a)) `
                            set (vpc_transitGatewayAttachments v)"
  shows "(rte_target e, ''Transit Gateway '' @ rte_target e @ '' not found'') \<in>
           set (unresolvedReferenceErrors v)"
    and "(rte_target e, ''Transit Gateway Attachment '' @ rte_target e @ '' not found'') \<in>
           set (unresolvedReferenceErrors v)"
proof -
  let ?xs = "concat (map (\<lambda>e. [(rte_target e, ''Transit Gateway '' @ rte_target e @ '' not found''),
                        (rte_target e,
                         ''Transit Gateway Attachment '' @ rte_target e @ '' not found'')])
       (filter (\<lambda>e. rte_type e = Some ''transitGateway'' \<and>
                     rte_target e \<notin> (\<lambda>a. tgw_name (att_transitGateway a)) `
                                        set (vpc_transitGatewayAttachments v))
          (concat (map rtc_routes (vpc_routeTables v)))))"
  have "(rte_target e, ''Transit Gateway '' @ rte_target e @ '' not found'') \<in> set ?xs"
    "(rte_target e, ''Transit Gateway Attachment '' @ rte_target e @ '' not found'') \<in> set ?xs"
    using assms by force+
  then show
    "(rte_target e, ''Transit Gateway '' @ rte_target e @ '' not found'') \<in>
       set (unresolvedReferenceErrors v)"
    "(rte_target e, ''Transit Gateway Attachment '' @ rte_target e @ '' not found'') \<in>
       set (unresolvedReferenceErrors v)"
    unfolding unresolvedReferenceErrors_def set_append by blast+
qed

lemma createSubnet_Inl_D:
  "createSubnet k p v vpc rtMap s st = Inl e \<Longrightarrow>
     rtMap (snc_routeTable s) = None \<and>
     e = Error (''Route table '' @ snc_routeTable s @ '' not defined'')"
  by (cases st) (auto simp: createSubnet_def new_SecureSubnet_def Let_def split: option.splits)

lemma createNatGateway_Inl_D:
  "createNatGateway k v snMap n st = Inl e \<Longrightarrow>
     snMap (ngc_subnet n) = None \<and>
     e = Error (''Subnet '' @ ngc_subnet n @ '' not defined'')"
  by (cases st)
     (auto simp: createNatGateway_def new_SecureNatGateway_def Let_def split: option.splits)

lemma resolveSubnetId_Inl_D:
  "resolveSubnetId snMap sn ids = Inl e \<Longrightarrow>
     snMap sn = None \<and> e = Error (''Subnet '' @ sn @ '' not defined'')"
  by (auto simp: resolveSubnetId_def split: option.splits)

lemma createTransitGatewayAttachment_Inl_D:
  "createTransitGatewayAttachment k v vpc tgwIds snMap a st = Inl e \<Longrightarrow>
     (tgwIds (tgw_name (att_transitGateway a)) = None \<and>
      e = Error (''Transit Gateway '' @ tgw_name (att_transitGateway a) @ '' not found'')) \<or>
     (\<exists>sn\<in>set (att_subnets a). snMap sn = None \<and>
        e = Error (''Subnet '' @ sn @ '' not defined''))"
  by (cases st)
     (auto simp: createTransitGatewayAttachment_def new_TransitGatewayAttachment_def Let_def
        split: option.splits sum.splits dest!: forEach_Inl_D resolveSubnetId_Inl_D)

lemma addRouteTableEntry_Inl_D:
  "addRouteTableEntry k v tgwIds natMap attMap rtItem rt x st = Inl e \<Longrightarrow>
     (rte_type x = Some ''transitGateway'' \<and> tgwIds (rte_target x) = None \<and>
      e = Error (''Transit Gateway '' @ rte_target x @ '' not found'')) \<or>
     (rte_type x = Some ''transitGateway'' \<and> attMap (rte_target x) = None \<and>
      e = Error (''Transit Gateway Attachment '' @ rte_target x @ '' not found'')) \<or>
     (rte_type x = Some ''natGateway'' \<and> natMap (rte_target x) = None \<and>
      e = Error (''NAT Gateway '' @ rte_target x @ '' not found'')) \<or>
     (rte_type x = Some ''internetGateway'' \<and>
      (internetGatewayId (rt_vpc rt) = None \<or> internetGatewayId (rt_vpc rt) = Some []) \<and>
      e = Error ''Attempting to add Internet Gateway route without an IGW defined.'')"
  by (auto simp: addRouteTableEntry_def addInternetGatewayRoute_def Let_def
      split: option.splits if_splits sum.splits)

lemma addRouteTableEntry_Inr_internetGateway:
  "addRouteTableEntry k v tgwIds natMap attMap rtItem rt x st = Inr st' \<Longrightarrow>
   rte_type x = Some ''internetGateway'' \<Longrightarrow>
     \<exists>g. internetGatewayId (rt_vpc rt) = Some g \<and> g \<noteq> []"
  by (auto simp: addRouteTableEntry_def addInternetGatewayRoute_def Let_def
      split: option.splits if_splits sum.splits)

lemma createTransitGatewayAttachments_resolved:
  assumes "createTransitGatewayAttachments k v vpc tgwIds snMap sc = Inr st'"
    and "a \<in> set (vpc_transitGatewayAttachments v)"
  shows "tgw_name (att_transitGateway a) \<in> dom tgwIds"
  using assms forEach_Inr_D[of "createTransitGatewayAttachment k v vpc tgwIds snMap"
      "vpc_transitGatewayAttachments v" "(Map.empty, sc)" st' a]
    createTransitGatewayAttachment_Inr_D[of k v vpc tgwIds snMap a]
  unfolding createTransitGatewayAttachments_def by blast

text \<open>
  Every error of a build is the internet gateway error of a definition that violates
  the invariant, or the message of one of its unresolved references, or reports an
  attachment whose transit gateway the resolution pass has not resolved.
\<close>

lemma buildVpc_Inl_D:
  assumes "buildVpc k p tgwIds v sc = Inl (Error msg)"
  shows "(msg = ''Attempting to add Internet Gateway route without an IGW defined.'' \<and>
          igwViolation k v) \<or>
         (\<exists>n. (n, msg) \<in> set (unresolvedReferenceErrors v)) \<or>
         (\<exists>a\<in>set (vpc_transitGatewayAttachments v).
            tgwIds (tgw_name (att_transitGateway a)) = None \<and>
            msg = ''Transit Gateway '' @ tgw_name (att_transitGateway a) @ '' not found'')"
proof -
  obtain vpc sc1 where v: "createVpc k v sc = (vpc, sc1)" by (cases "createVpc k v sc")
  obtain rtMap sc2 where r: "createRouteTables k v vpc sc1 = (rtMap, sc2)"
    by (cases "createRouteTables k v vpc sc1")
  have d1: "dom rtMap = rtc_name ` set (vpc_routeTables v)"
    using createRouteTables_dom[of k v vpc sc1] r by simp
  show ?thesis
  proof (cases "createSubnets k p v vpc rtMap sc2")
    case (Inl e)
    with assms v r have e: "e = Error msg" by (simp add: buildVpc_def)
    from Inl obtain s s' where "s \<in> set (vpc_subnets v)"
      "createSubnet k p v vpc rtMap s s' = Inl e"
      unfolding createSubnets_def by (blast dest: forEach_Inl_D)
    with createSubnet_Inl_D[of k p v vpc rtMap s s' e] d1 e
    have "(snc_routeTable s, msg) \<in> set (unresolvedReferenceErrors v)"
      using unresolved_routeTable_I[of s v] by (auto simp: domIff)
    then show ?thesis by blast
  next
    case s: (Inr st3)
    obtain snMap sc3 where st3: "st3 = (snMap, sc3)" by (cases st3)
    note d2 = createSubnets_Inr_D(1)[OF s, unfolded st3, simplified]
    show ?thesis
    proof (cases "createNatGateways k v snMap sc3")
      case (Inl e)
      with assms v r s st3 have e: "e = Error msg" by (simp add: buildVpc_def)
      from Inl obtain n s' where "n \<in> set (vpc_natGateways v)"
        "createNatGateway k v snMap n s' = Inl e"
        unfolding createNatGateways_def by (blast dest: forEach_Inl_D)
      with createNatGateway_Inl_D[of k v snMap n s' e] d2 e
      have "(ngc_subnet n, msg) \<in> set (unresolvedReferenceErrors v)"
        using unresolved_natSubnet_I[of n v] by (auto simp: domIff)
      then show ?thesis by blast
    next
      case n: (Inr st4)
      obtain natMap sc4 where st4: "st4 = (natMap, sc4)" by (cases st4)
      note d3 = createNatGateways_Inr_D(1)[OF n, unfolded st4, simplified]
      show ?thesis
      proof (cases "createTransitGatewayAttachments k v vpc tgwIds snMap sc4")
        case (Inl e)
        with assms v r s st3 n st4 have e: "e = Error msg" by (simp add: buildVpc_def)
        from Inl obtain a s' where a: "a \<in> set (vpc_transitGatewayAttachments v)"
          "createTransitGatewayAttachment k v vpc tgwIds snMap a s' = Inl e"
          unfolding createTransitGatewayAttachments_def by (blast dest: forEach_Inl_D)
        from createTransitGatewayAttachment_Inl_D[OF a(2)] show ?thesis
        proof
          assume "tgwIds (tgw_name (att_transitGateway a)) = None \<and>
            e = Error (''Transit Gateway '' @ tgw_name (att_transitGateway a) @ '' not found'')"
          with a(1) e show ?thesis by blast
        next
          assume "\<exists>sn\<in>set (att_subnets a). snMap sn = None \<and>
            e = Error (''Subnet '' @ sn @ '' not defined'')"
          then obtain sn where "sn \<in> set (att_subnets a)" "snMap sn = None"
            "e = Error (''Subnet '' @ sn @ '' not defined'')" by blast
          with a(1) d2 e have "(sn, msg) \<in> set (unresolvedReferenceErrors v)"
            using unresolved_attachmentSubnet_I[of a v sn] by (auto simp: domIff)
          then show ?thesis by blast
        qed
      next
        case a: (Inr st5)
        obtain attMap sc5 where st5: "st5 = (attMap, sc5)" by (cases st5)
        note d4 = createTransitGatewayAttachments_Inr_D(1)[OF a, unfolded st5, simplified]
        from assms v r s st3 n st4 a st5 obtain e where
          f: "createRouteTableEntries k v tgwIds rtMap natMap attMap sc5 = Inl e" and
          e: "e = Error msg"
          by (auto simp: buildVpc_def split: sum.splits)
        from f obtain rtItem s' where rt: "rtItem \<in> set (vpc_routeTables v)"
          "addRouteTableEntries k v tgwIds rtMap natMap attMap rtItem s' = Inl e"
          unfolding createRouteTableEntries_def by (blast dest: forEach_Inl_D)
        from rt(1) d1 obtain rtObj where o: "rtMap (rtc_name rtItem) = Some rtObj"
          by (auto simp: domIff set_eq_iff)
        with rt(2) obtain x s'' where x: "x \<in> set (rtc_routes rtItem)"
          "addRouteTableEntry k v tgwIds natMap attMap rtItem rtObj x s'' = Inl e"
          unfolding addRouteTableEntries_def by (auto dest: forEach_Inl_D)
        have vpcObj: "rt_vpc rtObj = vpc"
          using createRouteTables_object[OF r o] by simp
        from addRouteTableEntry_Inl_D[OF x(2)] show ?thesis
        proof (elim disjE conjE)
          assume t: "rte_type x = Some ''transitGateway''" "tgwIds (rte_target x) = None"
            "e = Error (''Transit Gateway '' @ rte_target x @ '' not found'')"
          have "rte_target x \<notin> (\<lambda>a. tgw_name (att_transitGateway a)) `
                  set (vpc_transitGatewayAttachments v)"
          proof
            assume "rte_target x \<in> (\<lambda>a. tgw_name (att_transitGateway a)) `
                  set (vpc_transitGatewayAttachments v)"
            then obtain b where b: "b \<in> set (vpc_transitGatewayAttachments v)"
              "rte_target x = tgw_name (att_transitGateway b)" by blast
            from createTransitGatewayAttachments_resolved[OF a b(1)] b(2) t(2)
            show False by (simp add: domIff)
          qed
          with t e rt(1) x(1) have "(rte_target x, msg) \<in> set (unresolvedReferenceErrors v)"
            using unresolved_transitGateway_I(1)[of rtItem v x] by simp
          then show ?thesis by blast
        next
          assume t: "rte_type x = Some ''transitGateway''" "attMap (rte_target x) = None"
            "e = Error (''Transit Gateway Attachment '' @ rte_target x @ '' not found'')"
          have "rte_target x \<notin> (\<lambda>a. tgw_name (att_transitGateway a)) `
                  set (vpc_transitGatewayAttachments v)"
            unfolding d4[symmetric] using t(2) by (simp add: domIff)
          with t e rt(1) x(1) have "(rte_target x, msg) \<in> set (unresolvedReferenceErrors v)"
            using unresolved_transitGateway_I(2)[of rtItem v x] by simp
          then show ?thesis by blast
        next
          assume t: "rte_type x = Some ''natGateway''" "natMap (rte_target x) = None"
            "e = Error (''NAT Gateway '' @ rte_target x @ '' not found'')"
          have "rte_target x \<notin> ngc_name ` set (vpc_natGateways v)"
            unfolding d3[symmetric] using t(2) by (simp add: domIff)
          with t e rt(1) x(1) have "(rte_target x, msg) \<in> set (unresolvedReferenceErrors v)"
            using unresolved_natGateway_I[of rtItem v x] by simp
          then show ?thesis by blast
        next
          assume t: "rte_type x = Some ''internetGateway''"
            "internetGatewayId (rt_vpc rtObj) = None"
            "e = Error ''Attempting to add Internet Gateway route without an IGW defined.''"
          from t(2) vpcObj createVpc_object[OF v]
          have "vpc_internetGateway v \<noteq> Some True \<or>
                ref k (child (pascalCase k (vpc_name v @ ''Vpc'')) ''InternetGateway'') = []"
            by (auto split: if_splits)
          with t(1) rt(1) x(1) have "igwViolation k v"
            unfolding igwViolation_def by blast
          with t(3) e show ?thesis by simp
        next
          assume t: "rte_type x = Some ''internetGateway''"
            "internetGatewayId (rt_vpc rtObj) = Some []"
            "e = Error ''Attempting to add Internet Gateway route without an IGW defined.''"
          from t(2) vpcObj createVpc_object[OF v]
          have "vpc_internetGateway v \<noteq> Some True \<or>
                ref k (child (pascalCase k (vpc_name v @ ''Vpc'')) ''InternetGateway'') = []"
            by (auto split: if_splits)
          with t(1) rt(1) x(1) have "igwViolation k v"
            unfolding igwViolation_def by blast
          with t(3) e show ?thesis by simp
        qed
      qed
    qed
  qed
qed

lemma buildVpc_Inr_internetGateway:
  assumes "buildVpc k p tgwIds v sc = Inr sc'"
  shows "\<not> igwViolation k v"
proof
  assume "igwViolation k v"
  then obtain rtItem x where
    i: "rtItem \<in> set (vpc_routeTables v)" "x \<in> set (rtc_routes rtItem)"
       "rte_type x = Some ''internetGateway''" and
    g: "vpc_internetGateway v \<noteq> Some True \<or>
        ref k (child (pascalCase k (vpc_name v @ ''Vpc'')) ''InternetGateway'') = []"
    unfolding igwViolation_def by blast
  from assms obtain vpc sc1 rtMap sc2 snMap sc3 natMap sc4 attMap sc5 st where
    v: "createVpc k v sc = (vpc, sc1)" and
    r: "createRouteTables k v vpc sc1 = (rtMap, sc2)" and
    e: "createRouteTableEntries k v tgwIds rtMap natMap attMap sc5 = Inr st"
    by (rule buildVpc_Inr_stages)
  from e i(1) obtain s1 s2 where
    "addRouteTableEntries k v tgwIds rtMap natMap attMap rtItem s1 = Inr s2"
    unfolding createRouteTableEntries_def by (blast dest: forEach_Inr_D)
  then obtain rtObj where o: "rtMap (rtc_name rtItem) = Some rtObj" and
    f: "forEach (addRouteTableEntry k v tgwIds natMap attMap rtItem rtObj) (rtc_routes rtItem) s1 =
          Inr s2"
    by (auto simp: addRouteTableEntries_def split: option.splits)
  from forEach_Inr_D[OF f i(2)] obtain s3 s4 where
    "addRouteTableEntry k v tgwIds natMap attMap rtItem rtObj x s3 = Inr s4" by blast
  from addRouteTableEntry_Inr_internetGateway[OF this i(3)] obtain gw where
    "internetGatewayId (rt_vpc rtObj) = Some gw" "gw \<noteq> []" by blast
  with createRouteTables_object[OF r o] createVpc_object[OF v] g
  show False by (auto split: if_splits)
qed

lemma referencedAttachments_resolved:
  assumes "v \<in> set (vpcs p)" and "inContext p v"
    and "a \<in> set (vpc_transitGatewayAttachments v)"
  shows "transitGatewayIds (resolveTransitGateways k p sc) (tgw_name (att_transitGateway a)) \<noteq>
           None"
proof -
  from assms have "a \<in> set (referencedAttachments p)"
    by (auto simp: referencedAttachments_def)
  then have "tgw_name (att_transitGateway a) \<in>
      dom (transitGatewayIds (resolveTransitGateways k p sc))"
    by (simp add: resolveTransitGateways_fold fold_evaluateTransitGateway_dom)
  then show ?thesis by (simp add: domIff)
qed

text \<open>
  Every error of the synthesis comes from a VPC definition of the current account and
  region: it is the internet gateway error of a definition that violates the invariant,
  or the message of one of its unresolved references.
\<close>

lemma NetworkVpcStack_Inl_D:
  assumes "NetworkVpcStack k p = Inl (Error msg)"
  shows "\<exists>v\<in>set (vpcs p). inContext p v \<and>
           ((msg = ''Attempting to add Internet Gateway route without an IGW defined.'' \<and>
             igwViolation k v) \<or>
            (\<exists>n. (n, msg) \<in> set (unresolvedReferenceErrors v)))"
proof -
  let ?st = "resolveTransitGateways k p (stackPreamble p)"
  from assms obtain v s where v: "v \<in> set (vpcs p)"
    "evaluateVpc k p (transitGatewayIds ?st) v s = Inl (Error msg)"
    unfolding NetworkVpcStack_def Let_def by (blast dest: forEach_Inl_D)
  then have c: "inContext p v" and b: "buildVpc k p (transitGatewayIds ?st) v s = Inl (Error msg)"
    by (auto simp: evaluateVpc_def split: if_splits)
  from buildVpc_Inl_D[OF b] referencedAttachments_resolved[OF v(1) c]
  have "(msg = ''Attempting to add Internet Gateway route without an IGW defined.'' \<and>
         igwViolation k v) \<or>
        (\<exists>n. (n, msg) \<in> set (unresolvedReferenceErrors v))"
    by blast
  with v(1) c show ?thesis by blast
qed

lemma NetworkVpcStack_Inr_internetGateway:
  assumes "NetworkVpcStack k p = Inr out" and "v \<in> set (vpcs p)" and "inContext p v"
  shows "\<not> igwViolation k v"
proof -
  from assms(1,2) obtain tgwIds s1 s2 where "evaluateVpc k p tgwIds v s1 = Inr s2"
    unfolding NetworkVpcStack_def Let_def by (blast dest: forEach_Inr_D)
  with assms(3) have "buildVpc k p tgwIds v s1 = Inr s2" by (simp add: evaluateVpc_def)
  then show ?thesis by (rule buildVpc_Inr_internetGateway)
qed

text \<open>
  A build returns if the definition has no unresolved reference, does not violate the
  internet gateway invariant, and the transit gateways of its attachments are resolved.
\<close>

lemma buildVpc_Inr_I:
  assumes "\<not> unresolvedReference v" and "\<not> igwViolation k v"
    and "\<forall>a\<in>set (vpc_transitGatewayAttachments v).
           tgwIds (tgw_name (att_transitGateway a)) \<noteq> None"
  shows "\<exists>sc'. buildVpc k p tgwIds v sc = Inr sc'"
proof (cases "buildVpc k p tgwIds v sc")
  case (Inr sc')
  then show ?thesis by blast
next
  case (Inl e)
  obtain msg where e: "e = Error msg" by (cases e)
  from buildVpc_Inl_D[OF Inl[unfolded e]] assms(2,3)
  obtain n where "(n, msg) \<in> set (unresolvedReferenceErrors v)" by blast
  then have "unresolvedReferenceErrors v \<noteq> []" by auto
  with assms(1) show ?thesis by (simp add: unresolvedReference_iff_errors)
qed

lemma forEach_Inr_I:
  "(\<And>x s. x \<in> set xs \<Longrightarrow> \<exists>s'. body x s = Inr s') \<Longrightarrow> \<exists>s'. forEach body xs s = Inr s'"
proof (induction xs arbitrary: s)
  case Nil
  then show ?case by simp
next
  case (Cons x xs)
  from Cons.prems[of x s] obtain s1 where s1: "body x s = Inr s1" by auto
  from Cons.IH[of s1] Cons.prems obtain s' where "forEach body xs s1 = Inr s'" by auto
  with s1 show ?case by simp
qed

lemma evaluateVpc_Inr_I:
  assumes "v \<in> set (vpcs p)"
    and "inContext p v \<longrightarrow> \<not> unresolvedReference v \<and> \<not> igwViolation k v"
  shows "\<exists>sc'. evaluateVpc k p (transitGatewayIds (resolveTransitGateways k p sc0)) v sc =
               Inr sc'"
proof (cases "inContext p v")
  case False
  then show ?thesis by (simp add: evaluateVpc_def)
next
  case True
  with assms(2) have "\<not> unresolvedReference v" "\<not> igwViolation k v" by simp_all
  moreover have "\<forall>a\<in>set (vpc_transitGatewayAttachments v).
      transitGatewayIds (resolveTransitGateways k p sc0) (tgw_name (att_transitGateway a)) \<noteq>
        None"
    using referencedAttachments_resolved[OF assms(1) True] by blast
  ultimately show ?thesis using True buildVpc_Inr_I by (simp add: evaluateVpc_def)
qed

text \<open>
  The synthesis returns exactly for the configurations whose definitions of the current
  account and region have no unresolved reference and respect the internet gateway
  invariant.
\<close>

lemma NetworkVpcStack_Inr_iff:
  "(\<exists>out. NetworkVpcStack k p = Inr out) \<longleftrightarrow>
   (\<forall>v\<in>set (vpcs p). inContext p v \<longrightarrow> \<not> unresolvedReference v \<and> \<not> igwViolation k v)"
proof
  assume "\<exists>out. NetworkVpcStack k p = Inr out"
  then obtain out where "NetworkVpcStack k p = Inr out" ..
  then show "\<forall>v\<in>set (vpcs p). inContext p v \<longrightarrow>
      \<not> unresolvedReference v \<and> \<not> igwViolation k v"
    using NetworkVpcStack_Inr_resolved NetworkVpcStack_Inr_internetGateway by blast
next
  assume a: "\<forall>v\<in>set (vpcs p). inContext p v \<longrightarrow>
      \<not> unresolvedReference v \<and> \<not> igwViolation k v"
  show "\<exists>out. NetworkVpcStack k p = Inr out"
    unfolding NetworkVpcStack_def Let_def
    by (rule forEach_Inr_I) (use a evaluateVpc_Inr_I in blast)
qed


section \<open>The internet gateway invariant\<close>

text \<open>
  Claim C1: if the owning VPC has no internet gateway identifier,
  \<open>addInternetGatewayRoute\<close> throws the error
  \<^verbatim>\<open>Attempting to add Internet Gateway route without an IGW defined.\<close> and returns
  no scope, so that no route is produced. On a VPC that \<open>new_SecureVpc\<close> has
  constructed the identifier is absent unless \<^verbatim>\<open>internetGateway\<close> is set, and is the
  \<^verbatim>\<open>ref\<close> of the internet gateway otherwise; a \<^verbatim>\<open>ref\<close> is never the empty string,
  which the guard \<^verbatim>\<open>!this.vpc.internetGatewayId\<close> would treat like an absent
  identifier. On such a VPC the call throws if \<^verbatim>\<open>internetGateway\<close> is not set, and
  otherwise returns the scope with exactly one more route, of this route table and
  with the gateway of the VPC as its target. For the stack: a definition of the
  current account and region with a route entry of type \<^verbatim>\<open>internetGateway\<close> and
  without \<^verbatim>\<open>internetGateway\<close> set makes the synthesis throw, with this error if no
  definition has an unresolved reference, as in the scenario of the specification with
  \<^verbatim>\<open>internetGateway: false\<close>; a synthesis that returns has set \<^verbatim>\<open>internetGateway\<close>
  for every such entry and holds its route to the internet gateway of the VPC; and the
  synthesis returns if every definition sets \<^verbatim>\<open>internetGateway\<close> and has no
  unresolved reference.
\<close>

theorem internet_gateway_route_invariant:
  "(internetGatewayId (rt_vpc rt) = None \<longrightarrow>
      addInternetGatewayRoute rt cid destination sc =
        Inl (Error ''Attempting to add Internet Gateway route without an IGW defined.'')) \<and>
   (new_SecureVpc k vcid nm cidr dnsHostnames dnsSupport tenancy internetGateway sc0 = (vpc, sc1) \<and>
    rt_vpc rt = vpc \<and> ref k (child vcid ''InternetGateway'') \<noteq> [] \<longrightarrow>
      (internetGateway \<noteq> Some True \<longrightarrow>
         internetGatewayId vpc = None \<and>
         addInternetGatewayRoute rt cid destination sc =
           Inl (Error ''Attempting to add Internet Gateway route without an IGW defined.'')) \<and>
      (internetGateway = Some True \<longrightarrow>
         internetGatewayId vpc = Some (ref k (child vcid ''InternetGateway'')) \<and>
         addInternetGatewayRoute rt cid destination sc =
           Inr (sc @ [CfnRoute (child (rt_node rt) cid) (secureRouteTableId rt) destination
                        (GatewayTarget (ref k (child vcid ''InternetGateway''))) None]))) \<and>
   (v \<in> set (vpcs p) \<and> inContext p v \<and> rtItem \<in> set (vpc_routeTables v) \<and>
    e \<in> set (rtc_routes rtItem) \<and> rte_type e = Some ''internetGateway'' \<and>
    vpc_internetGateway v \<noteq> Some True \<longrightarrow>
      (\<exists>msg. NetworkVpcStack k p = Inl (Error msg)) \<and>
      ((\<forall>v'\<in>set (vpcs p). inContext p v' \<longrightarrow> \<not> unresolvedReference v') \<longrightarrow>
         NetworkVpcStack k p =
           Inl (Error ''Attempting to add Internet Gateway route without an IGW defined.''))) \<and>
   (NetworkVpcStack k p = Inr out \<and> v \<in> set (vpcs p) \<and> inContext p v \<and>
    rtItem \<in> set (vpc_routeTables v) \<and> e \<in> set (rtc_routes rtItem) \<and>
    rte_type e = Some ''internetGateway'' \<longrightarrow>
      vpc_internetGateway v = Some True \<and>
      (let vpcCid = pascalCase k (vpc_name v @ ''Vpc'');
           rtCid = vpcCid @ pascalCase k (rtc_name rtItem @ ''RouteTable'')
       in CfnRoute (child rtCid (rtCid @ pascalCase k (rte_name e)))
            (ref k (child rtCid ''Resource'')) (rte_destination e)
            (GatewayTarget (ref k (child vpcCid ''InternetGateway''))) None
          \<in> set (routes out))) \<and>
   ((\<forall>v'\<in>set (vpcs p). inContext p v' \<longrightarrow>
        \<not> unresolvedReference v' \<and> vpc_internetGateway v' = Some True \<and>
        ref k (child (pascalCase k (vpc_name v' @ ''Vpc'')) ''InternetGateway'') \<noteq> []) \<longrightarrow>
      (\<exists>out'. NetworkVpcStack k p = Inr out'))"
proof (intro conjI impI)
  assume "internetGatewayId (rt_vpc rt) = None"
  then show "addInternetGatewayRoute rt cid destination sc =
      Inl (Error ''Attempting to add Internet Gateway route without an IGW defined.'')"
    by (simp add: addInternetGatewayRoute_def)
next
  assume a: "new_SecureVpc k vcid nm cidr dnsHostnames dnsSupport tenancy internetGateway sc0 =
               (vpc, sc1) \<and>
             rt_vpc rt = vpc \<and> ref k (child vcid ''InternetGateway'') \<noteq> []"
    and b: "internetGateway \<noteq> Some True"
  from a b show "internetGatewayId vpc = None"
    by (auto simp: new_SecureVpc_def Let_def)
  with a show "addInternetGatewayRoute rt cid destination sc =
      Inl (Error ''Attempting to add Internet Gateway route without an IGW defined.'')"
    by (simp add: addInternetGatewayRoute_def)
next
  assume a: "new_SecureVpc k vcid nm cidr dnsHostnames dnsSupport tenancy internetGateway sc0 =
               (vpc, sc1) \<and>
             rt_vpc rt = vpc \<and> ref k (child vcid ''InternetGateway'') \<noteq> []"
    and b: "internetGateway = Some True"
  from a b show i: "internetGatewayId vpc = Some (ref k (child vcid ''InternetGateway''))"
    by (auto simp: new_SecureVpc_def Let_def)
  with a show "addInternetGatewayRoute rt cid destination sc =
      Inr (sc @ [CfnRoute (child (rt_node rt) cid) (secureRouteTableId rt) destination
                   (GatewayTarget (ref k (child vcid ''InternetGateway''))) None])"
    by (simp add: addInternetGatewayRoute_def)
next
  assume a: "v \<in> set (vpcs p) \<and> inContext p v \<and> rtItem \<in> set (vpc_routeTables v) \<and>
             e \<in> set (rtc_routes rtItem) \<and> rte_type e = Some ''internetGateway'' \<and>
             vpc_internetGateway v \<noteq> Some True"
  then have g: "igwViolation k v" unfolding igwViolation_def by blast
  show f: "\<exists>msg. NetworkVpcStack k p = Inl (Error msg)"
  proof (cases "NetworkVpcStack k p")
    case (Inl err)
    then show ?thesis by (cases err) simp
  next
    case (Inr out')
    with a g show ?thesis using NetworkVpcStack_Inr_internetGateway[of k p out' v] by simp
  qed
  assume r: "\<forall>v'\<in>set (vpcs p). inContext p v' \<longrightarrow> \<not> unresolvedReference v'"
  from f obtain msg where m: "NetworkVpcStack k p = Inl (Error msg)" ..
  from NetworkVpcStack_Inl_D[OF m] obtain v' where v': "v' \<in> set (vpcs p)" "inContext p v'"
    "msg = ''Attempting to add Internet Gateway route without an IGW defined.'' \<or>
     (\<exists>n. (n, msg) \<in> set (unresolvedReferenceErrors v'))"
    by blast
  from r v'(1,2) have "unresolvedReferenceErrors v' = []"
    by (simp add: unresolvedReference_iff_errors)
  with v'(3) m show "NetworkVpcStack k p =
      Inl (Error ''Attempting to add Internet Gateway route without an IGW defined.'')"
    by simp
next
  assume a: "NetworkVpcStack k p = Inr out \<and> v \<in> set (vpcs p) \<and> inContext p v \<and>
             rtItem \<in> set (vpc_routeTables v) \<and> e \<in> set (rtc_routes rtItem) \<and>
             rte_type e = Some ''internetGateway''"
  then have "\<not> igwViolation k v" using NetworkVpcStack_Inr_internetGateway by blast
  with a show "vpc_internetGateway v = Some True" unfolding igwViolation_def by blast
  let ?T = "transitGatewayIds (resolveTransitGateways k p (stackPreamble p))"
  let ?vpcCid = "pascalCase k (vpc_name v @ ''Vpc'')"
  let ?rtCid = "?vpcCid @ pascalCase k (rtc_name rtItem @ ''RouteTable'')"
  let ?r = "CfnRoute (child ?rtCid (?rtCid @ pascalCase k (rte_name e)))
              (ref k (child ?rtCid ''Resource'')) (rte_destination e)
              (GatewayTarget (ref k (child ?vpcCid ''InternetGateway''))) None"
  from a have "expectedRoutes k ?T v rtItem e = [?r]"
    by (simp add: expectedRoutes_def Let_def)
  with a have "?r \<in> set (expectedVpcRoutes k ?T v)"
    unfolding expectedVpcRoutes_def by force
  with a have "?r \<in> set (routes out)"
    using NetworkVpcStack_routes[of k p out] by auto
  then show "let vpcCid = pascalCase k (vpc_name v @ ''Vpc'');
                 rtCid = vpcCid @ pascalCase k (rtc_name rtItem @ ''RouteTable'')
             in CfnRoute (child rtCid (rtCid @ pascalCase k (rte_name e)))
                  (ref k (child rtCid ''Resource'')) (rte_destination e)
                  (GatewayTarget (ref k (child vpcCid ''InternetGateway''))) None
                \<in> set (routes out)"
    by (simp add: Let_def)
next
  assume "\<forall>v'\<in>set (vpcs p). inContext p v' \<longrightarrow>
        \<not> unresolvedReference v' \<and> vpc_internetGateway v' = Some True \<and>
        ref k (child (pascalCase k (vpc_name v' @ ''Vpc'')) ''InternetGateway'') \<noteq> []"
  then have "\<forall>v'\<in>set (vpcs p). inContext p v' \<longrightarrow>
        \<not> unresolvedReference v' \<and> \<not> igwViolation k v'"
    unfolding igwViolation_def by blast
  then show "\<exists>out'. NetworkVpcStack k p = Inr out'"
    by (simp add: NetworkVpcStack_Inr_iff)
qed
theorem internet_gateway_route_invariant_witness:
  "addInternetGatewayRoute (example_rt None) ''Default'' ''0.0.0.0/0'' [] =
     Inl (Error ''Attempting to add Internet Gateway route without an IGW defined.'') \<and>
   addInternetGatewayRoute
     \<lparr>rt_node = ''AVpcPublicRouteTable'', secureRouteTableId = ''rtb-1'',
      rt_vpc = fst (new_SecureVpc example_sdk ''AVpc'' ''A'' (Some ''10.0.0.0/16'') None None None
                      (Some False) [])\<rparr>
     ''Default'' ''0.0.0.0/0'' [] =
     Inl (Error ''Attempting to add Internet Gateway route without an IGW defined.'') \<and>
   addInternetGatewayRoute
     \<lparr>rt_node = ''AVpcPublicRouteTable'', secureRouteTableId = ''rtb-1'',
      rt_vpc = fst (new_SecureVpc example_sdk ''AVpc'' ''A'' (Some ''10.0.0.0/16'') None None None
                      (Some True) [])\<rparr>
     ''Default'' ''0.0.0.0/0'' [] =
     Inr [CfnRoute ''AVpcPublicRouteTable/Default'' ''rtb-1'' ''0.0.0.0/0''
            (GatewayTarget ''ref:AVpc/InternetGateway'') None] \<and>
   NetworkVpcStack example_sdk (example_props [example_vpcItem (Some False)]) =
     Inl (Error ''Attempting to add Internet Gateway route without an IGW defined.'') \<and>
   (\<exists>out. NetworkVpcStack example_sdk (example_props [example_vpcItem (Some True)]) = Inr out \<and>
          CfnRoute ''AVpcPublicRouteTable/AVpcPublicRouteTableDefault''
            ''ref:AVpcPublicRouteTable/Resource'' ''0.0.0.0/0''
            (GatewayTarget ''ref:AVpc/InternetGateway'') None \<in> set (routes out))"
proof -
  let ?entry = "example_entry (Some ''internetGateway'') ''IGW''"
  let ?rtItem = "example_routeTable [?entry]"
  let ?off = "example_props [example_vpcItem (Some False)]"
  let ?on = "example_props [example_vpcItem (Some True)]"
  let ?rt = "\<lambda>igw. \<lparr>rt_node = ''AVpcPublicRouteTable'', secureRouteTableId = ''rtb-1'',
      rt_vpc = fst (new_SecureVpc example_sdk ''AVpc'' ''A'' (Some ''10.0.0.0/16'') None None None
                      igw [])\<rparr>"
  have ctx: "inContext ?off (example_vpcItem (Some False))"
    "inContext ?on (example_vpcItem (Some True))"
    by (simp_all add: inContext_def accountIdOf_def example_props_def example_vpcItem_def)
  have resolved: "\<not> unresolvedReference (example_vpcItem igw)" for igw
    by (simp add: unresolvedReference_def example_vpcItem_def example_routeTable_def
        example_subnet_def example_entry_def)
  have a: "addInternetGatewayRoute (example_rt None) ''Default'' ''0.0.0.0/0'' [] =
     Inl (Error ''Attempting to add Internet Gateway route without an IGW defined.'')"
    using internet_gateway_route_invariant[where rt = "example_rt None" and cid = "''Default''"
        and destination = "''0.0.0.0/0''" and sc = "[]"]
    by (simp add: example_rt_def example_vpc_def)
  have b: "addInternetGatewayRoute (?rt (Some False)) ''Default'' ''0.0.0.0/0'' [] =
     Inl (Error ''Attempting to add Internet Gateway route without an IGW defined.'')"
    using internet_gateway_route_invariant[where rt = "?rt (Some False)" and cid = "''Default''"
        and destination = "''0.0.0.0/0''" and sc = "[]" and k = example_sdk
        and vcid = "''AVpc''" and nm = "''A''" and cidr = "Some ''10.0.0.0/16''"
        and dnsHostnames = None and dnsSupport = None and tenancy = None
        and internetGateway = "Some False" and ?sc0.0 = "[]"
        and vpc = "fst (new_SecureVpc example_sdk ''AVpc'' ''A'' (Some ''10.0.0.0/16'') None
                          None None (Some False) [])"
        and ?sc1.0 = "snd (new_SecureVpc example_sdk ''AVpc'' ''A'' (Some ''10.0.0.0/16'') None
                          None None (Some False) [])"]
    by (simp add: example_sdk_def)
  have c: "addInternetGatewayRoute (?rt (Some True)) ''Default'' ''0.0.0.0/0'' [] =
     Inr [CfnRoute ''AVpcPublicRouteTable/Default'' ''rtb-1'' ''0.0.0.0/0''
            (GatewayTarget ''ref:AVpc/InternetGateway'') None]"
    using internet_gateway_route_invariant[where rt = "?rt (Some True)" and cid = "''Default''"
        and destination = "''0.0.0.0/0''" and sc = "[]" and k = example_sdk
        and vcid = "''AVpc''" and nm = "''A''" and cidr = "Some ''10.0.0.0/16''"
        and dnsHostnames = None and dnsSupport = None and tenancy = None
        and internetGateway = "Some True" and ?sc0.0 = "[]"
        and vpc = "fst (new_SecureVpc example_sdk ''AVpc'' ''A'' (Some ''10.0.0.0/16'') None
                          None None (Some True) [])"
        and ?sc1.0 = "snd (new_SecureVpc example_sdk ''AVpc'' ''A'' (Some ''10.0.0.0/16'') None
                          None None (Some True) [])"]
    by (simp add: example_sdk_def child_def)
  have d: "NetworkVpcStack example_sdk ?off =
     Inl (Error ''Attempting to add Internet Gateway route without an IGW defined.'')"
    using internet_gateway_route_invariant[where k = example_sdk and p = ?off
        and v = "example_vpcItem (Some False)" and rtItem = ?rtItem and e = ?entry]
      ctx(1) resolved[of "Some False"]
    by (simp add: example_props_def example_vpcItem_def example_entry_def example_routeTable_def)
  have "\<exists>out. NetworkVpcStack example_sdk ?on = Inr out"
    using internet_gateway_route_invariant[where k = example_sdk and p = ?on]
      resolved[of "Some True"]
    by (simp add: example_props_def example_vpcItem_def example_sdk_def)
  then obtain out where out: "NetworkVpcStack example_sdk ?on = Inr out" ..
  have "CfnRoute ''AVpcPublicRouteTable/AVpcPublicRouteTableDefault''
            ''ref:AVpcPublicRouteTable/Resource'' ''0.0.0.0/0''
            (GatewayTarget ''ref:AVpc/InternetGateway'') None \<in> set (routes out)"
    using internet_gateway_route_invariant[where k = example_sdk and p = ?on and out = out
        and v = "example_vpcItem (Some True)" and rtItem = ?rtItem and e = ?entry]
      out ctx(2)
    by (simp add: example_props_def example_vpcItem_def example_entry_def example_routeTable_def
        example_sdk_def child_def)
  with a b c d out show ?thesis by blast
qed

section \<open>Unresolved references\<close>





section \<open>The attachment that a route depends on\<close>

text \<open>
  Claim C3: the attachment map is keyed by the name of the transit gateway. After the
  attachment step its keys are the transit gateway names of the VPC's attachments, and
  under a transit gateway name it holds one attachment, the one created for the last
  attachment definition that names this transit gateway; an earlier attachment to the
  same transit gateway is no longer in the map. A route entry of type
  \<^verbatim>\<open>transitGateway\<close> takes the attachment found under its target as the dependency of
  its route. For a build that returns: the routes it adds to the scope are the expected
  routes of its route entries, in their order, so that the route of every entry of type
  \<^verbatim>\<open>transitGateway\<close> depends on the attachment of the last attachment definition of
  the VPC that names the target of the entry, and on no other; the VPC has such an
  attachment definition and the transit gateway is resolved. For a synthesis that
  returns: its routes are the expected routes of its definitions of the current account
  and region.
\<close>

theorem attachments_keyed_by_transit_gateway:
  "(createTransitGatewayAttachments k v vpc tgwIds subnetMap sc = Inr (attachments, sc') \<longrightarrow>
      dom attachments =
        (\<lambda>a. tgw_name (att_transitGateway a)) ` set (vpc_transitGatewayAttachments v) \<and>
      attachments t =
        (if attachmentsTo t (vpc_transitGatewayAttachments v) = [] then None
         else Some (attachmentOf k (last (attachmentsTo t (vpc_transitGatewayAttachments v)))))) \<and>
   (rte_type entry = Some ''transitGateway'' \<and> tgwIds' (rte_target entry) = Some tgwId \<and>
    attachments' (rte_target entry) = Some attachment \<longrightarrow>
      addRouteTableEntry k v tgwIds' natGatewayMap attachments' routeTableItem rt entry st =
        Inr (st\<lparr>rs_scope := rs_scope st @
               [CfnRoute
                  (child (rt_node rt)
                     (pascalCase k (vpc_name v @ ''Vpc'') @
                      pascalCase k (rtc_name routeTableItem @ ''RouteTable'') @
                      pascalCase k (rte_name entry)))
                  (secureRouteTableId rt) (rte_destination entry)
                  (TransitGatewayTarget tgwId) (Some (defaultChild attachment))]\<rparr>)) \<and>
   (buildVpc k p ids v sc0 = Inr sc1 \<longrightarrow>
      routes sc1 = routes sc0 @ expectedVpcRoutes k ids v) \<and>
   (buildVpc k p ids v sc0 = Inr sc1 \<and> routeTableItem \<in> set (vpc_routeTables v) \<and>
    entry \<in> set (rtc_routes routeTableItem) \<and> rte_type entry = Some ''transitGateway'' \<longrightarrow>
      attachmentsTo (rte_target entry) (vpc_transitGatewayAttachments v) \<noteq> [] \<and>
      (\<exists>gateway. ids (rte_target entry) = Some gateway \<and>
         (let vpcCid = pascalCase k (vpc_name v @ ''Vpc'');
              rtCid = vpcCid @ pascalCase k (rtc_name routeTableItem @ ''RouteTable'')
          in CfnRoute (child rtCid (rtCid @ pascalCase k (rte_name entry)))
               (ref k (child rtCid ''Resource'')) (rte_destination entry)
               (TransitGatewayTarget gateway)
               (Some (defaultChild
                        (attachmentOf k
                           (last (attachmentsTo (rte_target entry)
                                    (vpc_transitGatewayAttachments v))))))
             \<in> set (routes sc1)))) \<and>
   (NetworkVpcStack k p = Inr out \<longrightarrow>
      routes out =
        concat (map (expectedVpcRoutes k
                       (transitGatewayIds (resolveTransitGateways k p (stackPreamble p))))
                  (filter (inContext p) (vpcs p))))"
proof (intro conjI impI)
  assume a: "createTransitGatewayAttachments k v vpc tgwIds subnetMap sc = Inr (attachments, sc')"
  from createTransitGatewayAttachments_Inr_D(1)[OF a]
  show "dom attachments =
      (\<lambda>a. tgw_name (att_transitGateway a)) ` set (vpc_transitGatewayAttachments v)"
    by simp
  from a forEach_createTransitGatewayAttachment_map[of k v vpc tgwIds subnetMap
      "vpc_transitGatewayAttachments v" "(Map.empty, sc)" "(attachments, sc')" t]
  show "attachments t =
      (if attachmentsTo t (vpc_transitGatewayAttachments v) = [] then None
       else Some (attachmentOf k (last (attachmentsTo t (vpc_transitGatewayAttachments v)))))"
    by (simp add: createTransitGatewayAttachments_def)
next
  assume "rte_type entry = Some ''transitGateway'' \<and> tgwIds' (rte_target entry) = Some tgwId \<and>
          attachments' (rte_target entry) = Some attachment"
  then show "addRouteTableEntry k v tgwIds' natGatewayMap attachments' routeTableItem rt entry st =
      Inr (st\<lparr>rs_scope := rs_scope st @
             [CfnRoute
                (child (rt_node rt)
                   (pascalCase k (vpc_name v @ ''Vpc'') @
                    pascalCase k (rtc_name routeTableItem @ ''RouteTable'') @
                    pascalCase k (rte_name entry)))
                (secureRouteTableId rt) (rte_destination entry)
                (TransitGatewayTarget tgwId) (Some (defaultChild attachment))]\<rparr>)"
    by (simp add: addRouteTableEntry_def addTransitGatewayRoute_def)
next
  assume "buildVpc k p ids v sc0 = Inr sc1"
  then show "routes sc1 = routes sc0 @ expectedVpcRoutes k ids v" by (rule buildVpc_routes)
next
  assume a: "buildVpc k p ids v sc0 = Inr sc1 \<and> routeTableItem \<in> set (vpc_routeTables v) \<and>
    entry \<in> set (rtc_routes routeTableItem) \<and> rte_type entry = Some ''transitGateway''"
  then have b: "buildVpc k p ids v sc0 = Inr sc1" by simp
  from buildVpc_Inr_resolved[OF b] a
  have "rte_target entry \<in> (\<lambda>a. tgw_name (att_transitGateway a)) `
          set (vpc_transitGatewayAttachments v)"
    unfolding unresolvedReference_def by blast
  then show "attachmentsTo (rte_target entry) (vpc_transitGatewayAttachments v) \<noteq> []"
    by (auto simp: attachmentsTo_def filter_empty_conv)
  from b obtain rtMap natMap attMap sc5 st where
    "createRouteTableEntries k v ids rtMap natMap attMap sc5 = Inr st"
    by (rule buildVpc_Inr_stages)
  from createRouteTableEntries_Inr_D[OF this, of routeTableItem entry] a
  obtain gateway where g: "ids (rte_target entry) = Some gateway" by auto
  let ?vpcCid = "pascalCase k (vpc_name v @ ''Vpc'')"
  let ?rtCid = "?vpcCid @ pascalCase k (rtc_name routeTableItem @ ''RouteTable'')"
  let ?r = "CfnRoute (child ?rtCid (?rtCid @ pascalCase k (rte_name entry)))
              (ref k (child ?rtCid ''Resource'')) (rte_destination entry)
              (TransitGatewayTarget gateway)
              (Some (defaultChild
                       (attachmentOf k
                          (last (attachmentsTo (rte_target entry)
                                   (vpc_transitGatewayAttachments v))))))"
  from a g have "expectedRoutes k ids v routeTableItem entry = [?r]"
    by (simp add: expectedRoutes_def Let_def)
  with a have "?r \<in> set (expectedVpcRoutes k ids v)"
    unfolding expectedVpcRoutes_def by force
  then have "?r \<in> set (routes sc1)" by (simp add: buildVpc_routes[OF b])
  with g show "\<exists>gateway. ids (rte_target entry) = Some gateway \<and>
         (let vpcCid = pascalCase k (vpc_name v @ ''Vpc'');
              rtCid = vpcCid @ pascalCase k (rtc_name routeTableItem @ ''RouteTable'')
          in CfnRoute (child rtCid (rtCid @ pascalCase k (rte_name entry)))
               (ref k (child rtCid ''Resource'')) (rte_destination entry)
               (TransitGatewayTarget gateway)
               (Some (defaultChild
                        (attachmentOf k
                           (last (attachmentsTo (rte_target entry)
                                    (vpc_transitGatewayAttachments v))))))
             \<in> set (routes sc1))"
    by (simp add: Let_def)
next
  assume "NetworkVpcStack k p = Inr out"
  then show "routes out =
        concat (map (expectedVpcRoutes k
                       (transitGatewayIds (resolveTransitGateways k p (stackPreamble p))))
                  (filter (inContext p) (vpcs p)))"
    by (rule NetworkVpcStack_routes)
qed
theorem attachments_keyed_by_transit_gateway_witness:
  "(case createTransitGatewayAttachments example_sdk example_full (example_vpc None)
           [''Tgw1'' \<mapsto> ''tgw-1''] example_subnetMap [] of
      Inl e \<Rightarrow> None
    | Inr (attachments, sc) \<Rightarrow>
        Some (attachments ''Tgw1'', attachments ''Att1'', attachments ''Att2'')) =
     Some (Some \<lparr>tga_node = ''Att2VpcTransitGatewayAttachment'',
                 transitGatewayAttachmentId = ''ref:Att2VpcTransitGatewayAttachment/Resource''\<rparr>,
           None, None) \<and>
   addRouteTableEntry example_sdk example_full [''Tgw1'' \<mapsto> ''tgw-1''] Map.empty
     [''Tgw1'' \<mapsto> attachmentOf example_sdk
                     (example_attachment ''Att2'' ''Tgw1'' ''Network'' [''Web''])]
     (example_routeTable []) (example_rt None)
     (example_entry (Some ''transitGateway'') ''Tgw1'') example_routing =
     Inr (example_routing\<lparr>rs_scope :=
            [CfnRoute ''AVpcPublicRouteTable/MainVpcPublicRouteTableDefault'' ''rtb-1''
               ''0.0.0.0/0'' (TransitGatewayTarget ''tgw-1'')
               (Some ''Att2VpcTransitGatewayAttachment/Resource'')]\<rparr>) \<and>
   (case buildVpc example_sdk (example_props []) [''Tgw1'' \<mapsto> ''tgw-1''] example_full [] of
      Inl e \<Rightarrow> None
    | Inr sc \<Rightarrow> Some (routes sc)) =
     Some [CfnRoute ''MainVpcPublicRouteTable/MainVpcPublicRouteTableToTgw''
             ''ref:MainVpcPublicRouteTable/Resource'' ''10.0.0.0/8''
             (TransitGatewayTarget ''tgw-1'')
             (Some ''Att2VpcTransitGatewayAttachment/Resource''),
           CfnRoute ''MainVpcPublicRouteTable/MainVpcPublicRouteTableToNat''
             ''ref:MainVpcPublicRouteTable/Resource'' ''0.0.0.0/0''
             (NatGatewayTarget ''ref:MainVpcNat1NatGateway/Resource'') None] \<and>
   (case NetworkVpcStack example_sdk (example_props [example_full]) of
      Inl e \<Rightarrow> None
    | Inr out \<Rightarrow> Some (routes out)) =
     Some [CfnRoute ''MainVpcPublicRouteTable/MainVpcPublicRouteTableToTgw''
             ''ref:MainVpcPublicRouteTable/Resource'' ''10.0.0.0/8''
             (TransitGatewayTarget ''ssm:/accelerator/network/transitGateways/Tgw1/id'')
             (Some ''Att2VpcTransitGatewayAttachment/Resource''),
           CfnRoute ''MainVpcPublicRouteTable/MainVpcPublicRouteTableToNat''
             ''ref:MainVpcPublicRouteTable/Resource'' ''0.0.0.0/0''
             (NatGatewayTarget ''ref:MainVpcNat1NatGateway/Resource'') None] \<and>
   attachmentsTo ''Tgw1'' (vpc_transitGatewayAttachments example_full) \<noteq> []"
proof -
  obtain attachments sc where
    a: "createTransitGatewayAttachments example_sdk example_full (example_vpc None)
          [''Tgw1'' \<mapsto> ''tgw-1''] example_subnetMap [] = Inr (attachments, sc)"
    by (simp add: model_defs example_defs example_full_def example_subnetMap_def)
  from a
    attachments_keyed_by_transit_gateway
      [where k = example_sdk and v = example_full and vpc = "example_vpc None"
         and tgwIds = "[''Tgw1'' \<mapsto> ''tgw-1'']" and subnetMap = example_subnetMap
         and sc = "[]" and attachments = attachments and sc' = sc and t = "''Tgw1''"]
    attachments_keyed_by_transit_gateway
      [where k = example_sdk and v = example_full and vpc = "example_vpc None"
         and tgwIds = "[''Tgw1'' \<mapsto> ''tgw-1'']" and subnetMap = example_subnetMap
         and sc = "[]" and attachments = attachments and sc' = sc and t = "''Att1''"]
    attachments_keyed_by_transit_gateway
      [where k = example_sdk and v = example_full and vpc = "example_vpc None"
         and tgwIds = "[''Tgw1'' \<mapsto> ''tgw-1'']" and subnetMap = example_subnetMap
         and sc = "[]" and attachments = attachments and sc' = sc and t = "''Att2''"
         and entry = "example_entry (Some ''transitGateway'') ''Tgw1''"
         and tgwIds' = "[''Tgw1'' \<mapsto> ''tgw-1'']" and tgwId = "''tgw-1''"
         and attachments' = "[''Tgw1'' \<mapsto> attachmentOf example_sdk
                     (example_attachment ''Att2'' ''Tgw1'' ''Network'' [''Web''])]"
         and attachment = "attachmentOf example_sdk
                     (example_attachment ''Att2'' ''Tgw1'' ''Network'' [''Web''])"
         and natGatewayMap = Map.empty and routeTableItem = "example_routeTable []"
         and rt = "example_rt None" and st = example_routing]
  have steps: "(case createTransitGatewayAttachments example_sdk example_full (example_vpc None)
               [''Tgw1'' \<mapsto> ''tgw-1''] example_subnetMap [] of
          Inl e \<Rightarrow> None
        | Inr (attachments, sc) \<Rightarrow>
            Some (attachments ''Tgw1'', attachments ''Att1'', attachments ''Att2'')) =
         Some (Some \<lparr>tga_node = ''Att2VpcTransitGatewayAttachment'',
                     transitGatewayAttachmentId = ''ref:Att2VpcTransitGatewayAttachment/Resource''\<rparr>,
               None, None) \<and>
       addRouteTableEntry example_sdk example_full [''Tgw1'' \<mapsto> ''tgw-1''] Map.empty
         [''Tgw1'' \<mapsto> attachmentOf example_sdk
                         (example_attachment ''Att2'' ''Tgw1'' ''Network'' [''Web''])]
         (example_routeTable []) (example_rt None)
         (example_entry (Some ''transitGateway'') ''Tgw1'') example_routing =
         Inr (example_routing\<lparr>rs_scope :=
                [CfnRoute ''AVpcPublicRouteTable/MainVpcPublicRouteTableDefault'' ''rtb-1''
                   ''0.0.0.0/0'' (TransitGatewayTarget ''tgw-1'')
                   (Some ''Att2VpcTransitGatewayAttachment/Resource'')]\<rparr>)"
    by (simp add: attachmentsTo_def attachmentOf_def defaultChild_def child_def
        example_defs example_full_def)
  have expected: "expectedVpcRoutes example_sdk [''Tgw1'' \<mapsto> tgwId] example_full =
      [CfnRoute ''MainVpcPublicRouteTable/MainVpcPublicRouteTableToTgw''
         ''ref:MainVpcPublicRouteTable/Resource'' ''10.0.0.0/8''
         (TransitGatewayTarget tgwId)
         (Some ''Att2VpcTransitGatewayAttachment/Resource''),
       CfnRoute ''MainVpcPublicRouteTable/MainVpcPublicRouteTableToNat''
         ''ref:MainVpcPublicRouteTable/Resource'' ''0.0.0.0/0''
         (NatGatewayTarget ''ref:MainVpcNat1NatGateway/Resource'') None]" for tgwId
    by (simp add: expectedVpcRoutes_def expectedRoutes_def attachmentsTo_def attachmentOf_def
        defaultChild_def child_def Let_def example_defs example_full_def)
  obtain sc1 where
    b: "buildVpc example_sdk (example_props []) [''Tgw1'' \<mapsto> ''tgw-1''] example_full [] =
          Inr sc1"
    by (simp add: model_defs example_defs example_full_def)
  from b attachments_keyed_by_transit_gateway
      [where k = example_sdk and p = "example_props []" and ids = "[''Tgw1'' \<mapsto> ''tgw-1'']"
         and v = example_full and ?sc0.0 = "[]" and ?sc1.0 = sc1,
       THEN conjunct2, THEN conjunct2, THEN conjunct1]
  have build: "routes sc1 = expectedVpcRoutes example_sdk [''Tgw1'' \<mapsto> ''tgw-1''] example_full"
    by (simp add: routes_def)
  obtain out where
    n: "NetworkVpcStack example_sdk (example_props [example_full]) = Inr out"
    by (simp add: model_defs example_defs example_full_def)
  have ids: "transitGatewayIds
      (resolveTransitGateways example_sdk (example_props [example_full])
         (stackPreamble (example_props [example_full]))) =
      [''Tgw1'' \<mapsto> ''ssm:/accelerator/network/transitGateways/Tgw1/id'']"
    by (simp add: model_defs example_defs example_full_def)
  have inside: "inContext (example_props [example_full]) example_full"
    by (simp add: inContext_def accountIdOf_def example_props_def example_main_def
        example_full_def)
  have defs: "filter (inContext (example_props [example_full]))
      (vpcs (example_props [example_full])) = [example_full]"
    using inside by (simp add: example_props_def)
  from n attachments_keyed_by_transit_gateway
      [where k = example_sdk and p = "example_props [example_full]" and out = out,
       THEN conjunct2, THEN conjunct2, THEN conjunct2, THEN conjunct2]
  have stack: "routes out = expectedVpcRoutes example_sdk
         [''Tgw1'' \<mapsto> ''ssm:/accelerator/network/transitGateways/Tgw1/id''] example_full"
    by (simp add: ids defs)
  let ?entry = "\<lparr>rte_name = ''ToTgw'', rte_destination = ''10.0.0.0/8'',
      rte_type = Some ''transitGateway'', rte_target = ''Tgw1''\<rparr>"
  have entry: "hd (vpc_routeTables example_full) \<in> set (vpc_routeTables example_full)"
    "?entry \<in> set (rtc_routes (hd (vpc_routeTables example_full)))"
    by (simp_all add: example_full_def example_main_def example_routeTable_def)
  from b entry attachments_keyed_by_transit_gateway
      [where k = example_sdk and p = "example_props []" and ids = "[''Tgw1'' \<mapsto> ''tgw-1'']"
         and v = example_full and ?sc0.0 = "[]" and ?sc1.0 = sc1
         and routeTableItem = "hd (vpc_routeTables example_full)" and entry = ?entry,
       THEN conjunct2, THEN conjunct2, THEN conjunct2, THEN conjunct1]
  have last: "attachmentsTo ''Tgw1'' (vpc_transitGatewayAttachments example_full) \<noteq> []"
    by simp
  show ?thesis
    using steps last by (simp add: b n build stack expected)
qed

section \<open>The cross-account access role\<close>

lemma firstReference_Cons:
  "firstReference t (a # as) =
     (if tgw_name (att_transitGateway a) = t then Some a else firstReference t as)"
  by (simp add: firstReference_def)

lemma fold_evaluateTransitGateway_accounts:
  "set (transitGatewayAccountIds (fold (evaluateTransitGateway k p) as st)) =
     set (transitGatewayAccountIds st) \<union>
     owningAccount p `
       {a \<in> set as. transitGatewayIds st (tgw_name (att_transitGateway a)) = None \<and>
                    firstReference (tgw_name (att_transitGateway a)) as = Some a \<and>
                    owningAccount p a \<noteq> Some (stack_account p)}"
proof (induction as arbitrary: st)
  case Nil
  then show ?case by simp
next
  case (Cons a as)
  show ?case
  proof (cases "transitGatewayIds st (tgw_name (att_transitGateway a))")
    case None
    then show ?thesis
      unfolding fold_simps Cons.IH
      by (auto simp: evaluateTransitGateway_accounts evaluateTransitGateway_ids
          firstReference_Cons)
  next
    case (Some i)
    then show ?thesis
      unfolding fold_simps Cons.IH
      by (auto simp: evaluateTransitGateway_hit firstReference_Cons)
  qed
qed

lemma fold_evaluateTransitGateway_distinct:
  "distinct (transitGatewayAccountIds st) \<Longrightarrow>
     distinct (transitGatewayAccountIds (fold (evaluateTransitGateway k p) as st))"
  by (induction as arbitrary: st) (simp_all add: evaluateTransitGateway_accounts)

lemma resolveTransitGateways_accounts:
  "distinct (transitGatewayAccountIds (resolveTransitGateways k p sc)) \<and>
   set (transitGatewayAccountIds (resolveTransitGateways k p sc)) = set (foreignOwners p)"
  by (auto simp: resolveTransitGateways_fold fold_evaluateTransitGateway_accounts
      fold_evaluateTransitGateway_distinct foreignOwners_def)

lemma roles_append [simp]: "roles (a @ b) = roles a @ roles b"
  by (simp add: roles_def)

lemma evaluateTransitGateway_roles:
  "roles (res_scope (evaluateTransitGateway k p x st)) = roles (res_scope st) @ []"
  by (simp add: evaluateTransitGateway_def Let_def roles_def isRole_def)

lemma resolveTransitGateways_roles:
  "roles (res_scope (resolveTransitGateways k p sc)) = roles sc"
  unfolding resolveTransitGateways_fold
  using fold_adds[where proj = "\<lambda>s. roles (res_scope s)" and g = "\<lambda>x. []"
      and f = "evaluateTransitGateway k p", OF evaluateTransitGateway_roles]
  by (simp add: concat_map_Nil)

lemma createSubnet_roles:
  "createSubnet k p v vpc rtMap x st = Inr st' \<Longrightarrow> roles (snd st') = roles (snd st) @ []"
  by (cases st)
     (auto simp: createSubnet_def new_SecureSubnet_def Let_def roles_def isRole_def
        split: option.splits)

lemma createNatGateway_roles:
  "createNatGateway k v snMap x st = Inr st' \<Longrightarrow> roles (snd st') = roles (snd st) @ []"
  by (cases st)
     (auto simp: createNatGateway_def new_SecureNatGateway_def Let_def roles_def isRole_def
        split: option.splits)

lemma createTransitGatewayAttachment_roles:
  "createTransitGatewayAttachment k v vpc tgwIds snMap x st = Inr st' \<Longrightarrow>
     roles (snd st') = roles (snd st) @ []"
  by (cases st)
     (auto simp: createTransitGatewayAttachment_def new_TransitGatewayAttachment_def Let_def
        roles_def isRole_def split: option.splits sum.splits)

lemma addRouteTableEntry_roles:
  "addRouteTableEntry k v tgwIds natMap attMap rtItem rt x st = Inr st' \<Longrightarrow>
     roles (rs_scope st') = roles (rs_scope st) @ []"
  by (auto simp: addRouteTableEntry_def addTransitGatewayRoute_def addNatGatewayRoute_def
      addInternetGatewayRoute_def Let_def roles_def isRole_def split: option.splits if_splits)

lemma addRouteTableEntries_roles:
  "addRouteTableEntries k v tgwIds rtMap natMap attMap x st = Inr st' \<Longrightarrow>
     roles (rs_scope st') = roles (rs_scope st) @ []"
  unfolding addRouteTableEntries_def
  using forEach_adds[where proj = "\<lambda>s. roles (rs_scope s)" and g = "\<lambda>x. []",
      OF addRouteTableEntry_roles]
  by (auto simp: concat_map_Nil split: option.splits)

lemma buildVpc_roles:
  assumes "buildVpc k p tgwIds v sc = Inr sc'"
  shows "roles sc' = roles sc"
proof -
  from assms obtain vpc sc1 rtMap sc2 snMap sc3 natMap sc4 attMap sc5 st where
    v: "createVpc k v sc = (vpc, sc1)" and
    r: "createRouteTables k v vpc sc1 = (rtMap, sc2)" and
    s: "createSubnets k p v vpc rtMap sc2 = Inr (snMap, sc3)" and
    n: "createNatGateways k v snMap sc3 = Inr (natMap, sc4)" and
    a: "createTransitGatewayAttachments k v vpc tgwIds snMap sc4 = Inr (attMap, sc5)" and
    e: "createRouteTableEntries k v tgwIds rtMap natMap attMap sc5 = Inr st" and
    g: "sc' = addGatewayEndpoints k v vpc st"
    by (rule buildVpc_Inr_stages)
  have o1: "roles sc1 = roles sc"
    using v by (auto simp: createVpc_def new_SecureVpc_def Let_def roles_def isRole_def
        split: if_splits)
  have o2: "roles sc2 = roles sc1"
    using fold_adds[where proj = "\<lambda>s. roles (snd s)" and f = "createRouteTable k v vpc"
        and g = "\<lambda>x. []" and xs = "vpc_routeTables v" and s = "(Map.empty, sc1)"] r
    by (simp add: createRouteTables_def createRouteTable_def new_SecureRouteTable_def
        Let_def roles_def isRole_def concat_map_Nil split_beta)
  have o3: "roles sc3 = roles sc2"
    using forEach_adds[where proj = "\<lambda>s. roles (snd s)" and g = "\<lambda>x. []"
        and body = "createSubnet k p v vpc rtMap" and xs = "vpc_subnets v"
        and s = "(Map.empty, sc2)" and s' = "(snMap, sc3)", OF createSubnet_roles] s
    by (simp add: createSubnets_def concat_map_Nil)
  have o4: "roles sc4 = roles sc3"
    using forEach_adds[where proj = "\<lambda>s. roles (snd s)" and g = "\<lambda>x. []"
        and body = "createNatGateway k v snMap" and xs = "vpc_natGateways v"
        and s = "(Map.empty, sc3)" and s' = "(natMap, sc4)", OF createNatGateway_roles] n
    by (simp add: createNatGateways_def concat_map_Nil)
  have o5: "roles sc5 = roles sc4"
    using forEach_adds[where proj = "\<lambda>s. roles (snd s)" and g = "\<lambda>x. []"
        and body = "createTransitGatewayAttachment k v vpc tgwIds snMap"
        and xs = "vpc_transitGatewayAttachments v"
        and s = "(Map.empty, sc4)" and s' = "(attMap, sc5)",
        OF createTransitGatewayAttachment_roles] a
    by (simp add: createTransitGatewayAttachments_def concat_map_Nil)
  have o6: "roles (rs_scope st) = roles sc5"
    using forEach_adds[where proj = "\<lambda>s. roles (rs_scope s)"
        and body = "addRouteTableEntries k v tgwIds rtMap natMap attMap" and g = "\<lambda>x. []"
        and xs = "vpc_routeTables v" and s' = st, OF addRouteTableEntries_roles] e
    by (simp add: createRouteTableEntries_def concat_map_Nil)
  have o7: "roles sc' = roles (rs_scope st)"
    using fold_adds[where proj = roles and g = "\<lambda>x. []"
        and f = "addGatewayEndpoint k v vpc (s3EndpointRouteTables st)
                   (dynamodbEndpointRouteTables st)"
        and xs = "vpc_gatewayEndpoints v" and s = "rs_scope st"] g
    by (simp add: addGatewayEndpoints_def addGatewayEndpoint_def addGatewayVpcEndpoint_def
        roles_def isRole_def concat_map_Nil)
  show ?thesis by (simp add: o1 o2 o3 o4 o5 o6 o7)
qed

lemma evaluateVpc_roles:
  "evaluateVpc k p tgwIds v sc = Inr sc' \<Longrightarrow> roles sc' = roles sc @ []"
  by (auto simp: evaluateVpc_def split: if_splits dest: buildVpc_roles)

lemma stackPreamble_roles: "roles (stackPreamble p) = []"
  by (simp add: stackPreamble_def Let_def roles_def isRole_def)

lemma foreignOwners_Nil_iff:
  "foreignOwners p = [] \<longleftrightarrow>
     (\<forall>a\<in>set (referencedAttachments p).
        firstReference (tgw_name (att_transitGateway a)) (referencedAttachments p) = Some a \<longrightarrow>
        owningAccount p a = Some (stack_account p))"
  by (auto simp: foreignOwners_def filter_empty_conv)

lemma firstReference_Some_D:
  "firstReference t as = Some a \<Longrightarrow> a \<in> set as \<and> tgw_name (att_transitGateway a) = t"
  by (auto simp: firstReference_def find_Some_iff)

text \<open>
  Claim C6: the accounts recorded by the resolution pass are, without duplicates, the
  foreign owners it met. A stack that synthesizes contains the role
  \<^verbatim>\<open>AWSAccelerator-DescribeTransitGatewayAttachmentsRole\<close> exactly once if there is a
  foreign owner, trusted by the recorded accounts and allowing only
  \<^verbatim>\<open>ec2:DescribeTransitGatewayAttachments\<close>, and contains no role otherwise. If every
  attachment gone through names a transit gateway of the current account there is no
  foreign owner; if some attachment names a transit gateway of another account, and
  attachments that name the same transit gateway agree on its owner, there is one.
\<close>

theorem cross_account_role_iff_foreign_owner:
  "distinct (transitGatewayAccountIds (resolveTransitGateways k p (stackPreamble p))) \<and>
   set (transitGatewayAccountIds (resolveTransitGateways k p (stackPreamble p))) =
     set (foreignOwners p) \<and>
   (NetworkVpcStack k p = Inr out \<longrightarrow>
      roles out =
        (if foreignOwners p = [] then []
         else [Role ''DescribeTransitGatewaysAttachmentsRole''
                 ''AWSAccelerator-DescribeTransitGatewayAttachmentsRole''
                 (transitGatewayAccountIds (resolveTransitGateways k p (stackPreamble p)))
                 [''ec2:DescribeTransitGatewayAttachments''] [''*'']])) \<and>
   ((\<forall>a\<in>set (referencedAttachments p). owningAccount p a = Some (stack_account p)) \<longrightarrow>
      foreignOwners p = []) \<and>
   ((\<forall>a\<in>set (referencedAttachments p). \<forall>b\<in>set (referencedAttachments p).
        tgw_name (att_transitGateway a) = tgw_name (att_transitGateway b) \<longrightarrow>
        owningAccount p a = owningAccount p b) \<and>
    (\<exists>a\<in>set (referencedAttachments p). owningAccount p a \<noteq> Some (stack_account p)) \<longrightarrow>
      foreignOwners p \<noteq> [])"
proof (intro conjI impI)
  let ?st = "resolveTransitGateways k p (stackPreamble p)"
  show d: "distinct (transitGatewayAccountIds ?st)"
    and s: "set (transitGatewayAccountIds ?st) = set (foreignOwners p)"
    using resolveTransitGateways_accounts[of k p "stackPreamble p"] by simp_all
  {
    assume a: "NetworkVpcStack k p = Inr out"
    define sc0 where "sc0 = createCrossAccountRole (transitGatewayAccountIds ?st) (res_scope ?st)"
    from a have f: "forEach (evaluateVpc k p (transitGatewayIds ?st)) (vpcs p) sc0 = Inr out"
      by (simp add: NetworkVpcStack_def Let_def sc0_def)
    have e: "transitGatewayAccountIds ?st = [] \<longleftrightarrow> foreignOwners p = []"
      using s by (metis set_empty)
    have r0: "roles sc0 =
        (if foreignOwners p = [] then []
         else [Role ''DescribeTransitGatewaysAttachmentsRole''
                 ''AWSAccelerator-DescribeTransitGatewayAttachmentsRole''
                 (transitGatewayAccountIds ?st)
                 [''ec2:DescribeTransitGatewayAttachments''] [''*'']])"
      using e
      by (simp add: sc0_def createCrossAccountRole_def resolveTransitGateways_roles
          stackPreamble_roles)
         (simp add: roles_def isRole_def)
    from forEach_adds[where proj = roles and g = "\<lambda>x. []"
        and body = "evaluateVpc k p (transitGatewayIds ?st)" and xs = "vpcs p" and s = sc0
        and s' = out, OF evaluateVpc_roles f]
    show "roles out =
        (if foreignOwners p = [] then []
         else [Role ''DescribeTransitGatewaysAttachmentsRole''
                 ''AWSAccelerator-DescribeTransitGatewayAttachmentsRole''
                 (transitGatewayAccountIds ?st)
                 [''ec2:DescribeTransitGatewayAttachments''] [''*'']])"
      by (simp add: r0 concat_map_Nil)
  }
  {
    assume "\<forall>a\<in>set (referencedAttachments p). owningAccount p a = Some (stack_account p)"
    then show "foreignOwners p = []"
      by (simp add: foreignOwners_Nil_iff)
  }
  {
    assume h: "(\<forall>a\<in>set (referencedAttachments p). \<forall>b\<in>set (referencedAttachments p).
        tgw_name (att_transitGateway a) = tgw_name (att_transitGateway b) \<longrightarrow>
        owningAccount p a = owningAccount p b) \<and>
      (\<exists>a\<in>set (referencedAttachments p). owningAccount p a \<noteq> Some (stack_account p))"
    then obtain a where a: "a \<in> set (referencedAttachments p)"
      "owningAccount p a \<noteq> Some (stack_account p)" by blast
    from a(1) obtain b where
      b: "firstReference (tgw_name (att_transitGateway a)) (referencedAttachments p) = Some b"
      using firstReference_None_iff[of "tgw_name (att_transitGateway a)" "referencedAttachments p"]
      by (cases "firstReference (tgw_name (att_transitGateway a)) (referencedAttachments p)") auto
    from firstReference_Some_D[OF b] have
      b': "b \<in> set (referencedAttachments p)"
          "tgw_name (att_transitGateway b) = tgw_name (att_transitGateway a)" by simp_all
    with h a have "owningAccount p b \<noteq> Some (stack_account p)" by metis
    with b b' show "foreignOwners p \<noteq> []"
      unfolding foreignOwners_Nil_iff by (metis)
  }
qed

theorem cross_account_role_iff_foreign_owner_witness:
  "(case NetworkVpcStack example_sdk (example_props [example_full, example_branch]) of
      Inl e \<Rightarrow> None | Inr out \<Rightarrow> Some (roles out)) =
     Some [Role ''DescribeTransitGatewaysAttachmentsRole''
             ''AWSAccelerator-DescribeTransitGatewayAttachmentsRole''
             [Some ''222222222222''] [''ec2:DescribeTransitGatewayAttachments''] [''*'']] \<and>
   (case NetworkVpcStack example_sdk (example_props [example_full]) of
      Inl e \<Rightarrow> None | Inr out \<Rightarrow> Some (roles out)) = Some [] \<and>
   foreignOwners (example_props [example_full]) = [] \<and>
   foreignOwners (example_props [example_full, example_branch]) \<noteq> []"
proof -
  obtain out1 where
    o1: "NetworkVpcStack example_sdk (example_props [example_full, example_branch]) = Inr out1"
    by (simp add: model_defs example_defs example_full_def example_branch_def)
  obtain out2 where
    o2: "NetworkVpcStack example_sdk (example_props [example_full]) = Inr out2"
    by (simp add: model_defs example_defs example_full_def)
  have a: "transitGatewayAccountIds
      (resolveTransitGateways example_sdk (example_props [example_full, example_branch])
         (stackPreamble (example_props [example_full, example_branch]))) =
      [Some ''222222222222'']"
    by (simp add: model_defs example_defs example_full_def example_branch_def)
  have r: "referencedAttachments (example_props [example_full]) =
      [example_attachment ''Att1'' ''Tgw1'' ''Network'' [''Web''],
       example_attachment ''Att2'' ''Tgw1'' ''Network'' [''Web'']]"
    "referencedAttachments (example_props [example_full, example_branch]) =
      [example_attachment ''Att1'' ''Tgw1'' ''Network'' [''Web''],
       example_attachment ''Att2'' ''Tgw1'' ''Network'' [''Web''],
       example_attachment ''Att3'' ''Tgw2'' ''Shared'' [],
       example_attachment ''Att4'' ''Tgw1'' ''Network'' [],
       example_attachment ''Att5'' ''Tgw3'' ''Shared'' []]"
    by (simp_all add: referencedAttachments_def inContext_def accountIdOf_def
        example_props_def example_main_def example_full_def example_branch_def)
  have l: "\<forall>a\<in>set (referencedAttachments (example_props [example_full])).
      owningAccount (example_props [example_full]) a =
        Some (stack_account (example_props [example_full]))"
    unfolding r
    by (simp add: owningAccount_def accountIdOf_def example_props_def example_attachment_def)
  have c: "(\<forall>a\<in>set (referencedAttachments (example_props [example_full, example_branch])).
       \<forall>b\<in>set (referencedAttachments (example_props [example_full, example_branch])).
         tgw_name (att_transitGateway a) = tgw_name (att_transitGateway b) \<longrightarrow>
         owningAccount (example_props [example_full, example_branch]) a =
           owningAccount (example_props [example_full, example_branch]) b) \<and>
      (\<exists>a\<in>set (referencedAttachments (example_props [example_full, example_branch])).
         owningAccount (example_props [example_full, example_branch]) a \<noteq>
           Some (stack_account (example_props [example_full, example_branch])))"
    unfolding r
    by (simp add: owningAccount_def accountIdOf_def example_props_def example_attachment_def)
  note t1 = cross_account_role_iff_foreign_owner
      [where k = example_sdk and p = "example_props [example_full, example_branch]"
         and out = out1]
  note t2 = cross_account_role_iff_foreign_owner
      [where k = example_sdk and p = "example_props [example_full]" and out = out2]
  from t2 l have f2: "foreignOwners (example_props [example_full]) = []" by blast
  from t1 c have f1: "foreignOwners (example_props [example_full, example_branch]) \<noteq> []"
    by blast
  from t1 o1 f1 a have "roles out1 =
      [Role ''DescribeTransitGatewaysAttachmentsRole''
         ''AWSAccelerator-DescribeTransitGatewayAttachmentsRole''
         [Some ''222222222222''] [''ec2:DescribeTransitGatewayAttachments''] [''*'']]"
    by simp
  moreover from t2 o2 f2 have "roles out2 = []" by simp
  ultimately show ?thesis using o1 o2 f1 f2 by simp
qed

section \<open>Route tables of the gateway endpoints\<close>








text \<open>Only step g adds gateway endpoints, and it hands them the two lists.\<close>

lemma endpointLists_append [simp]:
  "endpointLists (a @ b) = endpointLists a @ endpointLists b"
  by (simp add: endpointLists_def)














section \<open>The account and region filter\<close>

lemma forEach_evaluateVpc_filter:
  "forEach (evaluateVpc k p tgwIds) vs sc =
     forEach (evaluateVpc k p tgwIds) (filter (inContext p) vs) sc"
  by (induction vs arbitrary: sc) (auto simp: evaluateVpc_def split: sum.splits)

lemma accountIdOf_vpcs_update [simp]: "accountIdOf (p\<lparr>vpcs := vs\<rparr>) = accountIdOf p"
  by (simp add: fun_eq_iff accountIdOf_def)

lemma inContext_vpcs_update [simp]: "inContext (p\<lparr>vpcs := vs\<rparr>) = inContext p"
  by (simp add: fun_eq_iff inContext_def)

lemma evaluateTransitGateway_vpcs_update [simp]:
  "evaluateTransitGateway k (p\<lparr>vpcs := vs\<rparr>) = evaluateTransitGateway k p"
  by (simp add: fun_eq_iff evaluateTransitGateway_def Let_def)

lemma createSubnet_vpcs_update [simp]:
  "createSubnet k (p\<lparr>vpcs := vs\<rparr>) = createSubnet k p"
  by (simp add: fun_eq_iff createSubnet_def Let_def split: option.splits)

lemma buildVpc_vpcs_update [simp]: "buildVpc k (p\<lparr>vpcs := vs\<rparr>) = buildVpc k p"
  by (simp add: fun_eq_iff buildVpc_def createSubnets_def)

lemma evaluateVpc_vpcs_update [simp]:
  "evaluateVpc k (p\<lparr>vpcs := vs\<rparr>) = evaluateVpc k p"
  by (simp add: fun_eq_iff evaluateVpc_def)

lemma stackPreamble_vpcs_update [simp]: "stackPreamble (p\<lparr>vpcs := vs\<rparr>) = stackPreamble p"
  by (simp add: stackPreamble_def Let_def)

lemma resolveTransitGateways_filter:
  "resolveTransitGateways k (p\<lparr>vpcs := filter (inContext p) (vpcs p)\<rparr>) sc =
     resolveTransitGateways k p sc"
  by (simp add: resolveTransitGateways_fold referencedAttachments_def)

text \<open>
  Claim C8: a VPC definition whose owning account is not the account of the execution
  context, or whose region is not its region, is skipped by both passes: the resolution
  pass leaves its state as it is and the build returns the scope unchanged, so nothing
  is created or published for it. The synthesis of a configuration is the synthesis of
  its definitions of the current account and region, and with no such definition the
  stack holds what the constructor creates before the passes and nothing more.
\<close>

theorem other_account_or_region_skipped:
  "(accountIdOf p (vpc_account vpcItem) \<noteq> Some (stack_account p) \<or>
    vpc_region vpcItem \<noteq> stack_region p \<longrightarrow>
      evaluateVpcTransitGateways k p vpcItem st = st \<and>
      evaluateVpc k p tgwIds vpcItem sc = Inr sc) \<and>
   NetworkVpcStack k p = NetworkVpcStack k (p\<lparr>vpcs := filter (inContext p) (vpcs p)\<rparr>) \<and>
   ((\<forall>v\<in>set (vpcs p). accountIdOf p (vpc_account v) \<noteq> Some (stack_account p) \<or>
                        vpc_region v \<noteq> stack_region p) \<longrightarrow>
      NetworkVpcStack k p = Inr (stackPreamble p))"
proof (intro conjI impI)
  assume "accountIdOf p (vpc_account vpcItem) \<noteq> Some (stack_account p) \<or>
          vpc_region vpcItem \<noteq> stack_region p"
  then have "\<not> inContext p vpcItem" by (auto simp: inContext_def)
  then show "evaluateVpcTransitGateways k p vpcItem st = st"
    and "evaluateVpc k p tgwIds vpcItem sc = Inr sc"
    by (simp_all add: evaluateVpcTransitGateways_def evaluateVpc_def)
next
  show "NetworkVpcStack k p = NetworkVpcStack k (p\<lparr>vpcs := filter (inContext p) (vpcs p)\<rparr>)"
    unfolding NetworkVpcStack_def Let_def
    using forEach_evaluateVpc_filter[of k p]
    by (simp add: resolveTransitGateways_filter)
next
  assume "\<forall>v\<in>set (vpcs p). accountIdOf p (vpc_account v) \<noteq> Some (stack_account p) \<or>
                             vpc_region v \<noteq> stack_region p"
  then have e: "filter (inContext p) (vpcs p) = []"
    by (auto simp: filter_empty_conv inContext_def)
  have "NetworkVpcStack k p =
        NetworkVpcStack k (p\<lparr>vpcs := filter (inContext p) (vpcs p)\<rparr>)"
    unfolding NetworkVpcStack_def Let_def
    using forEach_evaluateVpc_filter[of k p]
    by (simp add: resolveTransitGateways_filter)
  also have "\<dots> = Inr (stackPreamble p)"
    by (simp add: e NetworkVpcStack_def resolveTransitGateways_def createCrossAccountRole_def)
  finally show "NetworkVpcStack k p = Inr (stackPreamble p)" .
qed

theorem other_account_or_region_skipped_witness:
  "evaluateVpcTransitGateways example_sdk (example_props [])
     (example_elsewhere ''Shared'' ''us-east-1'') example_resolution = example_resolution \<and>
   evaluateVpc example_sdk (example_props []) Map.empty
     (example_elsewhere ''Shared'' ''us-east-1'') [] = Inr [] \<and>
   evaluateVpcTransitGateways example_sdk (example_props [])
     (example_elsewhere ''Network'' ''eu-west-1'') example_resolution = example_resolution \<and>
   evaluateVpc example_sdk (example_props []) Map.empty
     (example_elsewhere ''Network'' ''eu-west-1'') [] = Inr [] \<and>
   NetworkVpcStack example_sdk
     (example_props [example_elsewhere ''Shared'' ''us-east-1'',
                     example_elsewhere ''Network'' ''eu-west-1'']) =
     Inr [StringParameter ''SsmParamStackId'' ''/accelerator/NetworkVpcStack/stack-id''
            ''stack-1''] \<and>
   NetworkVpcStack example_sdk
     (example_props [example_elsewhere ''Shared'' ''us-east-1'', example_vpcItem (Some True),
                     example_elsewhere ''Network'' ''eu-west-1'']) =
     NetworkVpcStack example_sdk (example_props [example_vpcItem (Some True)])"
  using
    other_account_or_region_skipped
      [where p = "example_props []" and vpcItem = "example_elsewhere ''Shared'' ''us-east-1''"
         and k = example_sdk and st = example_resolution and tgwIds = Map.empty and sc = "[]"]
    other_account_or_region_skipped
      [where p = "example_props []" and vpcItem = "example_elsewhere ''Network'' ''eu-west-1''"
         and k = example_sdk and st = example_resolution and tgwIds = Map.empty and sc = "[]"]
    other_account_or_region_skipped
      [where k = example_sdk
         and p = "example_props [example_elsewhere ''Shared'' ''us-east-1'',
                                 example_elsewhere ''Network'' ''eu-west-1'']"]
    other_account_or_region_skipped
      [where k = example_sdk
         and p = "example_props [example_elsewhere ''Shared'' ''us-east-1'',
                                 example_vpcItem (Some True),
                                 example_elsewhere ''Network'' ''eu-west-1'']"]
  by (simp add: example_props_def example_elsewhere_def example_main_def example_vpcItem_def
      inContext_def accountIdOf_def stackPreamble_def)

section \<open>What the error messages report\<close>

text \<open>
  Claim C9, as stated: the message of an unresolved reference reports the offending
  name and the VPC or route table that contains it. In the VPC \<^verbatim>\<open>Main\<close>, the route
  table \<^verbatim>\<open>Public\<close> has an entry of type \<^verbatim>\<open>natGateway\<close> whose target \<^verbatim>\<open>Nat1\<close> is not
  declared. Synthesis throws \<^verbatim>\<open>NAT Gateway Nat1 not found\<close>: the message contains the
  offending name, and neither the name of the VPC nor that of the route table.
\<close>

theorem error_message_context_counterexample:
  "NetworkVpcStack example_sdk
     (example_props
        [example_main [example_routeTable [example_entry (Some ''natGateway'') ''Nat1'']]
           [] [] [] []]) =
     Inl (Error ''NAT Gateway Nat1 not found'') \<and>
   vpc_name (example_main [example_routeTable [example_entry (Some ''natGateway'') ''Nat1'']]
               [] [] [] []) = ''Main'' \<and>
   rtc_name (example_routeTable [example_entry (Some ''natGateway'') ''Nat1'']) = ''Public'' \<and>
   sublist ''Nat1'' ''NAT Gateway Nat1 not found'' \<and>
   \<not> sublist ''Main'' ''NAT Gateway Nat1 not found'' \<and>
   \<not> sublist ''Public'' ''NAT Gateway Nat1 not found''"
  by (simp add: NetworkVpcStack_def resolveTransitGateways_def evaluateVpcTransitGateways_def
      createCrossAccountRole_def evaluateVpc_def buildVpc_def createVpc_def
      createRouteTables_def createRouteTable_def createSubnets_def createNatGateways_def
      createTransitGatewayAttachments_def createRouteTableEntries_def
      addRouteTableEntries_def addRouteTableEntry_def
      new_SecureVpc_def new_SecureRouteTable_def
      stackPreamble_def inContext_def accountIdOf_def
      example_props_def example_main_def example_routeTable_def example_entry_def
      example_sdk_def Let_def sublist_code)

text \<open>
  Claim C9, amended: every configuration-error message raised for an unresolved named
  reference consists of the kind of the missing resource and the offending name
  (\<^verbatim>\<open>Route table N not defined\<close>, \<^verbatim>\<open>Subnet N not defined\<close>,
  \<^verbatim>\<open>Transit Gateway N not found\<close>, \<^verbatim>\<open>Transit Gateway Attachment N not found\<close>,
  \<^verbatim>\<open>NAT Gateway N not found\<close>, \<^verbatim>\<open>Route Table N not found\<close>); it reports the
  offending name, and it does not report the containing VPC or route table.
\<close>

theorem unresolved_reference_messages:
  "(routeTableMap (snc_routeTable subnetItem) = None \<longrightarrow>
      createSubnet k p vpcItem vpc routeTableMap subnetItem st1 =
        Inl (Error (''Route table '' @ snc_routeTable subnetItem @ '' not defined''))) \<and>
   (subnetMap (ngc_subnet natGatewayItem) = None \<longrightarrow>
      createNatGateway k vpcItem subnetMap natGatewayItem st2 =
        Inl (Error (''Subnet '' @ ngc_subnet natGatewayItem @ '' not defined''))) \<and>
   (tgwIds (tgw_name (att_transitGateway tgwAttachmentItem)) = None \<longrightarrow>
      createTransitGatewayAttachment k vpcItem vpc tgwIds subnetMap tgwAttachmentItem st3 =
        Inl (Error (''Transit Gateway '' @ tgw_name (att_transitGateway tgwAttachmentItem) @
                    '' not found''))) \<and>
   (tgwIds' (tgw_name (att_transitGateway tgwAttachmentItem)) \<noteq> None \<and>
    sn \<in> set (att_subnets tgwAttachmentItem) \<and> subnetMap sn = None \<longrightarrow>
      (\<exists>sn'\<in>set (att_subnets tgwAttachmentItem). subnetMap sn' = None \<and>
         createTransitGatewayAttachment k vpcItem vpc tgwIds' subnetMap tgwAttachmentItem st3 =
           Inl (Error (''Subnet '' @ sn' @ '' not defined'')))) \<and>
   (rte_type tgwEntry = Some ''transitGateway'' \<and> tgwIds (rte_target tgwEntry) = None \<longrightarrow>
      addRouteTableEntry k vpcItem tgwIds natGatewayMap attachments routeTableItem rt
        tgwEntry st4 =
        Inl (Error (''Transit Gateway '' @ rte_target tgwEntry @ '' not found''))) \<and>
   (rte_type tgwEntry = Some ''transitGateway'' \<and> tgwIds' (rte_target tgwEntry) \<noteq> None \<and>
    attachments (rte_target tgwEntry) = None \<longrightarrow>
      addRouteTableEntry k vpcItem tgwIds' natGatewayMap attachments routeTableItem rt
        tgwEntry st4 =
        Inl (Error (''Transit Gateway Attachment '' @ rte_target tgwEntry @ '' not found''))) \<and>
   (rte_type natEntry = Some ''natGateway'' \<and> natGatewayMap (rte_target natEntry) = None \<longrightarrow>
      addRouteTableEntry k vpcItem tgwIds natGatewayMap attachments routeTableItem rt
        natEntry st4 =
        Inl (Error (''NAT Gateway '' @ rte_target natEntry @ '' not found''))) \<and>
   (routeTableMap (rtc_name routeTableItem) = None \<longrightarrow>
      addRouteTableEntries k vpcItem tgwIds routeTableMap natGatewayMap attachments
        routeTableItem st4 =
        Inl (Error (''Route Table '' @ rtc_name routeTableItem @ '' not found'')))"
proof (intro conjI impI)
  assume "routeTableMap (snc_routeTable subnetItem) = None"
  then show "createSubnet k p vpcItem vpc routeTableMap subnetItem st1 =
      Inl (Error (''Route table '' @ snc_routeTable subnetItem @ '' not defined''))"
    by (rule createSubnet_unresolved[where routeTableMap = routeTableMap])
next
  assume "subnetMap (ngc_subnet natGatewayItem) = None"
  then show "createNatGateway k vpcItem subnetMap natGatewayItem st2 =
      Inl (Error (''Subnet '' @ ngc_subnet natGatewayItem @ '' not defined''))"
    by (rule createNatGateway_unresolved[where subnetMap = subnetMap])
next
  assume "tgwIds (tgw_name (att_transitGateway tgwAttachmentItem)) = None"
  then show "createTransitGatewayAttachment k vpcItem vpc tgwIds subnetMap tgwAttachmentItem
      st3 = Inl (Error (''Transit Gateway '' @ tgw_name (att_transitGateway tgwAttachmentItem) @
                        '' not found''))"
    by (rule createTransitGatewayAttachment_unresolved_gateway[where tgwIds = tgwIds])
next
  assume "tgwIds' (tgw_name (att_transitGateway tgwAttachmentItem)) \<noteq> None \<and>
          sn \<in> set (att_subnets tgwAttachmentItem) \<and> subnetMap sn = None"
  then show "\<exists>sn'\<in>set (att_subnets tgwAttachmentItem). subnetMap sn' = None \<and>
      createTransitGatewayAttachment k vpcItem vpc tgwIds' subnetMap tgwAttachmentItem st3 =
        Inl (Error (''Subnet '' @ sn' @ '' not defined''))"
    using createTransitGatewayAttachment_unresolved_subnet[of tgwIds' tgwAttachmentItem sn
        subnetMap k vpcItem vpc st3]
    by blast
next
  assume "rte_type tgwEntry = Some ''transitGateway'' \<and> tgwIds (rte_target tgwEntry) = None"
  then show "addRouteTableEntry k vpcItem tgwIds natGatewayMap attachments routeTableItem rt
      tgwEntry st4 = Inl (Error (''Transit Gateway '' @ rte_target tgwEntry @ '' not found''))"
    by (simp add: addRouteTableEntry_unresolved_gateway)
next
  assume "rte_type tgwEntry = Some ''transitGateway'' \<and> tgwIds' (rte_target tgwEntry) \<noteq> None \<and>
          attachments (rte_target tgwEntry) = None"
  then show "addRouteTableEntry k vpcItem tgwIds' natGatewayMap attachments routeTableItem rt
      tgwEntry st4 =
      Inl (Error (''Transit Gateway Attachment '' @ rte_target tgwEntry @ '' not found''))"
    by (simp add: addRouteTableEntry_unresolved_attachment)
next
  assume "rte_type natEntry = Some ''natGateway'' \<and> natGatewayMap (rte_target natEntry) = None"
  then show "addRouteTableEntry k vpcItem tgwIds natGatewayMap attachments routeTableItem rt
      natEntry st4 = Inl (Error (''NAT Gateway '' @ rte_target natEntry @ '' not found''))"
    by (simp add: addRouteTableEntry_unresolved_natGateway)
next
  assume "routeTableMap (rtc_name routeTableItem) = None"
  then show "addRouteTableEntries k vpcItem tgwIds routeTableMap natGatewayMap attachments
      routeTableItem st4 = Inl (Error (''Route Table '' @ rtc_name routeTableItem @ '' not found''))"
    by (simp add: addRouteTableEntries_def)
qed

theorem unresolved_reference_messages_witness:
  "createSubnet example_sdk (example_props []) (example_main [] [] [] [] [])
     (example_vpc None) Map.empty (example_subnet ''Missing'') (Map.empty, []) =
     Inl (Error ''Route table Missing not defined'') \<and>
   createNatGateway example_sdk (example_main [] [] [] [] []) Map.empty
     (example_nat ''Missing'') (Map.empty, []) = Inl (Error ''Subnet Missing not defined'') \<and>
   createTransitGatewayAttachment example_sdk (example_main [] [] [] [] [])
     (example_vpc None) Map.empty Map.empty
     (example_attachment ''Att1'' ''Tgw1'' ''Network'' [''Missing'']) (Map.empty, []) =
     Inl (Error ''Transit Gateway Tgw1 not found'') \<and>
   createTransitGatewayAttachment example_sdk (example_main [] [] [] [] [])
     (example_vpc None) [''Tgw1'' \<mapsto> ''tgw-1''] Map.empty
     (example_attachment ''Att1'' ''Tgw1'' ''Network'' [''Missing'']) (Map.empty, []) =
     Inl (Error ''Subnet Missing not defined'') \<and>
   addRouteTableEntry example_sdk (example_main [] [] [] [] []) Map.empty Map.empty
     Map.empty (example_routeTable []) (example_rt None)
     (example_entry (Some ''transitGateway'') ''Tgw1'') example_routing =
     Inl (Error ''Transit Gateway Tgw1 not found'') \<and>
   addRouteTableEntry example_sdk (example_main [] [] [] [] [])
     [''Tgw1'' \<mapsto> ''tgw-1''] Map.empty Map.empty (example_routeTable [])
     (example_rt None) (example_entry (Some ''transitGateway'') ''Tgw1'') example_routing =
     Inl (Error ''Transit Gateway Attachment Tgw1 not found'') \<and>
   addRouteTableEntry example_sdk (example_main [] [] [] [] []) Map.empty Map.empty
     Map.empty (example_routeTable []) (example_rt None)
     (example_entry (Some ''natGateway'') ''Nat1'') example_routing =
     Inl (Error ''NAT Gateway Nat1 not found'') \<and>
   addRouteTableEntries example_sdk (example_main [] [] [] [] []) Map.empty Map.empty
     Map.empty Map.empty (example_routeTable []) example_routing =
     Inl (Error ''Route Table Public not found'')"
  using unresolved_reference_messages
    [where routeTableMap = Map.empty and subnetItem = "example_subnet ''Missing''"
       and k = example_sdk and p = "example_props []"
       and vpcItem = "example_main [] [] [] [] []" and vpc = "example_vpc None"
       and ?st1.0 = "(Map.empty, [])"
       and subnetMap = Map.empty and natGatewayItem = "example_nat ''Missing''"
       and ?st2.0 = "(Map.empty, [])"
       and tgwIds = Map.empty
       and tgwAttachmentItem = "example_attachment ''Att1'' ''Tgw1'' ''Network'' [''Missing'']"
       and ?st3.0 = "(Map.empty, [])"
       and tgwIds' = "[''Tgw1'' \<mapsto> ''tgw-1'']" and sn = "''Missing''"
       and tgwEntry = "example_entry (Some ''transitGateway'') ''Tgw1''"
       and natGatewayMap = Map.empty and attachments = Map.empty
       and routeTableItem = "example_routeTable []" and rt = "example_rt None"
       and ?st4.0 = example_routing
       and natEntry = "example_entry (Some ''natGateway'') ''Nat1''"]
  by (simp add: example_subnet_def example_nat_def example_attachment_def example_entry_def
      example_routeTable_def)

section \<open>Route entries that match no branch\<close>

text \<open>
  Claim C10: a route entry whose type is none of \<^verbatim>\<open>transitGateway\<close>, \<^verbatim>\<open>natGateway\<close>,
  \<^verbatim>\<open>internetGateway\<close> and whose target is neither \<^verbatim>\<open>s3\<close> nor \<^verbatim>\<open>dynamodb\<close> is skipped:
  the step returns normally and leaves the scope and both endpoint lists as they were.
\<close>

theorem route_entry_without_branch_skipped:
  "rte_type entry \<noteq> Some ''transitGateway'' \<Longrightarrow>
   rte_type entry \<noteq> Some ''natGateway'' \<Longrightarrow>
   rte_type entry \<noteq> Some ''internetGateway'' \<Longrightarrow>
   rte_target entry \<noteq> ''s3'' \<Longrightarrow> rte_target entry \<noteq> ''dynamodb'' \<Longrightarrow>
     addRouteTableEntry k vpcItem tgwIds natGatewayMap attachments routeTableItem rt entry st =
       Inr st"
  by (simp add: addRouteTableEntry_def)

theorem route_entry_without_branch_skipped_witness:
  "addRouteTableEntry example_sdk (example_main [] [] [] [] []) Map.empty Map.empty Map.empty
     (example_routeTable []) (example_rt None) (example_entry (Some ''vpcPeering'') ''Peer1'')
     example_routing = Inr example_routing \<and>
   addRouteTableEntry example_sdk (example_main [] [] [] [] []) Map.empty Map.empty Map.empty
     (example_routeTable []) (example_rt None) (example_entry None ''kinesis'')
     example_routing = Inr example_routing"
  using
    route_entry_without_branch_skipped
      [of "example_entry (Some ''vpcPeering'') ''Peer1''" example_sdk
          "example_main [] [] [] [] []" Map.empty Map.empty Map.empty "example_routeTable []"
          "example_rt None" example_routing]
    route_entry_without_branch_skipped
      [of "example_entry None ''kinesis''" example_sdk
          "example_main [] [] [] [] []" Map.empty Map.empty Map.empty "example_routeTable []"
          "example_rt None" example_routing]
  by (simp add: example_entry_def)

end
